theory Spec2Isabelle
  imports Main
begin

section \<open>Common conventions\<close>

text \<open>
  Go strings are byte sequences, so a string is a \<open>char list\<close> holding the UTF-8 bytes; the
  Chinese literals of the source are written out byte by byte. A Go \<open>error\<close> is its message;
  a function returning \<open>error\<close> returns \<open>error option\<close> (\<open>None\<close> is \<open>nil\<close>), a function
  returning \<open>(T, error)\<close> returns \<open>error + T\<close>. A reading of \<open>time.Now()\<close> is an
  argument of the function that takes it.
\<close>

type_synonym error = string
type_synonym time = int

section \<open>pkg/tools/registry.go: the tool registry\<close>

text \<open>
  \<open>ToolFunction\<close> is an interface; a tool is the record of its four methods. The argument
  mappings (\<open>map[string]interface{}\<close>) are values of a type \<open>'a\<close>, the result mappings values of
  \<open>'r option\<close> (\<open>None\<close> is the \<open>nil\<close> map). \<open>Call\<close> may read and change the tool's own data and
  the outside world, a state of type \<open>'w\<close>; Go lets it return a mapping together with an error.
\<close>

record ('a, 'r, 'w) ToolFunction =
  GetName :: string
  GetDescription :: string
  GetParameters :: 'a
  Call :: "'a \<Rightarrow> 'w \<Rightarrow> ('r option \<times> error option) \<times> 'w"

record ('a, 'r, 'w) ToolRegistry =
  tools :: "string \<rightharpoonup> ('a, 'r, 'w) ToolFunction"

definition NewToolRegistry :: "('a, 'r, 'w) ToolRegistry" where
  "NewToolRegistry = \<lparr>tools = Map.empty\<rparr>"

text \<open>\<open>RegisterTool\<close>: the argument is \<open>None\<close> for a \<open>nil\<close> interface value.\<close>

definition RegisterTool ::
  "('a, 'r, 'w) ToolRegistry \<Rightarrow> ('a, 'r, 'w) ToolFunction option
     \<Rightarrow> error option \<times> ('a, 'r, 'w) ToolRegistry" where
  "RegisterTool r tool =
     (case tool of
        None \<Rightarrow> (Some ''tool cannot be nil'', r)
      | Some t \<Rightarrow>
          (let name = GetName t in
           if name = [] then (Some ''tool name cannot be empty'', r)
           else if tools r name \<noteq> None
             then (Some (''tool with name '' @ [CHR 0x27] @ name @ [CHR 0x27] @ '' already registered''), r)
           else (None, r\<lparr>tools := (tools r)(name \<mapsto> t)\<rparr>)))"

definition GetTool ::
  "('a, 'r, 'w) ToolRegistry \<Rightarrow> string \<Rightarrow> ('a, 'r, 'w) ToolFunction option" where
  "GetTool r name = tools r name"

definition UnregisterTool ::
  "('a, 'r, 'w) ToolRegistry \<Rightarrow> string \<Rightarrow> error option \<times> ('a, 'r, 'w) ToolRegistry" where
  "UnregisterTool r name =
     (if tools r name = None
        then (Some (''tool '' @ [CHR 0x27] @ name @ [CHR 0x27] @ '' not found''), r)
      else (None, r\<lparr>tools := (tools r)(name := None)\<rparr>))"

text \<open>The duplicate-name error of \<open>RegisterTool\<close>, as a predicate on its result.\<close>

definition is_duplicate_error :: "string \<Rightarrow> error option \<Rightarrow> bool" where
  "is_duplicate_error name e =
     (e = Some (''tool with name '' @ [CHR 0x27] @ name @ [CHR 0x27] @ '' already registered''))"

section \<open>pkg/conversation/state.go: the session store\<close>

text \<open>
  The values kept in a session's context are strings and booleans in this package; any other
  dynamic type is \<open>VOther\<close>.
\<close>

datatype ctxval = VString string | VBool bool | VOther

record Message =
  msg_Role :: string
  msg_Content :: string
  Timestamp :: time
  Metadata :: "(string \<rightharpoonup> ctxval) option"

record ConversationState =
  SessionID :: string
  UserID :: string
  CurrentStep :: string
  Context :: "string \<rightharpoonup> ctxval"
  History :: "Message list"
  LastActivity :: time
  CreatedAt :: time

text \<open>
  \<open>StateManager.states\<close> maps a session id to a pointer to its state. Every pointer the
  package hands out points into this table, so the table is the store: a write through a
  pointer is a write to the table's entry. The mutex is not modelled: operations are taken
  one at a time.
\<close>

record StateManager =
  states :: "string \<rightharpoonup> ConversationState"

definition NewStateManager :: StateManager where
  "NewStateManager = \<lparr>states = Map.empty\<rparr>"

definition GetState :: "StateManager \<Rightarrow> string \<Rightarrow> ConversationState option" where
  "GetState sm sessionID = states sm sessionID"

definition CreateState ::
  "time \<Rightarrow> StateManager \<Rightarrow> string \<Rightarrow> string \<Rightarrow> ConversationState \<times> StateManager" where
  "CreateState now sm sessionID userID =
     (let state = \<lparr>SessionID = sessionID, UserID = userID, CurrentStep = ''greeting'',
                    Context = Map.empty, History = [], LastActivity = now, CreatedAt = now\<rparr>
      in (state, sm\<lparr>states := (states sm)(sessionID \<mapsto> state)\<rparr>))"

definition ErrStateNotFound :: error where
  "ErrStateNotFound = ''conversation state not found''"

definition UpdateState ::
  "time \<Rightarrow> StateManager \<Rightarrow> string \<Rightarrow> (ConversationState \<Rightarrow> ConversationState)
     \<Rightarrow> error option \<times> StateManager" where
  "UpdateState now sm sessionID updateFunc =
     (case states sm sessionID of
        None \<Rightarrow> (Some ErrStateNotFound, sm)
      | Some state \<Rightarrow>
          (None, sm\<lparr>states := (states sm)(sessionID \<mapsto> (updateFunc state)\<lparr>LastActivity := now\<rparr>)\<rparr>))"

definition AddMessage ::
  "time \<Rightarrow> StateManager \<Rightarrow> string \<Rightarrow> string \<Rightarrow> string \<Rightarrow> (string \<rightharpoonup> ctxval) option
     \<Rightarrow> error option \<times> StateManager" where
  "AddMessage now sm sessionID role content metadata =
     UpdateState now sm sessionID
       (\<lambda>state. state\<lparr>History := History state @
          [\<lparr>msg_Role = role, msg_Content = content, Timestamp = now, Metadata = metadata\<rparr>]\<rparr>)"

definition SetCurrentStep ::
  "time \<Rightarrow> StateManager \<Rightarrow> string \<Rightarrow> string \<Rightarrow> error option \<times> StateManager" where
  "SetCurrentStep now sm sessionID step =
     UpdateState now sm sessionID (\<lambda>state. state\<lparr>CurrentStep := step\<rparr>)"

definition SetContext ::
  "time \<Rightarrow> StateManager \<Rightarrow> string \<Rightarrow> string \<Rightarrow> ctxval \<Rightarrow> error option \<times> StateManager" where
  "SetContext now sm sessionID key v =
     UpdateState now sm sessionID (\<lambda>state. state\<lparr>Context := (Context state)(key \<mapsto> v)\<rparr>)"

definition GetContext :: "StateManager \<Rightarrow> string \<Rightarrow> string \<Rightarrow> ctxval option" where
  "GetContext sm sessionID key =
     (case states sm sessionID of None \<Rightarrow> None | Some state \<Rightarrow> Context state key)"

definition RemoveState :: "StateManager \<Rightarrow> string \<Rightarrow> StateManager" where
  "RemoveState sm sessionID = sm\<lparr>states := (states sm)(sessionID := None)\<rparr>"

text \<open>\<open>Manager.GetOrCreateState\<close> (the manager's step machine is added to it further down).\<close>

definition GetOrCreateState ::
  "time \<Rightarrow> StateManager \<Rightarrow> string \<Rightarrow> string \<Rightarrow> ConversationState \<times> StateManager" where
  "GetOrCreateState now sm sessionID userID =
     (case GetState sm sessionID of
        None \<Rightarrow> CreateState now sm sessionID userID
      | Some state \<Rightarrow> (state, sm))"

section \<open>pkg/conversation: the dialogue step machine\<close>

subsection \<open>Strings and regular expressions\<close>

text \<open>
  \<open>strings.Contains\<close> and the two regular expressions of the package work on the bytes of the
  text. The character classes \<open>\w\<close>, \<open>\d\<close> and \<open>[A-Za-z]\<close> of Go's \<open>regexp\<close> hold ASCII
  characters only, and no byte of a multi-byte UTF-8 character is an ASCII byte.
\<close>

fun strings_HasPrefix :: "string \<Rightarrow> string \<Rightarrow> bool" where
  "strings_HasPrefix s [] = True"
| "strings_HasPrefix [] (p # ps) = False"
| "strings_HasPrefix (c # cs) (p # ps) = (c = p \<and> strings_HasPrefix cs ps)"

fun strings_Contains :: "string \<Rightarrow> string \<Rightarrow> bool" where
  "strings_Contains [] substr = (substr = [])"
| "strings_Contains (c # cs) substr =
     (strings_HasPrefix (c # cs) substr \<or> strings_Contains cs substr)"

definition is_digit :: "char \<Rightarrow> bool" where
  "is_digit c = (c \<in> set ''0123456789'')"

definition is_letter :: "char \<Rightarrow> bool" where
  "is_letter c = (c \<in> set ''ABCDEFGHIJKLMNOPQRSTUVWXYZabcdefghijklmnopqrstuvwxyz'')"

definition is_word_char :: "char \<Rightarrow> bool" where
  "is_word_char c = (is_letter c \<or> is_digit c \<or> c = CHR ''_'')"

text \<open>
  The regular expression \<open>ORD\w+\<close>: a match at the start of \<open>s\<close>, and the leftmost match in
  \<open>s\<close> (\<open>FindStringSubmatch\<close>; the expression has no group, so the result holds the whole
  match only, and \<open>None\<close> is the \<open>nil\<close> result). \<open>\w+\<close> is greedy.
\<close>

definition match_ORD_word :: "string \<Rightarrow> string option" where
  "match_ORD_word s =
     (if take 3 s = ''ORD'' \<and> takeWhile is_word_char (drop 3 s) \<noteq> []
      then Some (''ORD'' @ takeWhile is_word_char (drop 3 s)) else None)"

fun find_ORD_word :: "string \<Rightarrow> string option" where
  "find_ORD_word [] = None"
| "find_ORD_word (c # cs) =
     (case match_ORD_word (c # cs) of Some m \<Rightarrow> Some m | None \<Rightarrow> find_ORD_word cs)"

subsection \<open>The steps (flow.go)\<close>

text \<open>
  \<open>ConversationStep\<close> is an interface; a step is the record of its three methods. \<open>Execute\<close>
  gets a pointer to the session state and may write to it: it returns the state it leaves.
\<close>

record ConversationStep =
  step_GetName :: string
  Execute :: "ConversationState \<Rightarrow> string \<Rightarrow> (error + string) \<times> ConversationState"
  CanTransition :: "ConversationState \<Rightarrow> string \<Rightarrow> bool"

record StepRegistry =
  steps :: "string \<rightharpoonup> ConversationStep"

definition NewStepRegistry :: StepRegistry where
  "NewStepRegistry = \<lparr>steps = Map.empty\<rparr>"

definition Register :: "StepRegistry \<Rightarrow> ConversationStep \<Rightarrow> StepRegistry" where
  "Register r step = r\<lparr>steps := (steps r)(step_GetName step \<mapsto> step)\<rparr>"

record ConversationFlow =
  registry :: StepRegistry


text \<open>The Chinese literals of flow.go and manager.go, as UTF-8 bytes.\<close>

definition kw_check_order :: string where
  "kw_check_order =
     [CHR 0xE6, CHR 0x9F, CHR 0xA5, CHR 0xE8, CHR 0xAE, CHR 0xA2, CHR 0xE5, CHR 0x8D, CHR 0x95]"

definition kw_order :: string where
  "kw_order =
     [CHR 0xE8, CHR 0xAE, CHR 0xA2, CHR 0xE5, CHR 0x8D, CHR 0x95]"

definition kw_refund :: string where
  "kw_refund =
     [CHR 0xE9, CHR 0x80, CHR 0x80, CHR 0xE6, CHR 0xAC, CHR 0xBE]"

definition kw_return_order :: string where
  "kw_return_order =
     [CHR 0xE9, CHR 0x80, CHR 0x80, CHR 0xE5, CHR 0x8D, CHR 0x95]"

definition ask_order_id :: string where
  "ask_order_id =
     [CHR 0xE8, CHR 0xAF, CHR 0xB7, CHR 0xE6, CHR 0x8F, CHR 0x90, CHR 0xE4, CHR 0xBE, CHR 0x9B,
     CHR 0xE6, CHR 0x82, CHR 0xA8, CHR 0xE7, CHR 0x9A, CHR 0x84, CHR 0xE8, CHR 0xAE, CHR 0xA2,
     CHR 0xE5, CHR 0x8D, CHR 0x95, CHR 0xE5, CHR 0x8F, CHR 0xB7, CHR 0xEF, CHR 0xBC, CHR 0x8C,
     CHR 0xE4, CHR 0xBB, CHR 0xA5, CHR 0xE4, CHR 0xBE, CHR 0xBF, CHR 0xE6, CHR 0x88, CHR 0x91,
     CHR 0xE4, CHR 0xB8, CHR 0xBA, CHR 0xE6, CHR 0x82, CHR 0xA8, CHR 0xE6, CHR 0x9F, CHR 0xA5,
     CHR 0xE8, CHR 0xAF, CHR 0xA2, CHR 0xE8, CHR 0xAE, CHR 0xA2, CHR 0xE5, CHR 0x8D, CHR 0x95,
     CHR 0xE4, CHR 0xBF, CHR 0xA1, CHR 0xE6, CHR 0x81, CHR 0xAF, CHR 0xE3, CHR 0x80, CHR 0x82]"

definition ask_order_id_and_reason :: string where
  "ask_order_id_and_reason =
     [CHR 0xE8, CHR 0xAF, CHR 0xB7, CHR 0xE6, CHR 0x8F, CHR 0x90, CHR 0xE4, CHR 0xBE, CHR 0x9B,
     CHR 0xE6, CHR 0x82, CHR 0xA8, CHR 0xE7, CHR 0x9A, CHR 0x84, CHR 0xE8, CHR 0xAE, CHR 0xA2,
     CHR 0xE5, CHR 0x8D, CHR 0x95, CHR 0xE5, CHR 0x8F, CHR 0xB7, CHR 0xE5, CHR 0x92, CHR 0x8C,
     CHR 0xE9, CHR 0x80, CHR 0x80, CHR 0xE6, CHR 0xAC, CHR 0xBE, CHR 0xE5, CHR 0x8E, CHR 0x9F,
     CHR 0xE5, CHR 0x9B, CHR 0xA0, CHR 0xEF, CHR 0xBC, CHR 0x8C, CHR 0xE6, CHR 0x88, CHR 0x91,
     CHR 0xE5, CHR 0xB0, CHR 0x86, CHR 0xE4, CHR 0xB8, CHR 0xBA, CHR 0xE6, CHR 0x82, CHR 0xA8,
     CHR 0xE5, CHR 0xA4, CHR 0x84, CHR 0xE7, CHR 0x90, CHR 0x86, CHR 0xE9, CHR 0x80, CHR 0x80,
     CHR 0xE6, CHR 0xAC, CHR 0xBE, CHR 0xE7, CHR 0x94, CHR 0xB3, CHR 0xE8, CHR 0xAF, CHR 0xB7,
     CHR 0xE3, CHR 0x80, CHR 0x82]"

definition greeting_reply :: string where
  "greeting_reply =
     [CHR 0xE6, CHR 0x82, CHR 0xA8, CHR 0xE5, CHR 0xA5, CHR 0xBD, CHR 0xEF, CHR 0xBC, CHR 0x81,
     CHR 0xE6, CHR 0x88, CHR 0x91, CHR 0xE6, CHR 0x98, CHR 0xAF, CHR 0xE6, CHR 0x99, CHR 0xBA,
     CHR 0xE8, CHR 0x83, CHR 0xBD, CHR 0xE5, CHR 0xAE, CHR 0xA2, CHR 0xE6, CHR 0x9C, CHR 0x8D,
     CHR 0xE5, CHR 0x8A, CHR 0xA9, CHR 0xE6, CHR 0x89, CHR 0x8B, CHR 0xEF, CHR 0xBC, CHR 0x8C,
     CHR 0xE5, CHR 0x8F, CHR 0xAF, CHR 0xE4, CHR 0xBB, CHR 0xA5, CHR 0xE5, CHR 0xB8, CHR 0xAE,
     CHR 0xE6, CHR 0x82, CHR 0xA8, CHR 0xE6, CHR 0x9F, CHR 0xA5, CHR 0xE8, CHR 0xAF, CHR 0xA2,
     CHR 0xE8, CHR 0xAE, CHR 0xA2, CHR 0xE5, CHR 0x8D, CHR 0x95, CHR 0xE3, CHR 0x80, CHR 0x81,
     CHR 0xE5, CHR 0xA4, CHR 0x84, CHR 0xE7, CHR 0x90, CHR 0x86, CHR 0xE9, CHR 0x80, CHR 0x80,
     CHR 0xE6, CHR 0xAC, CHR 0xBE, CHR 0xE7, CHR 0xAD, CHR 0x89, CHR 0xE3, CHR 0x80, CHR 0x82,
     CHR 0xE8, CHR 0xAF, CHR 0xB7, CHR 0xE9, CHR 0x97, CHR 0xAE, CHR 0xE6, CHR 0x9C, CHR 0x89,
     CHR 0xE4, CHR 0xBB, CHR 0x80, CHR 0xE4, CHR 0xB9, CHR 0x88, CHR 0xE5, CHR 0x8F, CHR 0xAF,
     CHR 0xE4, CHR 0xBB, CHR 0xA5, CHR 0xE5, CHR 0xB8, CHR 0xAE, CHR 0xE5, CHR 0x8A, CHR 0xA9,
     CHR 0xE6, CHR 0x82, CHR 0xA8, CHR 0xE7, CHR 0x9A, CHR 0x84, CHR 0xEF, CHR 0xBC, CHR 0x9F]"

definition no_order_id_reply :: string where
  "no_order_id_reply =
     [CHR 0xE6, CHR 0x8A, CHR 0xB1, CHR 0xE6, CHR 0xAD, CHR 0x89, CHR 0xEF, CHR 0xBC, CHR 0x8C,
     CHR 0xE6, CHR 0x88, CHR 0x91, CHR 0xE6, CHR 0xB2, CHR 0xA1, CHR 0xE6, CHR 0x9C, CHR 0x89,
     CHR 0xE6, CHR 0x89, CHR 0xBE, CHR 0xE5, CHR 0x88, CHR 0xB0, CHR 0xE6, CHR 0x9C, CHR 0x89,
     CHR 0xE6, CHR 0x95, CHR 0x88, CHR 0xE7, CHR 0x9A, CHR 0x84, CHR 0xE8, CHR 0xAE, CHR 0xA2,
     CHR 0xE5, CHR 0x8D, CHR 0x95, CHR 0xE5, CHR 0x8F, CHR 0xB7, CHR 0xE3, CHR 0x80, CHR 0x82,
     CHR 0xE8, CHR 0xAF, CHR 0xB7, CHR 0xE6, CHR 0x8F, CHR 0x90, CHR 0xE4, CHR 0xBE, CHR 0x9B,
     CHR 0xE6, CHR 0x82, CHR 0xA8, CHR 0xE7, CHR 0x9A, CHR 0x84, CHR 0xE8, CHR 0xAE, CHR 0xA2,
     CHR 0xE5, CHR 0x8D, CHR 0x95, CHR 0xE5, CHR 0x8F, CHR 0xB7, CHR 0xEF, CHR 0xBC, CHR 0x8C,
     CHR 0xE6, CHR 0xA0, CHR 0xBC, CHR 0xE5, CHR 0xBC, CHR 0x8F, CHR 0xE9, CHR 0x80, CHR 0x9A,
     CHR 0xE5, CHR 0xB8, CHR 0xB8, CHR 0xE4, CHR 0xB8, CHR 0xBA, CHR 0x27] @ ''ORD'' @
     [CHR 0x27, CHR 0xE5, CHR 0xBC, CHR 0x80, CHR 0xE5, CHR 0xA4, CHR 0xB4, CHR 0xE7, CHR 0x9A,
     CHR 0x84, CHR 0xE5, CHR 0xAD, CHR 0x97, CHR 0xE7, CHR 0xAC, CHR 0xA6, CHR 0xE4, CHR 0xB8,
     CHR 0xB2, CHR 0xE3, CHR 0x80, CHR 0x82]"

definition order_result_head :: string where
  "order_result_head =
     [CHR 0xE8, CHR 0xAE, CHR 0xA2, CHR 0xE5, CHR 0x8D, CHR 0x95, CHR 0xE6, CHR 0x9F, CHR 0xA5,
     CHR 0xE8, CHR 0xAF, CHR 0xA2, CHR 0xE7, CHR 0xBB, CHR 0x93, CHR 0xE6, CHR 0x9E, CHR 0x9C,
     CHR 0xEF, CHR 0xBC, CHR 0x9A, CHR 0x0A, CHR 0xE8, CHR 0xAE, CHR 0xA2, CHR 0xE5, CHR 0x8D,
     CHR 0x95, CHR 0xE5, CHR 0x8F, CHR 0xB7, CHR 0xEF, CHR 0xBC, CHR 0x9A]"

definition ask_refund_reason :: string where
  "ask_refund_reason =
     [CHR 0xE8, CHR 0xAF, CHR 0xB7, CHR 0xE8, CHR 0xAF, CHR 0xB4, CHR 0xE6, CHR 0x98, CHR 0x8E,
     CHR 0xE6, CHR 0x82, CHR 0xA8, CHR 0xE7, CHR 0x9A, CHR 0x84, CHR 0xE9, CHR 0x80, CHR 0x80,
     CHR 0xE6, CHR 0xAC, CHR 0xBE, CHR 0xE5, CHR 0x8E, CHR 0x9F, CHR 0xE5, CHR 0x9B, CHR 0xA0,
     CHR 0xEF, CHR 0xBC, CHR 0x8C, CHR 0xE4, CHR 0xBE, CHR 0x8B, CHR 0xE5, CHR 0xA6, CHR 0x82,
     CHR 0xEF, CHR 0xBC, CHR 0x9A, CHR 0xE5, CHR 0x95, CHR 0x86, CHR 0xE5, CHR 0x93, CHR 0x81,
     CHR 0xE8, CHR 0xB4, CHR 0xA8, CHR 0xE9, CHR 0x87, CHR 0x8F, CHR 0xE9, CHR 0x97, CHR 0xAE,
     CHR 0xE9, CHR 0xA2, CHR 0x98, CHR 0xE3, CHR 0x80, CHR 0x81, CHR 0xE4, CHR 0xB8, CHR 0x8D,
     CHR 0xE6, CHR 0x83, CHR 0xB3, CHR 0xE8, CHR 0xA6, CHR 0x81, CHR 0xE4, CHR 0xBA, CHR 0x86,
     CHR 0xE3, CHR 0x80, CHR 0x81, CHR 0xE5, CHR 0x8F, CHR 0x91, CHR 0xE9, CHR 0x94, CHR 0x99,
     CHR 0xE8, CHR 0xB4, CHR 0xA7, CHR 0xE7, CHR 0xAD, CHR 0x89, CHR 0xE3, CHR 0x80, CHR 0x82]"

definition refund_result_head :: string where
  "refund_result_head =
     [CHR 0xE9, CHR 0x80, CHR 0x80, CHR 0xE6, CHR 0xAC, CHR 0xBE, CHR 0xE7, CHR 0x94, CHR 0xB3,
     CHR 0xE8, CHR 0xAF, CHR 0xB7, CHR 0xE7, CHR 0xBB, CHR 0x93, CHR 0xE6, CHR 0x9E, CHR 0x9C,
     CHR 0xEF, CHR 0xBC, CHR 0x9A, CHR 0x0A, CHR 0xE8, CHR 0xAE, CHR 0xA2, CHR 0xE5, CHR 0x8D,
     CHR 0x95, CHR 0xE5, CHR 0x8F, CHR 0xB7, CHR 0xEF, CHR 0xBC, CHR 0x9A]"

definition reason_quality :: string where
  "reason_quality =
     [CHR 0xE8, CHR 0xB4, CHR 0xA8, CHR 0xE9, CHR 0x87, CHR 0x8F, CHR 0xE9, CHR 0x97, CHR 0xAE,
     CHR 0xE9, CHR 0xA2, CHR 0x98]"

definition reason_unwanted :: string where
  "reason_unwanted =
     [CHR 0xE4, CHR 0xB8, CHR 0x8D, CHR 0xE6, CHR 0x83, CHR 0xB3, CHR 0xE8, CHR 0xA6, CHR 0x81,
     CHR 0xE4, CHR 0xBA, CHR 0x86]"

definition reason_wrong_item :: string where
  "reason_wrong_item =
     [CHR 0xE5, CHR 0x8F, CHR 0x91, CHR 0xE9, CHR 0x94, CHR 0x99, CHR 0xE8, CHR 0xB4, CHR 0xA7]"

definition reason_damaged :: string where
  "reason_damaged =
     [CHR 0xE6, CHR 0x8D, CHR 0x9F, CHR 0xE5, CHR 0x9D, CHR 0x8F]"

definition reason_not_as_described :: string where
  "reason_not_as_described =
     [CHR 0xE4, CHR 0xB8, CHR 0x8D, CHR 0xE7, CHR 0xAC, CHR 0xA6, CHR 0xE5, CHR 0x90, CHR 0x88,
     CHR 0xE6, CHR 0x8F, CHR 0x8F, CHR 0xE8, CHR 0xBF, CHR 0xB0]"

definition order_status_text :: string where
  "order_status_text =
     [CHR 0xE8, CHR 0xAE, CHR 0xA2, CHR 0xE5, CHR 0x8D, CHR 0x95, CHR 0xE7, CHR 0x8A, CHR 0xB6,
     CHR 0xE6, CHR 0x80, CHR 0x81, CHR 0xEF, CHR 0xBC, CHR 0x9A, CHR 0xE5, CHR 0xB7, CHR 0xB2,
     CHR 0xE5, CHR 0x8F, CHR 0x91, CHR 0xE8, CHR 0xB4, CHR 0xA7, CHR 0x0A, CHR 0xE7, CHR 0x89,
     CHR 0xA9, CHR 0xE6, CHR 0xB5, CHR 0x81, CHR 0xE4, CHR 0xBF, CHR 0xA1, CHR 0xE6, CHR 0x81,
     CHR 0xAF, CHR 0xEF, CHR 0xBC, CHR 0x9A, CHR 0xE9, CHR 0xA1, CHR 0xBA, CHR 0xE4, CHR 0xB8,
     CHR 0xB0, CHR 0xE5, CHR 0xBF, CHR 0xAB, CHR 0xE9, CHR 0x80, CHR 0x92, CHR 0xEF, CHR 0xBC,
     CHR 0x8C, CHR 0xE5, CHR 0x8D, CHR 0x95, CHR 0xE5, CHR 0x8F, CHR 0xB7] @ ''SF123456789'' @
     [CHR 0x0A, CHR 0xE9, CHR 0xA2, CHR 0x84, CHR 0xE8, CHR 0xAE, CHR 0xA1, CHR 0xE9, CHR 0x80,
     CHR 0x81, CHR 0xE8, CHR 0xBE, CHR 0xBE, CHR 0xEF, CHR 0xBC, CHR 0x9A, CHR 0xE6, CHR 0x98,
     CHR 0x8E, CHR 0xE5, CHR 0xA4, CHR 0xA9]"

definition refund_submitted_head :: string where
  "refund_submitted_head =
     [CHR 0xE9, CHR 0x80, CHR 0x80, CHR 0xE6, CHR 0xAC, CHR 0xBE, CHR 0xE7, CHR 0x94, CHR 0xB3,
     CHR 0xE8, CHR 0xAF, CHR 0xB7, CHR 0xE5, CHR 0xB7, CHR 0xB2, CHR 0xE6, CHR 0x8F, CHR 0x90,
     CHR 0xE4, CHR 0xBA, CHR 0xA4, CHR 0x0A, CHR 0xE9, CHR 0x80, CHR 0x80, CHR 0xE6, CHR 0xAC,
     CHR 0xBE, CHR 0xE5, CHR 0x8E, CHR 0x9F, CHR 0xE5, CHR 0x9B, CHR 0xA0, CHR 0xEF, CHR 0xBC,
     CHR 0x9A]"

definition refund_submitted_tail :: string where
  "refund_submitted_tail =
     [CHR 0x0A, CHR 0xE5, CHR 0xA4, CHR 0x84, CHR 0xE7, CHR 0x90, CHR 0x86, CHR 0xE7, CHR 0x8A,
     CHR 0xB6, CHR 0xE6, CHR 0x80, CHR 0x81, CHR 0xEF, CHR 0xBC, CHR 0x9A, CHR 0xE5, CHR 0xAE,
     CHR 0xA1, CHR 0xE6, CHR 0xA0, CHR 0xB8, CHR 0xE4, CHR 0xB8, CHR 0xAD, CHR 0x0A, CHR 0xE9,
     CHR 0xA2, CHR 0x84, CHR 0xE8, CHR 0xAE, CHR 0xA1, CHR 0xE5, CHR 0xAE, CHR 0x8C, CHR 0xE6,
     CHR 0x88, CHR 0x90, CHR 0xE6, CHR 0x97, CHR 0xB6, CHR 0xE9, CHR 0x97, CHR 0xB4, CHR 0xEF,
     CHR 0xBC, CHR 0x9A] @ ''3-5'' @ [CHR 0xE4, CHR 0xB8, CHR 0xAA, CHR 0xE5, CHR 0xB7,
     CHR 0xA5, CHR 0xE4, CHR 0xBD, CHR 0x9C, CHR 0xE6, CHR 0x97, CHR 0xA5]"

definition err_step_not_found :: string where
  "err_step_not_found =
     [CHR 0xE6, CHR 0x9C, CHR 0xAA, CHR 0xE6, CHR 0x89, CHR 0xBE, CHR 0xE5, CHR 0x88, CHR 0xB0,
     CHR 0xE5, CHR 0xBD, CHR 0x93, CHR 0xE5, CHR 0x89, CHR 0x8D, CHR 0xE6, CHR 0xAD, CHR 0xA5,
     CHR 0xE9, CHR 0xAA, CHR 0xA4] @ '': ''"

definition err_step_failed :: string where
  "err_step_failed =
     [CHR 0xE6, CHR 0x89, CHR 0xA7, CHR 0xE8, CHR 0xA1, CHR 0x8C, CHR 0xE6, CHR 0xAD, CHR 0xA5,
     CHR 0xE9, CHR 0xAA, CHR 0xA4, CHR 0xE5, CHR 0xA4, CHR 0xB1, CHR 0xE8, CHR 0xB4,
     CHR 0xA5] @ '': ''"

definition err_add_user_message :: string where
  "err_add_user_message =
     [CHR 0xE6, CHR 0xB7, CHR 0xBB, CHR 0xE5, CHR 0x8A, CHR 0xA0, CHR 0xE7, CHR 0x94, CHR 0xA8,
     CHR 0xE6, CHR 0x88, CHR 0xB7, CHR 0xE6, CHR 0xB6, CHR 0x88, CHR 0xE6, CHR 0x81, CHR 0xAF,
     CHR 0xE5, CHR 0xA4, CHR 0xB1, CHR 0xE8, CHR 0xB4, CHR 0xA5] @ '': ''"

definition err_process_message :: string where
  "err_process_message =
     [CHR 0xE5, CHR 0xA4, CHR 0x84, CHR 0xE7, CHR 0x90, CHR 0x86, CHR 0xE6, CHR 0xB6, CHR 0x88,
     CHR 0xE6, CHR 0x81, CHR 0xAF, CHR 0xE5, CHR 0xA4, CHR 0xB1, CHR 0xE8, CHR 0xB4,
     CHR 0xA5] @ '': ''"

definition err_add_assistant_message :: string where
  "err_add_assistant_message =
     [CHR 0xE6, CHR 0xB7, CHR 0xBB, CHR 0xE5, CHR 0x8A, CHR 0xA0, CHR 0xE5, CHR 0x8A, CHR 0xA9,
     CHR 0xE6, CHR 0x89, CHR 0x8B, CHR 0xE6, CHR 0xB6, CHR 0x88, CHR 0xE6, CHR 0x81, CHR 0xAF,
     CHR 0xE5, CHR 0xA4, CHR 0xB1, CHR 0xE8, CHR 0xB4, CHR 0xA5] @ '': ''"

definition extractOrderID :: "string \<Rightarrow> string" where
  "extractOrderID text = (case find_ORD_word text of Some m \<Rightarrow> m | None \<Rightarrow> [])"

fun first_contained :: "string \<Rightarrow> string list \<Rightarrow> string" where
  "first_contained text [] = []"
| "first_contained text (reason # reasons) =
     (if strings_Contains text reason then reason else first_contained text reasons)"

definition extractRefundReason :: "string \<Rightarrow> string" where
  "extractRefundReason text =
     first_contained text
       [reason_quality, reason_unwanted, reason_wrong_item, reason_damaged,
        reason_not_as_described]"

definition queryOrderStatus :: "string \<Rightarrow> string" where
  "queryOrderStatus orderID = order_status_text"

definition processRefundRequest :: "string \<Rightarrow> string \<Rightarrow> string" where
  "processRefundRequest orderID reason = refund_submitted_head @ reason @ refund_submitted_tail"

definition GreetingStep_Execute ::
  "ConversationState \<Rightarrow> string \<Rightarrow> (error + string) \<times> ConversationState" where
  "GreetingStep_Execute state input =
     (if strings_Contains input kw_check_order \<or> strings_Contains input kw_order
        then (Inr ask_order_id, state\<lparr>CurrentStep := ''order_query''\<rparr>)
      else if strings_Contains input kw_refund \<or> strings_Contains input kw_return_order
        then (Inr ask_order_id_and_reason, state\<lparr>CurrentStep := ''refund_request''\<rparr>)
      else (Inr greeting_reply, state))"

definition GreetingStep :: ConversationStep where
  "GreetingStep = \<lparr>step_GetName = ''greeting'', Execute = GreetingStep_Execute,
                   CanTransition = (\<lambda>state input. False)\<rparr>"

definition OrderQueryStep_Execute ::
  "ConversationState \<Rightarrow> string \<Rightarrow> (error + string) \<times> ConversationState" where
  "OrderQueryStep_Execute state input =
     (let orderID = extractOrderID input in
      if orderID = [] then (Inr no_order_id_reply, state)
      else
        let state1 = state\<lparr>Context := (Context state)(''order_id'' \<mapsto> VString orderID)\<rparr>;
            orderStatus = queryOrderStatus orderID;
            state2 = state1\<lparr>CurrentStep := ''greeting''\<rparr>
        in (Inr (order_result_head @ orderID @ [CHR 0x0A] @ orderStatus), state2))"

definition OrderQueryStep :: ConversationStep where
  "OrderQueryStep =
     \<lparr>step_GetName = ''order_query'', Execute = OrderQueryStep_Execute,
      CanTransition = (\<lambda>state input. CurrentStep state \<noteq> ''order_query'' \<and>
         (strings_Contains input kw_check_order \<or> strings_Contains input kw_order))\<rparr>"

definition RefundRequestStep_Execute ::
  "ConversationState \<Rightarrow> string \<Rightarrow> (error + string) \<times> ConversationState" where
  "RefundRequestStep_Execute state input =
     (let orderID = extractOrderID input in
      if orderID = [] then (Inr no_order_id_reply, state)
      else
        let state1 = state\<lparr>Context := (Context state)(''order_id'' \<mapsto> VString orderID)\<rparr>;
            refundReason = extractRefundReason input
        in if refundReason = []
           then (Inr ask_refund_reason,
                 state1\<lparr>Context := (Context state1)(''awaiting_refund_reason'' \<mapsto> VBool True)\<rparr>)
           else
             let state2 = state1\<lparr>Context := (Context state1)(''refund_reason'' \<mapsto> VString refundReason)\<rparr>;
                 state3 = state2\<lparr>Context := (Context state2)(''awaiting_refund_reason'' := None)\<rparr>;
                 refundResult = processRefundRequest orderID refundReason;
                 state4 = state3\<lparr>CurrentStep := ''greeting''\<rparr>
             in (Inr (refund_result_head @ orderID @ [CHR 0x0A] @ refundResult), state4))"

definition RefundRequestStep :: ConversationStep where
  "RefundRequestStep =
     \<lparr>step_GetName = ''refund_request'', Execute = RefundRequestStep_Execute,
      CanTransition = (\<lambda>state input. CurrentStep state \<noteq> ''refund_request'' \<and>
         (strings_Contains input kw_refund \<or> strings_Contains input kw_return_order))\<rparr>"

definition RegisterStep :: "ConversationFlow \<Rightarrow> ConversationStep \<Rightarrow> ConversationFlow" where
  "RegisterStep f step = f\<lparr>registry := Register (registry f) step\<rparr>"

definition NewConversationFlow :: ConversationFlow where
  "NewConversationFlow =
     RegisterStep (RegisterStep (RegisterStep \<lparr>registry = NewStepRegistry\<rparr> GreetingStep)
        OrderQueryStep) RefundRequestStep"

text \<open>
  The loop of \<open>ProcessInput\<close> over the registered steps. Go visits the entries of a map in an
  order of its own choosing, different from one loop to the next; \<open>order\<close> is the order of
  the keys in this loop. The first step other than the current one whose \<open>CanTransition\<close>
  holds becomes the current step.
\<close>

fun transition ::
  "ConversationStep list \<Rightarrow> ConversationState \<Rightarrow> string \<Rightarrow> ConversationState" where
  "transition [] state input = state"
| "transition (step # rest) state input =
     (if step_GetName step \<noteq> CurrentStep state \<and> CanTransition step state input
      then state\<lparr>CurrentStep := step_GetName step\<rparr>
      else transition rest state input)"

definition ProcessInput ::
  "ConversationFlow \<Rightarrow> string list \<Rightarrow> ConversationState \<Rightarrow> string
     \<Rightarrow> (error + string) \<times> ConversationState" where
  "ProcessInput f order state input =
     (case steps (registry f) (CurrentStep state) of
        None \<Rightarrow> (Inl (err_step_not_found @ CurrentStep state), state)
      | Some currentStep \<Rightarrow>
          (case Execute currentStep state input of
             (Inl err, state1) \<Rightarrow> (Inl (err_step_failed @ err), state1)
           | (Inr response, state1) \<Rightarrow>
               (Inr response,
                transition (List.map_filter (steps (registry f)) order) state1 input)))"

subsection \<open>The manager (manager.go)\<close>

text \<open>
  \<open>Manager.ProcessMessage\<close>. The state pointer it passes to \<open>ProcessInput\<close> points at the
  session's entry in the store, so what the steps write is written to that entry. The clock
  readings of one call are taken as one reading \<open>now\<close>. Reading the pointer's target back
  from the store is a lookup here; after a successful \<open>AddMessage\<close> the entry is there, so its
  \<open>None\<close> branch is never taken.
\<close>

record Manager =
  stateManager :: StateManager
  flow :: ConversationFlow

definition NewManager :: Manager where
  "NewManager = \<lparr>stateManager = NewStateManager, flow = NewConversationFlow\<rparr>"

definition Manager_ProcessMessage ::
  "string list \<Rightarrow> time \<Rightarrow> Manager \<Rightarrow> string \<Rightarrow> string \<Rightarrow> string
     \<Rightarrow> (error + string) \<times> Manager" where
  "Manager_ProcessMessage order now m sessionID userID message =
     (let (state0, sm1) = GetOrCreateState now (stateManager m) sessionID userID in
      case AddMessage now sm1 sessionID ''user'' message None of
        (Some err, sm2) \<Rightarrow> (Inl (err_add_user_message @ err), m\<lparr>stateManager := sm2\<rparr>)
      | (None, sm2) \<Rightarrow>
          (case states sm2 sessionID of
             None \<Rightarrow> (Inl (err_add_user_message @ ErrStateNotFound), m\<lparr>stateManager := sm2\<rparr>)
           | Some state \<Rightarrow>
               (case ProcessInput (flow m) order state message of
                  (Inl err, state') \<Rightarrow>
                    (Inl (err_process_message @ err),
                     m\<lparr>stateManager := sm2\<lparr>states := (states sm2)(sessionID \<mapsto> state')\<rparr>\<rparr>)
                | (Inr response, state') \<Rightarrow>
                    (let sm3 = sm2\<lparr>states := (states sm2)(sessionID \<mapsto> state')\<rparr> in
                     case AddMessage now sm3 sessionID ''assistant'' response None of
                       (Some err, sm4) \<Rightarrow>
                         (Inl (err_add_assistant_message @ err), m\<lparr>stateManager := sm4\<rparr>)
                     | (None, sm4) \<Rightarrow> (Inr response, m\<lparr>stateManager := sm4\<rparr>)))))"

definition GetCurrentStep :: "Manager \<Rightarrow> string \<Rightarrow> error + string" where
  "GetCurrentStep m sessionID =
     (case GetState (stateManager m) sessionID of
        None \<Rightarrow> Inl ErrStateNotFound
      | Some state \<Rightarrow> Inr (CurrentStep state))"

subsection \<open>The multi-turn conversation (multi_turn.go)\<close>

text \<open>
  \<open>strings.ToUpper\<close> and \<open>strings.ToLower\<close> on ASCII letters; other bytes stay as they are.
  \<open>ToUpper\<close> is applied to matches of the regular expression below, which are ASCII. \<open>ToLower\<close>
  is applied to the whole message before it is searched for Chinese keywords: Go's function
  also maps cased letters outside ASCII, none of which it maps to a character of a keyword, so
  the keywords found are the same.
\<close>

definition ascii_upper :: "char \<Rightarrow> char" where
  "ascii_upper c =
     (case map_of (zip ''abcdefghijklmnopqrstuvwxyz'' ''ABCDEFGHIJKLMNOPQRSTUVWXYZ'') c of
        Some u \<Rightarrow> u | None \<Rightarrow> c)"

definition ascii_lower :: "char \<Rightarrow> char" where
  "ascii_lower c =
     (case map_of (zip ''ABCDEFGHIJKLMNOPQRSTUVWXYZ'' ''abcdefghijklmnopqrstuvwxyz'') c of
        Some l \<Rightarrow> l | None \<Rightarrow> c)"

definition strings_ToUpper :: "string \<Rightarrow> string" where
  "strings_ToUpper s = map ascii_upper s"

definition strings_ToLower :: "string \<Rightarrow> string" where
  "strings_ToLower s = map ascii_lower s"

text \<open>
  The regular expression \<open>[A-Za-z]*\d{6,}\<close>. Both repetitions are greedy and the two classes
  are disjoint, so a match at the start of \<open>s\<close> is the whole run of letters there followed by
  the whole run of digits after it, when these are six or more. \<open>FindAllString\<close> with \<open>-1\<close>
  yields the successive matches, each search starting where the last match ended.
\<close>

definition match_letters_digits :: "string \<Rightarrow> string option" where
  "match_letters_digits s =
     (let letters = takeWhile is_letter s;
          digits = takeWhile is_digit (dropWhile is_letter s)
      in if length digits \<ge> 6 then Some (letters @ digits) else None)"

function FindAllString :: "string \<Rightarrow> string list" where
  "FindAllString [] = []"
| "FindAllString (c # cs) =
     (case match_letters_digits (c # cs) of
        Some m \<Rightarrow> m # FindAllString (drop (length m) (c # cs))
      | None \<Rightarrow> FindAllString cs)"
  by pat_completeness auto
termination
  by (relation "measure length")
     (auto simp: match_letters_digits_def Let_def split: if_splits)

definition MultiTurn_extractOrderID :: "string \<Rightarrow> string" where
  "MultiTurn_extractOrderID message =
     (let matches = FindAllString message in
      case find (\<lambda>match. strings_Contains (strings_ToUpper match) ''ORD'') matches of
        Some match \<Rightarrow> strings_ToUpper match
      | None \<Rightarrow> (case matches of [] \<Rightarrow> [] | first # rest \<Rightarrow> strings_ToUpper first))"

text \<open>
  The order tool, the refund tool and the chat model are collaborators: their stores, the
  clock and the random numbers they use are in the world \<open>'w\<close>. \<open>handleGeneralChat\<close> builds a
  chain from a prompt template, the chat model and an output parser and runs it on the
  message; what comes back is a reply or an error, which is all the model keeps of it.
\<close>

record ('o, 'w) QueryOrder =
  Query :: "string \<Rightarrow> 'w \<Rightarrow> (error + 'o) \<times> 'w"
  FormatOrderInfo :: "'o \<Rightarrow> 'w \<Rightarrow> string"

record ('f, 'w) RefundTool =
  SubmitRefund :: "string \<Rightarrow> string \<Rightarrow> 'w \<Rightarrow> (error + 'f) \<times> 'w"
  FormatRefundInfo :: "'f \<Rightarrow> string"

record ('o, 'f, 'w) MultiTurnConversation =
  orderTool :: "('o, 'w) QueryOrder"
  refundTool :: "('f, 'w) RefundTool"
  handleGeneralChat :: "string \<Rightarrow> 'w \<Rightarrow> (error + string) \<times> 'w"

text \<open>
  What a handler returns: a response, an error, or the panic of a failed type assertion
  \<open>.(string)\<close> on a context value. The handlers reach the store through the manager; they
  take the store and return it, and \<open>now\<close> is the clock reading of the turn.
\<close>

datatype reply = Reply string | Failure error | TypeAssertionPanic


text \<open>The Chinese literals of multi_turn.go, as UTF-8 bytes.\<close>

definition mt_kw_check_order :: string where
  "mt_kw_check_order =
     [CHR 0xE6, CHR 0x9F, CHR 0xA5, CHR 0xE8, CHR 0xAE, CHR 0xA2, CHR 0xE5, CHR 0x8D, CHR 0x95]"

definition mt_kw_query_order :: string where
  "mt_kw_query_order =
     [CHR 0xE6, CHR 0x9F, CHR 0xA5, CHR 0xE8, CHR 0xAF, CHR 0xA2, CHR 0xE8, CHR 0xAE, CHR 0xA2,
     CHR 0xE5, CHR 0x8D, CHR 0x95]"

definition mt_kw_order_status :: string where
  "mt_kw_order_status =
     [CHR 0xE8, CHR 0xAE, CHR 0xA2, CHR 0xE5, CHR 0x8D, CHR 0x95, CHR 0xE7, CHR 0x8A, CHR 0xB6,
     CHR 0xE6, CHR 0x80, CHR 0x81]"

definition mt_kw_my_order :: string where
  "mt_kw_my_order =
     [CHR 0xE6, CHR 0x88, CHR 0x91, CHR 0xE7, CHR 0x9A, CHR 0x84, CHR 0xE8, CHR 0xAE, CHR 0xA2,
     CHR 0xE5, CHR 0x8D, CHR 0x95]"

definition mt_kw_check_an_order :: string where
  "mt_kw_check_an_order =
     [CHR 0xE6, CHR 0x9F, CHR 0xA5, CHR 0xE4, CHR 0xB8, CHR 0x80, CHR 0xE4, CHR 0xB8, CHR 0x8B,
     CHR 0xE8, CHR 0xAE, CHR 0xA2, CHR 0xE5, CHR 0x8D, CHR 0x95]"

definition mt_kw_order_info :: string where
  "mt_kw_order_info =
     [CHR 0xE8, CHR 0xAE, CHR 0xA2, CHR 0xE5, CHR 0x8D, CHR 0x95, CHR 0xE4, CHR 0xBF, CHR 0xA1,
     CHR 0xE6, CHR 0x81, CHR 0xAF]"

definition mt_kw_refund :: string where
  "mt_kw_refund =
     [CHR 0xE9, CHR 0x80, CHR 0x80, CHR 0xE6, CHR 0xAC, CHR 0xBE]"

definition mt_kw_return_goods :: string where
  "mt_kw_return_goods =
     [CHR 0xE9, CHR 0x80, CHR 0x80, CHR 0xE8, CHR 0xB4, CHR 0xA7]"

definition mt_kw_apply_refund :: string where
  "mt_kw_apply_refund =
     [CHR 0xE7, CHR 0x94, CHR 0xB3, CHR 0xE8, CHR 0xAF, CHR 0xB7, CHR 0xE9, CHR 0x80, CHR 0x80,
     CHR 0xE6, CHR 0xAC, CHR 0xBE]"

definition mt_kw_i_want_refund :: string where
  "mt_kw_i_want_refund =
     [CHR 0xE6, CHR 0x88, CHR 0x91, CHR 0xE8, CHR 0xA6, CHR 0x81, CHR 0xE9, CHR 0x80, CHR 0x80,
     CHR 0xE6, CHR 0xAC, CHR 0xBE]"

definition mt_kw_how_to_refund :: string where
  "mt_kw_how_to_refund =
     [CHR 0xE6, CHR 0x80, CHR 0x8E, CHR 0xE4, CHR 0xB9, CHR 0x88, CHR 0xE9, CHR 0x80, CHR 0x80,
     CHR 0xE6, CHR 0xAC, CHR 0xBE]"

definition mt_kw_refund_application :: string where
  "mt_kw_refund_application =
     [CHR 0xE9, CHR 0x80, CHR 0x80, CHR 0xE6, CHR 0xAC, CHR 0xBE, CHR 0xE7, CHR 0x94, CHR 0xB3,
     CHR 0xE8, CHR 0xAF, CHR 0xB7]"

definition mt_greeting_reply :: string where
  "mt_greeting_reply =
     [CHR 0xE6, CHR 0x82, CHR 0xA8, CHR 0xE5, CHR 0xA5, CHR 0xBD, CHR 0xEF, CHR 0xBC, CHR 0x81,
     CHR 0xE6, CHR 0x88, CHR 0x91, CHR 0xE6, CHR 0x98, CHR 0xAF, CHR 0xE6, CHR 0x99, CHR 0xBA,
     CHR 0xE8, CHR 0x83, CHR 0xBD, CHR 0xE5, CHR 0xAE, CHR 0xA2, CHR 0xE6, CHR 0x9C, CHR 0x8D,
     CHR 0xE5, CHR 0x8A, CHR 0xA9, CHR 0xE6, CHR 0x89, CHR 0x8B, CHR 0xEF, CHR 0xBC, CHR 0x8C,
     CHR 0xE5, CHR 0x8F, CHR 0xAF, CHR 0xE4, CHR 0xBB, CHR 0xA5, CHR 0xE5, CHR 0xB8, CHR 0xAE,
     CHR 0xE5, CHR 0x8A, CHR 0xA9, CHR 0xE6, CHR 0x82, CHR 0xA8, CHR 0xE6, CHR 0x9F, CHR 0xA5,
     CHR 0xE8, CHR 0xAF, CHR 0xA2, CHR 0xE8, CHR 0xAE, CHR 0xA2, CHR 0xE5, CHR 0x8D, CHR 0x95,
     CHR 0xE4, CHR 0xBF, CHR 0xA1, CHR 0xE6, CHR 0x81, CHR 0xAF, CHR 0xE3, CHR 0x80, CHR 0x81,
     CHR 0xE5, CHR 0xA4, CHR 0x84, CHR 0xE7, CHR 0x90, CHR 0x86, CHR 0xE9, CHR 0x80, CHR 0x80,
     CHR 0xE6, CHR 0xAC, CHR 0xBE, CHR 0xE7, CHR 0x94, CHR 0xB3, CHR 0xE8, CHR 0xAF, CHR 0xB7,
     CHR 0xE7, CHR 0xAD, CHR 0x89, CHR 0xE3, CHR 0x80, CHR 0x82, CHR 0xE8, CHR 0xAF, CHR 0xB7,
     CHR 0xE9, CHR 0x97, CHR 0xAE, CHR 0xE6, CHR 0x9C, CHR 0x89, CHR 0xE4, CHR 0xBB, CHR 0x80,
     CHR 0xE4, CHR 0xB9, CHR 0x88, CHR 0xE5, CHR 0x8F, CHR 0xAF, CHR 0xE4, CHR 0xBB, CHR 0xA5,
     CHR 0xE5, CHR 0xB8, CHR 0xAE, CHR 0xE5, CHR 0x8A, CHR 0xA9, CHR 0xE6, CHR 0x82, CHR 0xA8,
     CHR 0xE7, CHR 0x9A, CHR 0x84, CHR 0xE5, CHR 0x90, CHR 0x97, CHR 0xEF, CHR 0xBC, CHR 0x9F]"

definition mt_err_set_step :: string where
  "mt_err_set_step =
     [CHR 0xE8, CHR 0xAE, CHR 0xBE, CHR 0xE7, CHR 0xBD, CHR 0xAE, CHR 0xE5, CHR 0xBD, CHR 0x93,
     CHR 0xE5, CHR 0x89, CHR 0x8D, CHR 0xE6, CHR 0xAD, CHR 0xA5, CHR 0xE9, CHR 0xAA, CHR 0xA4,
     CHR 0xE5, CHR 0xA4, CHR 0xB1, CHR 0xE8, CHR 0xB4, CHR 0xA5] @ '': ''"

definition mt_err_get_state :: string where
  "mt_err_get_state =
     [CHR 0xE8, CHR 0x8E, CHR 0xB7, CHR 0xE5, CHR 0x8F, CHR 0x96, CHR 0xE7, CHR 0x8A, CHR 0xB6,
     CHR 0xE6, CHR 0x80, CHR 0x81, CHR 0xE5, CHR 0xA4, CHR 0xB1, CHR 0xE8, CHR 0xB4,
     CHR 0xA5] @ '': ''"

definition mt_ask_order_id_for_query :: string where
  "mt_ask_order_id_for_query =
     [CHR 0xE5, CHR 0xA5, CHR 0xBD, CHR 0xE7, CHR 0x9A, CHR 0x84, CHR 0xEF, CHR 0xBC, CHR 0x8C,
     CHR 0xE6, CHR 0x88, CHR 0x91, CHR 0xE5, CHR 0x8F, CHR 0xAF, CHR 0xE4, CHR 0xBB, CHR 0xA5,
     CHR 0xE5, CHR 0xB8, CHR 0xAE, CHR 0xE6, CHR 0x82, CHR 0xA8, CHR 0xE6, CHR 0x9F, CHR 0xA5,
     CHR 0xE8, CHR 0xAF, CHR 0xA2, CHR 0xE8, CHR 0xAE, CHR 0xA2, CHR 0xE5, CHR 0x8D, CHR 0x95,
     CHR 0xE4, CHR 0xBF, CHR 0xA1, CHR 0xE6, CHR 0x81, CHR 0xAF, CHR 0xE3, CHR 0x80, CHR 0x82,
     CHR 0xE8, CHR 0xAF, CHR 0xB7, CHR 0xE6, CHR 0x8F, CHR 0x90, CHR 0xE4, CHR 0xBE, CHR 0x9B,
     CHR 0xE6, CHR 0x82, CHR 0xA8, CHR 0xE7, CHR 0x9A, CHR 0x84, CHR 0xE8, CHR 0xAE, CHR 0xA2,
     CHR 0xE5, CHR 0x8D, CHR 0x95, CHR 0xE5, CHR 0x8F, CHR 0xB7, CHR 0xEF, CHR 0xBC, CHR 0x8C,
     CHR 0xE9, CHR 0x80, CHR 0x9A, CHR 0xE5, CHR 0xB8, CHR 0xB8, CHR 0xE4, CHR 0xBB, CHR 0xA5,
     CHR 0x27] @ ''ORD'' @ [CHR 0x27, CHR 0xE5, CHR 0xBC, CHR 0x80, CHR 0xE5, CHR 0xA4,
     CHR 0xB4, CHR 0xE3, CHR 0x80, CHR 0x82]"

definition mt_no_order_id_reply :: string where
  "mt_no_order_id_reply =
     [CHR 0xE6, CHR 0x8A, CHR 0xB1, CHR 0xE6, CHR 0xAD, CHR 0x89, CHR 0xEF, CHR 0xBC, CHR 0x8C,
     CHR 0xE6, CHR 0x88, CHR 0x91, CHR 0xE6, CHR 0xB2, CHR 0xA1, CHR 0xE6, CHR 0x9C, CHR 0x89,
     CHR 0xE6, CHR 0x89, CHR 0xBE, CHR 0xE5, CHR 0x88, CHR 0xB0, CHR 0xE6, CHR 0x9C, CHR 0x89,
     CHR 0xE6, CHR 0x95, CHR 0x88, CHR 0xE7, CHR 0x9A, CHR 0x84, CHR 0xE8, CHR 0xAE, CHR 0xA2,
     CHR 0xE5, CHR 0x8D, CHR 0x95, CHR 0xE5, CHR 0x8F, CHR 0xB7, CHR 0xE3, CHR 0x80, CHR 0x82,
     CHR 0xE8, CHR 0xAF, CHR 0xB7, CHR 0xE6, CHR 0x8F, CHR 0x90, CHR 0xE4, CHR 0xBE, CHR 0x9B,
     CHR 0xE6, CHR 0x82, CHR 0xA8, CHR 0xE7, CHR 0x9A, CHR 0x84, CHR 0xE8, CHR 0xAE, CHR 0xA2,
     CHR 0xE5, CHR 0x8D, CHR 0x95, CHR 0xE5, CHR 0x8F, CHR 0xB7, CHR 0xEF, CHR 0xBC, CHR 0x8C,
     CHR 0xE9, CHR 0x80, CHR 0x9A, CHR 0xE5, CHR 0xB8, CHR 0xB8, CHR 0xE4, CHR 0xBB, CHR 0xA5,
     CHR 0x27] @ ''ORD'' @ [CHR 0x27, CHR 0xE5, CHR 0xBC, CHR 0x80, CHR 0xE5, CHR 0xA4,
     CHR 0xB4, CHR 0xE3, CHR 0x80, CHR 0x82]"

definition mt_err_save_order_id :: string where
  "mt_err_save_order_id =
     [CHR 0xE4, CHR 0xBF, CHR 0x9D, CHR 0xE5, CHR 0xAD, CHR 0x98, CHR 0xE8, CHR 0xAE, CHR 0xA2,
     CHR 0xE5, CHR 0x8D, CHR 0x95, CHR 0xE5, CHR 0x8F, CHR 0xB7, CHR 0xE5, CHR 0xA4, CHR 0xB1,
     CHR 0xE8, CHR 0xB4, CHR 0xA5] @ '': ''"

definition mt_order_query_failed :: string where
  "mt_order_query_failed =
     [CHR 0xE6, CHR 0x9F, CHR 0xA5, CHR 0xE8, CHR 0xAF, CHR 0xA2, CHR 0xE8, CHR 0xAE, CHR 0xA2,
     CHR 0xE5, CHR 0x8D, CHR 0x95, CHR 0xE5, CHR 0xA4, CHR 0xB1, CHR 0xE8, CHR 0xB4,
     CHR 0xA5] @ '': ''"

definition mt_err_reset_step :: string where
  "mt_err_reset_step =
     [CHR 0xE9, CHR 0x87, CHR 0x8D, CHR 0xE7, CHR 0xBD, CHR 0xAE, CHR 0xE5, CHR 0xAF, CHR 0xB9,
     CHR 0xE8, CHR 0xAF, CHR 0x9D, CHR 0xE6, CHR 0xAD, CHR 0xA5, CHR 0xE9, CHR 0xAA, CHR 0xA4,
     CHR 0xE5, CHR 0xA4, CHR 0xB1, CHR 0xE8, CHR 0xB4, CHR 0xA5] @ '': ''"

definition mt_order_found_head :: string where
  "mt_order_found_head =
     [CHR 0xE6, CHR 0x9F, CHR 0xA5, CHR 0xE8, CHR 0xAF, CHR 0xA2, CHR 0xE6, CHR 0x88, CHR 0x90,
     CHR 0xE5, CHR 0x8A, CHR 0x9F, CHR 0xEF, CHR 0xBC, CHR 0x81, CHR 0xE4, CHR 0xBB, CHR 0xA5,
     CHR 0xE4, CHR 0xB8, CHR 0x8B, CHR 0xE6, CHR 0x98, CHR 0xAF, CHR 0xE6, CHR 0x82, CHR 0xA8,
     CHR 0xE7, CHR 0x9A, CHR 0x84, CHR 0xE8, CHR 0xAE, CHR 0xA2, CHR 0xE5, CHR 0x8D, CHR 0x95,
     CHR 0xE4, CHR 0xBF, CHR 0xA1, CHR 0xE6, CHR 0x81, CHR 0xAF, CHR 0xEF, CHR 0xBC, CHR 0x9A,
     CHR 0x0A, CHR 0x0A]"

definition mt_anything_else_tail :: string where
  "mt_anything_else_tail =
     [CHR 0x0A, CHR 0x0A, CHR 0xE8, CHR 0xBF, CHR 0x98, CHR 0xE6, CHR 0x9C, CHR 0x89, CHR 0xE5,
     CHR 0x85, CHR 0xB6, CHR 0xE4, CHR 0xBB, CHR 0x96, CHR 0xE5, CHR 0x8F, CHR 0xAF, CHR 0xE4,
     CHR 0xBB, CHR 0xA5, CHR 0xE5, CHR 0xB8, CHR 0xAE, CHR 0xE5, CHR 0x8A, CHR 0xA9, CHR 0xE6,
     CHR 0x82, CHR 0xA8, CHR 0xE7, CHR 0x9A, CHR 0x84, CHR 0xE5, CHR 0x90, CHR 0x97, CHR 0xEF,
     CHR 0xBC, CHR 0x9F]"

definition mt_refund_for_order_head :: string where
  "mt_refund_for_order_head =
     [CHR 0xE5, CHR 0xA5, CHR 0xBD, CHR 0xE7, CHR 0x9A, CHR 0x84, CHR 0xEF, CHR 0xBC, CHR 0x8C,
     CHR 0xE6, CHR 0x82, CHR 0xA8, CHR 0xE8, CHR 0xA6, CHR 0x81, CHR 0xE4, CHR 0xB8, CHR 0xBA,
     CHR 0xE8, CHR 0xAE, CHR 0xA2, CHR 0xE5, CHR 0x8D, CHR 0x95] @ '' ''"

definition mt_refund_for_order_tail :: string where
  "mt_refund_for_order_tail =
     '' '' @ [CHR 0xE7, CHR 0x94, CHR 0xB3, CHR 0xE8, CHR 0xAF, CHR 0xB7, CHR 0xE9, CHR 0x80,
     CHR 0x80, CHR 0xE6, CHR 0xAC, CHR 0xBE, CHR 0xE3, CHR 0x80, CHR 0x82, CHR 0xE8, CHR 0xAF,
     CHR 0xB7, CHR 0xE5, CHR 0x91, CHR 0x8A, CHR 0xE8, CHR 0xAF, CHR 0x89, CHR 0xE6, CHR 0x88,
     CHR 0x91, CHR 0xE9, CHR 0x80, CHR 0x80, CHR 0xE6, CHR 0xAC, CHR 0xBE, CHR 0xE5, CHR 0x8E,
     CHR 0x9F, CHR 0xE5, CHR 0x9B, CHR 0xA0, CHR 0xEF, CHR 0xBC, CHR 0x8C, CHR 0xE4, CHR 0xBE,
     CHR 0x8B, CHR 0xE5, CHR 0xA6, CHR 0x82, CHR 0xEF, CHR 0xBC, CHR 0x9A, CHR 0xE5, CHR 0x95,
     CHR 0x86, CHR 0xE5, CHR 0x93, CHR 0x81, CHR 0xE8, CHR 0xB4, CHR 0xA8, CHR 0xE9, CHR 0x87,
     CHR 0x8F, CHR 0xE9, CHR 0x97, CHR 0xAE, CHR 0xE9, CHR 0xA2, CHR 0x98, CHR 0xE3, CHR 0x80,
     CHR 0x81, CHR 0xE4, CHR 0xB8, CHR 0x8D, CHR 0xE6, CHR 0x83, CHR 0xB3, CHR 0xE8, CHR 0xA6,
     CHR 0x81, CHR 0xE4, CHR 0xBA, CHR 0x86, CHR 0xE7, CHR 0xAD, CHR 0x89, CHR 0xE3, CHR 0x80,
     CHR 0x82]"

definition mt_ask_order_id_for_refund :: string where
  "mt_ask_order_id_for_refund =
     [CHR 0xE5, CHR 0xA5, CHR 0xBD, CHR 0xE7, CHR 0x9A, CHR 0x84, CHR 0xEF, CHR 0xBC, CHR 0x8C,
     CHR 0xE6, CHR 0x88, CHR 0x91, CHR 0xE5, CHR 0x8F, CHR 0xAF, CHR 0xE4, CHR 0xBB, CHR 0xA5,
     CHR 0xE5, CHR 0xB8, CHR 0xAE, CHR 0xE6, CHR 0x82, CHR 0xA8, CHR 0xE5, CHR 0xA4, CHR 0x84,
     CHR 0xE7, CHR 0x90, CHR 0x86, CHR 0xE9, CHR 0x80, CHR 0x80, CHR 0xE6, CHR 0xAC, CHR 0xBE,
     CHR 0xE7, CHR 0x94, CHR 0xB3, CHR 0xE8, CHR 0xAF, CHR 0xB7, CHR 0xE3, CHR 0x80, CHR 0x82,
     CHR 0xE8, CHR 0xAF, CHR 0xB7, CHR 0xE6, CHR 0x8F, CHR 0x90, CHR 0xE4, CHR 0xBE, CHR 0x9B,
     CHR 0xE6, CHR 0x82, CHR 0xA8, CHR 0xE7, CHR 0x9A, CHR 0x84, CHR 0xE8, CHR 0xAE, CHR 0xA2,
     CHR 0xE5, CHR 0x8D, CHR 0x95, CHR 0xE5, CHR 0x8F, CHR 0xB7, CHR 0xEF, CHR 0xBC, CHR 0x8C,
     CHR 0xE9, CHR 0x80, CHR 0x9A, CHR 0xE5, CHR 0xB8, CHR 0xB8, CHR 0xE4, CHR 0xBB, CHR 0xA5,
     CHR 0x27] @ ''ORD'' @ [CHR 0x27, CHR 0xE5, CHR 0xBC, CHR 0x80, CHR 0xE5, CHR 0xA4,
     CHR 0xB4, CHR 0xE3, CHR 0x80, CHR 0x82]"

definition mt_err_save_reason :: string where
  "mt_err_save_reason =
     [CHR 0xE4, CHR 0xBF, CHR 0x9D, CHR 0xE5, CHR 0xAD, CHR 0x98, CHR 0xE9, CHR 0x80, CHR 0x80,
     CHR 0xE6, CHR 0xAC, CHR 0xBE, CHR 0xE5, CHR 0x8E, CHR 0x9F, CHR 0xE5, CHR 0x9B, CHR 0xA0,
     CHR 0xE5, CHR 0xA4, CHR 0xB1, CHR 0xE8, CHR 0xB4, CHR 0xA5] @ '': ''"

definition mt_refund_in_progress :: string where
  "mt_refund_in_progress =
     [CHR 0xE6, CHR 0x82, CHR 0xA8, CHR 0xE5, CHR 0xB7, CHR 0xB2, CHR 0xE7, CHR 0xBB, CHR 0x8F,
     CHR 0xE6, CHR 0x8F, CHR 0x90, CHR 0xE4, CHR 0xBA, CHR 0xA4, CHR 0xE4, CHR 0xBA, CHR 0x86,
     CHR 0xE9, CHR 0x80, CHR 0x80, CHR 0xE6, CHR 0xAC, CHR 0xBE, CHR 0xE7, CHR 0x94, CHR 0xB3,
     CHR 0xE8, CHR 0xAF, CHR 0xB7, CHR 0xEF, CHR 0xBC, CHR 0x8C, CHR 0xE6, CHR 0xAD, CHR 0xA3,
     CHR 0xE5, CHR 0x9C, CHR 0xA8, CHR 0xE5, CHR 0xA4, CHR 0x84, CHR 0xE7, CHR 0x90, CHR 0x86,
     CHR 0xE4, CHR 0xB8, CHR 0xAD, CHR 0xE3, CHR 0x80, CHR 0x82, CHR 0xE8, CHR 0xAF, CHR 0xB7,
     CHR 0xE7, CHR 0xA8, CHR 0x8D, CHR 0xE7, CHR 0xAD, CHR 0x89, CHR 0xE7, CHR 0x89, CHR 0x87,
     CHR 0xE5, CHR 0x88, CHR 0xBB, CHR 0xEF, CHR 0xBC, CHR 0x8C, CHR 0xE6, CHR 0x88, CHR 0x96,
     CHR 0xE8, CHR 0x80, CHR 0x85, CHR 0xE6, CHR 0x82, CHR 0xA8, CHR 0xE5, CHR 0x8F, CHR 0xAF,
     CHR 0xE4, CHR 0xBB, CHR 0xA5, CHR 0xE6, CHR 0x8F, CHR 0x90, CHR 0xE4, CHR 0xBE, CHR 0x9B,
     CHR 0xE6, CHR 0x96, CHR 0xB0, CHR 0xE7, CHR 0x9A, CHR 0x84, CHR 0xE8, CHR 0xAE, CHR 0xA2,
     CHR 0xE5, CHR 0x8D, CHR 0x95, CHR 0xE5, CHR 0x8F, CHR 0xB7, CHR 0xE6, CHR 0x9D, CHR 0xA5,
     CHR 0xE7, CHR 0x94, CHR 0xB3, CHR 0xE8, CHR 0xAF, CHR 0xB7, CHR 0xE5, CHR 0x85, CHR 0xB6,
     CHR 0xE4, CHR 0xBB, CHR 0x96, CHR 0xE8, CHR 0xAE, CHR 0xA2, CHR 0xE5, CHR 0x8D, CHR 0x95,
     CHR 0xE7, CHR 0x9A, CHR 0x84, CHR 0xE9, CHR 0x80, CHR 0x80, CHR 0xE6, CHR 0xAC, CHR 0xBE,
     CHR 0xE3, CHR 0x80, CHR 0x82]"

definition mt_refund_failed :: string where
  "mt_refund_failed =
     [CHR 0xE9, CHR 0x80, CHR 0x80, CHR 0xE6, CHR 0xAC, CHR 0xBE, CHR 0xE7, CHR 0x94, CHR 0xB3,
     CHR 0xE8, CHR 0xAF, CHR 0xB7, CHR 0xE5, CHR 0xA4, CHR 0xB1, CHR 0xE8, CHR 0xB4,
     CHR 0xA5] @ '': ''"

definition mt_refund_submitted_head :: string where
  "mt_refund_submitted_head =
     [CHR 0xE9, CHR 0x80, CHR 0x80, CHR 0xE6, CHR 0xAC, CHR 0xBE, CHR 0xE7, CHR 0x94, CHR 0xB3,
     CHR 0xE8, CHR 0xAF, CHR 0xB7, CHR 0xE5, CHR 0xB7, CHR 0xB2, CHR 0xE6, CHR 0x8F, CHR 0x90,
     CHR 0xE4, CHR 0xBA, CHR 0xA4, CHR 0xEF, CHR 0xBC, CHR 0x81, CHR 0xE4, CHR 0xBB, CHR 0xA5,
     CHR 0xE4, CHR 0xB8, CHR 0x8B, CHR 0xE6, CHR 0x98, CHR 0xAF, CHR 0xE6, CHR 0x82, CHR 0xA8,
     CHR 0xE7, CHR 0x9A, CHR 0x84, CHR 0xE7, CHR 0x94, CHR 0xB3, CHR 0xE8, CHR 0xAF, CHR 0xB7,
     CHR 0xE4, CHR 0xBF, CHR 0xA1, CHR 0xE6, CHR 0x81, CHR 0xAF, CHR 0xEF, CHR 0xBC, CHR 0x9A,
     CHR 0x0A, CHR 0x0A]"

definition detectIntent :: "string \<Rightarrow> string" where
  "detectIntent message =
     (let lowerMessage = strings_ToLower message in
      if list_ex (strings_Contains lowerMessage)
           [mt_kw_check_order, mt_kw_query_order, mt_kw_order_status, mt_kw_my_order,
            mt_kw_check_an_order, mt_kw_order_info]
        then ''order_query''
      else if list_ex (strings_Contains lowerMessage)
           [mt_kw_refund, mt_kw_return_goods, mt_kw_apply_refund, mt_kw_i_want_refund,
            mt_kw_how_to_refund, mt_kw_refund_application]
        then ''refund_request''
      else ''general'')"

definition processOrderQuery ::
  "('o, 'f, 'w) MultiTurnConversation \<Rightarrow> time \<Rightarrow> StateManager \<Rightarrow> string \<Rightarrow> string \<Rightarrow> 'w
     \<Rightarrow> reply \<times> StateManager \<times> 'w" where
  "processOrderQuery m now sm sessionID orderID w =
     (case Query (orderTool m) orderID w of
        (Inl err, w1) \<Rightarrow> (Reply (mt_order_query_failed @ err), sm, w1)
      | (Inr orderInfo, w1) \<Rightarrow>
          (let formattedInfo = FormatOrderInfo (orderTool m) orderInfo w1 in
           case SetCurrentStep now sm sessionID ''greeting'' of
             (Some err, sm1) \<Rightarrow> (Failure (mt_err_reset_step @ err), sm1, w1)
           | (None, sm1) \<Rightarrow>
               (Reply (mt_order_found_head @ formattedInfo @ mt_anything_else_tail), sm1, w1)))"

definition startOrderQuery ::
  "('o, 'f, 'w) MultiTurnConversation \<Rightarrow> time \<Rightarrow> StateManager \<Rightarrow> string \<Rightarrow> 'w
     \<Rightarrow> reply \<times> StateManager \<times> 'w" where
  "startOrderQuery m now sm sessionID w =
     (case SetCurrentStep now sm sessionID ''order_query'' of
        (Some err, sm1) \<Rightarrow> (Failure (mt_err_set_step @ err), sm1, w)
      | (None, sm1) \<Rightarrow>
          (case GetState sm1 sessionID of
             None \<Rightarrow> (Failure (mt_err_get_state @ ErrStateNotFound), sm1, w)
           | Some state \<Rightarrow>
               (case Context state ''order_id'' of
                  Some (VString orderID) \<Rightarrow> processOrderQuery m now sm1 sessionID orderID w
                | Some other \<Rightarrow> (TypeAssertionPanic, sm1, w)
                | None \<Rightarrow> (Reply mt_ask_order_id_for_query, sm1, w))))"

definition handleOrderQueryStep ::
  "('o, 'f, 'w) MultiTurnConversation \<Rightarrow> time \<Rightarrow> StateManager \<Rightarrow> string \<Rightarrow> string \<Rightarrow> 'w
     \<Rightarrow> reply \<times> StateManager \<times> 'w" where
  "handleOrderQueryStep m now sm sessionID message w =
     (let orderID = MultiTurn_extractOrderID message in
      if orderID = [] then (Reply mt_no_order_id_reply, sm, w)
      else
        case SetContext now sm sessionID ''order_id'' (VString orderID) of
          (Some err, sm1) \<Rightarrow> (Failure (mt_err_save_order_id @ err), sm1, w)
        | (None, sm1) \<Rightarrow> processOrderQuery m now sm1 sessionID orderID w)"

definition MultiTurn_processRefundRequest ::
  "('o, 'f, 'w) MultiTurnConversation \<Rightarrow> time \<Rightarrow> StateManager \<Rightarrow> string \<Rightarrow> string \<Rightarrow> string
     \<Rightarrow> 'w \<Rightarrow> reply \<times> StateManager \<times> 'w" where
  "MultiTurn_processRefundRequest m now sm sessionID orderID reason w =
     (case SubmitRefund (refundTool m) orderID reason w of
        (Inl err, w1) \<Rightarrow> (Reply (mt_refund_failed @ err), sm, w1)
      | (Inr refundInfo, w1) \<Rightarrow>
          (let formattedInfo = FormatRefundInfo (refundTool m) refundInfo in
           case SetCurrentStep now sm sessionID ''greeting'' of
             (Some err, sm1) \<Rightarrow> (Failure (mt_err_reset_step @ err), sm1, w1)
           | (None, sm1) \<Rightarrow>
               (Reply (mt_refund_submitted_head @ formattedInfo @ mt_anything_else_tail), sm1, w1)))"

definition startRefundRequest ::
  "('o, 'f, 'w) MultiTurnConversation \<Rightarrow> time \<Rightarrow> StateManager \<Rightarrow> string \<Rightarrow> 'w
     \<Rightarrow> reply \<times> StateManager \<times> 'w" where
  "startRefundRequest m now sm sessionID w =
     (case SetCurrentStep now sm sessionID ''refund_request'' of
        (Some err, sm1) \<Rightarrow> (Failure (mt_err_set_step @ err), sm1, w)
      | (None, sm1) \<Rightarrow>
          (case GetState sm1 sessionID of
             None \<Rightarrow> (Failure (mt_err_get_state @ ErrStateNotFound), sm1, w)
           | Some state \<Rightarrow>
               (case Context state ''order_id'' of
                  None \<Rightarrow> (Reply mt_ask_order_id_for_refund, sm1, w)
                | Some orderID \<Rightarrow>
                    (case Context state ''refund_reason'' of
                       Some reason \<Rightarrow>
                         (case (orderID, reason) of
                            (VString o_id, VString r) \<Rightarrow>
                              MultiTurn_processRefundRequest m now sm1 sessionID o_id r w
                          | other \<Rightarrow> (TypeAssertionPanic, sm1, w))
                     | None \<Rightarrow>
                         (case orderID of
                            VString o_id \<Rightarrow>
                              (Reply (mt_refund_for_order_head @ o_id @ mt_refund_for_order_tail),
                               sm1, w)
                          | other \<Rightarrow> (TypeAssertionPanic, sm1, w))))))"

text \<open>
  \<open>handleRefundRequestStep\<close> reads the context through the state pointer it got at its
  start; the one write before the second read is to another key.
\<close>

definition handleRefundRequestStep ::
  "('o, 'f, 'w) MultiTurnConversation \<Rightarrow> time \<Rightarrow> StateManager \<Rightarrow> string \<Rightarrow> string \<Rightarrow> 'w
     \<Rightarrow> reply \<times> StateManager \<times> 'w" where
  "handleRefundRequestStep m now sm sessionID message w =
     (case GetState sm sessionID of
        None \<Rightarrow> (Failure (mt_err_get_state @ ErrStateNotFound), sm, w)
      | Some state \<Rightarrow>
          (case Context state ''order_id'' of
             None \<Rightarrow>
               (let orderID = MultiTurn_extractOrderID message in
                if orderID = [] then (Reply mt_no_order_id_reply, sm, w)
                else
                  case SetContext now sm sessionID ''order_id'' (VString orderID) of
                    (Some err, sm1) \<Rightarrow> (Failure (mt_err_save_order_id @ err), sm1, w)
                  | (None, sm1) \<Rightarrow>
                      (Reply (mt_refund_for_order_head @ orderID @ mt_refund_for_order_tail),
                       sm1, w))
           | Some stored \<Rightarrow>
               (case Context state ''refund_reason'' of
                  None \<Rightarrow>
                    (case SetContext now sm sessionID ''refund_reason'' (VString message) of
                       (Some err, sm1) \<Rightarrow> (Failure (mt_err_save_reason @ err), sm1, w)
                     | (None, sm1) \<Rightarrow>
                         (case stored of
                            VString orderID \<Rightarrow>
                              MultiTurn_processRefundRequest m now sm1 sessionID orderID message w
                          | other \<Rightarrow> (TypeAssertionPanic, sm1, w)))
                | Some reason \<Rightarrow> (Reply mt_refund_in_progress, sm, w))))"

definition handleGreetingStep ::
  "('o, 'f, 'w) MultiTurnConversation \<Rightarrow> time \<Rightarrow> StateManager \<Rightarrow> string \<Rightarrow> string \<Rightarrow> 'w
     \<Rightarrow> reply \<times> StateManager \<times> 'w" where
  "handleGreetingStep m now sm sessionID message w =
     (let intent = detectIntent message in
      if intent = ''order_query'' then startOrderQuery m now sm sessionID w
      else if intent = ''refund_request'' then startRefundRequest m now sm sessionID w
      else (Reply mt_greeting_reply, sm, w))"

text \<open>
  \<open>MultiTurnConversation.ProcessMessage\<close>. A step other than the three it knows falls to the
  \<open>default\<close> branch of its \<open>switch\<close>. The call of \<open>Manager.GetCurrentStep\<close> is written out
  on the state store: the method replaces an error of that call by the step \<open>greeting\<close>.
\<close>

definition MultiTurn_ProcessMessage ::
  "('o, 'f, 'w) MultiTurnConversation \<Rightarrow> time \<Rightarrow> StateManager \<Rightarrow> string \<Rightarrow> string \<Rightarrow> 'w
     \<Rightarrow> reply \<times> StateManager \<times> 'w" where
  "MultiTurn_ProcessMessage m now sm sessionID userMessage w =
     (let (created, sm1) = GetOrCreateState now sm sessionID ''default_user'' in
      case AddMessage now sm1 sessionID ''user'' userMessage None of
        (Some err, sm2) \<Rightarrow> (Failure (err_add_user_message @ err), sm2, w)
      | (None, sm2) \<Rightarrow>
          (let currentStep = (case GetState sm2 sessionID of
                                None \<Rightarrow> ''greeting''
                              | Some state \<Rightarrow> CurrentStep state);
               (response, sm3, w3) =
                 (if currentStep = ''greeting''
                    then handleGreetingStep m now sm2 sessionID userMessage w
                  else if currentStep = ''order_query''
                    then handleOrderQueryStep m now sm2 sessionID userMessage w
                  else if currentStep = ''refund_request''
                    then handleRefundRequestStep m now sm2 sessionID userMessage w
                  else
                    (let intent = detectIntent userMessage in
                     if intent = ''order_query'' then startOrderQuery m now sm2 sessionID w
                     else if intent = ''refund_request'' then startRefundRequest m now sm2 sessionID w
                     else (case handleGeneralChat m userMessage w of
                             (Inl err, w') \<Rightarrow> (Failure err, sm2, w')
                           | (Inr text, w') \<Rightarrow> (Reply text, sm2, w'))))
           in case response of
                Reply text \<Rightarrow>
                  (case AddMessage now sm3 sessionID ''assistant'' text None of
                     (Some err, sm4) \<Rightarrow> (Failure (err_add_assistant_message @ err), sm4, w3)
                   | (None, sm4) \<Rightarrow> (Reply text, sm4, w3))
              | other \<Rightarrow> (other, sm3, w3)))"

section \<open>pkg/llm and pkg/graph/workflow.go: the tool-calling workflow\<close>

text \<open>
  The language model is a collaborator behind the interface \<open>LLMClient\<close>. Its \<open>Chat\<close> method
  gets the message list and the tool definitions and returns a response or an error; what it
  answers may depend on anything outside the program, which is the world state \<open>'w\<close> it reads
  and changes. Each entry of the message list is a mapping with the two keys \<open>role\<close> and
  \<open>content\<close>; each tool definition carries the name, description and parameters of a tool.
\<close>

record 'a ToolCallFunction =
  fn_Name :: string
  Arguments :: 'a

record 'a llm_ToolCall =
  llm_ID :: string
  Function :: "'a ToolCallFunction"

record 'a ChatResponse =
  chat_Content :: string
  chat_ToolCalls :: "'a llm_ToolCall list"

record graph_Message =
  Role :: string
  Content :: string

record 'a ToolDefinition =
  def_name :: string
  def_description :: string
  def_parameters :: 'a

type_synonym ('a, 'w) LLMClient =
  "graph_Message list \<Rightarrow> 'a ToolDefinition list \<Rightarrow> 'w \<Rightarrow> (error + 'a ChatResponse) \<times> 'w"

record 'a ToolCall =
  ID :: string
  Name :: string
  Args :: 'a

record 'r ToolResult =
  ToolCallID :: string
  Result :: "'r option"
  Error :: string

record ('a, 'r) State =
  Messages :: "graph_Message list"
  ToolCalls :: "'a ToolCall list"
  ToolResults :: "'r ToolResult list"
  NextAction :: string
  IsComplete :: bool

record 'a ModelResponse =
  resp_Content :: string
  resp_ToolCalls :: "'a ToolCall list"

text \<open>
  \<open>ToolManager\<close> forwards every call to its registry, so the workflow holds the registry.
\<close>

record ('a, 'r, 'w) Workflow =
  llmClient :: "('a, 'w) LLMClient"
  toolManager :: "('a, 'r, 'w) ToolRegistry"
  state :: "('a, 'r) State"

text \<open>
  Two things the workflow takes from the Go runtime: \<open>json.Marshal\<close> of a result mapping, and
  the order in which a \<open>range\<close> over the tool map visits its keys, which Go chooses anew for
  every loop (it is read from the world).
\<close>

record ('r, 'w) runtime =
  json_Marshal :: "'r option \<Rightarrow> string"
  range_order :: "'w \<Rightarrow> string list \<times> 'w"

definition NewWorkflow ::
  "('a, 'w) LLMClient \<Rightarrow> ('a, 'r, 'w) ToolRegistry \<Rightarrow> ('a, 'r, 'w) Workflow" where
  "NewWorkflow client manager =
     \<lparr>llmClient = client, toolManager = manager,
      state = \<lparr>Messages = [], ToolCalls = [], ToolResults = [], NextAction = [],
               IsComplete = False\<rparr>\<rparr>"

definition Reset :: "('a, 'r, 'w) Workflow \<Rightarrow> ('a, 'r, 'w) Workflow" where
  "Reset wk = wk\<lparr>state := \<lparr>Messages = [], ToolCalls = [], ToolResults = [], NextAction = [],
                            IsComplete = False\<rparr>\<rparr>"

text \<open>\<open>GetAllTools\<close> copies the map; a \<open>range\<close> over the copy yields its tools in some order.\<close>

definition range_tools ::
  "('r, 'w) runtime \<Rightarrow> ('a, 'r, 'w) ToolRegistry \<Rightarrow> 'w \<Rightarrow> ('a, 'r, 'w) ToolFunction list \<times> 'w" where
  "range_tools rt r w =
     (let (keys, w') = range_order rt w in (List.map_filter (tools r) keys, w'))"

fun strings_Join :: "string list \<Rightarrow> string \<Rightarrow> string" where
  "strings_Join [] sep = []"
| "strings_Join [x] sep = x"
| "strings_Join (x # y # ys) sep = x @ sep @ strings_Join (y # ys) sep"

definition systemPrompt_head :: string where
  "systemPrompt_head =
     [CHR 0xE4, CHR 0xBD, CHR 0xA0, CHR 0xE6, CHR 0x98, CHR 0xAF, CHR 0xE4, CHR 0xB8, CHR 0x80,
     CHR 0xE4, CHR 0xB8, CHR 0xAA, CHR 0xE6, CHR 0x99, CHR 0xBA, CHR 0xE8, CHR 0x83, CHR 0xBD,
     CHR 0xE5, CHR 0x8A, CHR 0xA9, CHR 0xE6, CHR 0x89, CHR 0x8B, CHR 0xEF, CHR 0xBC, CHR 0x8C,
     CHR 0xE5, CHR 0x8F, CHR 0xAF, CHR 0xE4, CHR 0xBB, CHR 0xA5, CHR 0xE5, CHR 0xB8, CHR 0xAE,
     CHR 0xE5, CHR 0x8A, CHR 0xA9, CHR 0xE7, CHR 0x94, CHR 0xA8, CHR 0xE6, CHR 0x88, CHR 0xB7,
     CHR 0xE5, CHR 0xA4, CHR 0x84, CHR 0xE7, CHR 0x90, CHR 0x86, CHR 0xE8, CHR 0xAE, CHR 0xA2,
     CHR 0xE5, CHR 0x8D, CHR 0x95, CHR 0xE6, CHR 0x9F, CHR 0xA5, CHR 0xE8, CHR 0xAF, CHR 0xA2,
     CHR 0xE3, CHR 0x80, CHR 0x81, CHR 0xE9, CHR 0x80, CHR 0x80, CHR 0xE6, CHR 0xAC, CHR 0xBE,
     CHR 0xE7, CHR 0x94, CHR 0xB3, CHR 0xE8, CHR 0xAF, CHR 0xB7, CHR 0xE5, CHR 0x92, CHR 0x8C,
     CHR 0xE5, CHR 0x8F, CHR 0x91, CHR 0xE7, CHR 0xA5, CHR 0xA8, CHR 0xE7, CHR 0x9B, CHR 0xB8,
     CHR 0xE5, CHR 0x85, CHR 0xB3, CHR 0xE7, CHR 0x9A, CHR 0x84, CHR 0xE9, CHR 0x97, CHR 0xAE,
     CHR 0xE9, CHR 0xA2, CHR 0x98, CHR 0xE3, CHR 0x80, CHR 0x82, CHR 0x0A, CHR 0x0A, CHR 0xE5,
     CHR 0x8F, CHR 0xAF, CHR 0xE7, CHR 0x94, CHR 0xA8, CHR 0xE5, CHR 0xB7, CHR 0xA5, CHR 0xE5,
     CHR 0x85, CHR 0xB7] @ '':'' @ [CHR 0x0A]"

definition systemPrompt_tail :: string where
  "systemPrompt_tail =
     [CHR 0x0A, CHR 0x0A, CHR 0xE4, CHR 0xBD, CHR 0xBF, CHR 0xE7, CHR 0x94, CHR 0xA8, CHR 0xE5,
     CHR 0xB7, CHR 0xA5, CHR 0xE5, CHR 0x85, CHR 0xB7, CHR 0xE7, CHR 0x9A, CHR 0x84, CHR 0xE8,
     CHR 0xA7, CHR 0x84, CHR 0xE5, CHR 0x88, CHR 0x99] @ '':'' @ [CHR 0x0A] @ ''1. '' @
     [CHR 0xE5, CHR 0xBD, CHR 0x93, CHR 0xE7, CHR 0x94, CHR 0xA8, CHR 0xE6, CHR 0x88, CHR 0xB7,
     CHR 0xE9, CHR 0x9C, CHR 0x80, CHR 0xE8, CHR 0xA6, CHR 0x81, CHR 0xE6, CHR 0x9F, CHR 0xA5,
     CHR 0xE8, CHR 0xAF, CHR 0xA2, CHR 0xE8, CHR 0xAE, CHR 0xA2, CHR 0xE5, CHR 0x8D, CHR 0x95,
     CHR 0xE4, CHR 0xBF, CHR 0xA1, CHR 0xE6, CHR 0x81, CHR 0xAF, CHR 0xE6, CHR 0x97, CHR 0xB6,
     CHR 0xEF, CHR 0xBC, CHR 0x8C, CHR 0xE4, CHR 0xBD, CHR 0xBF, CHR 0xE7, CHR 0x94,
     CHR 0xA8] @ ''order_query_tool'' @ [CHR 0x0A] @ ''2. '' @ [CHR 0xE5, CHR 0xBD, CHR 0x93,
     CHR 0xE7, CHR 0x94, CHR 0xA8, CHR 0xE6, CHR 0x88, CHR 0xB7, CHR 0xE9, CHR 0x9C, CHR 0x80,
     CHR 0xE8, CHR 0xA6, CHR 0x81, CHR 0xE7, CHR 0x94, CHR 0xB3, CHR 0xE8, CHR 0xAF, CHR 0xB7,
     CHR 0xE9, CHR 0x80, CHR 0x80, CHR 0xE6, CHR 0xAC, CHR 0xBE, CHR 0xE6, CHR 0x97, CHR 0xB6,
     CHR 0xEF, CHR 0xBC, CHR 0x8C, CHR 0xE4, CHR 0xBD, CHR 0xBF, CHR 0xE7, CHR 0x94,
     CHR 0xA8] @ ''refund_request_tool'' @ [CHR 0x0A] @ ''3. '' @ [CHR 0xE5, CHR 0xBD,
     CHR 0x93, CHR 0xE7, CHR 0x94, CHR 0xA8, CHR 0xE6, CHR 0x88, CHR 0xB7, CHR 0xE9, CHR 0x9C,
     CHR 0x80, CHR 0xE8, CHR 0xA6, CHR 0x81, CHR 0xE5, CHR 0x88, CHR 0x9B, CHR 0xE5, CHR 0xBB,
     CHR 0xBA, CHR 0xE6, CHR 0x88, CHR 0x96, CHR 0xE6, CHR 0x9F, CHR 0xA5, CHR 0xE8, CHR 0xAF,
     CHR 0xA2, CHR 0xE5, CHR 0x8F, CHR 0x91, CHR 0xE7, CHR 0xA5, CHR 0xA8, CHR 0xE6, CHR 0x97,
     CHR 0xB6, CHR 0xEF, CHR 0xBC, CHR 0x8C, CHR 0xE4, CHR 0xBD, CHR 0xBF, CHR 0xE7, CHR 0x94,
     CHR 0xA8] @ ''invoice_tool'' @ [CHR 0x0A, CHR 0x0A, CHR 0xE8, CHR 0xAF, CHR 0xB7,
     CHR 0xE6, CHR 0xA0, CHR 0xB9, CHR 0xE6, CHR 0x8D, CHR 0xAE, CHR 0xE7, CHR 0x94, CHR 0xA8,
     CHR 0xE6, CHR 0x88, CHR 0xB7, CHR 0xE7, CHR 0x9A, CHR 0x84, CHR 0xE9, CHR 0x97, CHR 0xAE,
     CHR 0xE9, CHR 0xA2, CHR 0x98, CHR 0xEF, CHR 0xBC, CHR 0x8C, CHR 0xE9, CHR 0x80, CHR 0x89,
     CHR 0xE6, CHR 0x8B, CHR 0xA9, CHR 0xE5, CHR 0x90, CHR 0x88, CHR 0xE9, CHR 0x80, CHR 0x82,
     CHR 0xE7, CHR 0x9A, CHR 0x84, CHR 0xE5, CHR 0xB7, CHR 0xA5, CHR 0xE5, CHR 0x85, CHR 0xB7,
     CHR 0xE6, CHR 0x9D, CHR 0xA5, CHR 0xE5, CHR 0xB8, CHR 0xAE, CHR 0xE5, CHR 0x8A, CHR 0xA9,
     CHR 0xE7, CHR 0x94, CHR 0xA8, CHR 0xE6, CHR 0x88, CHR 0xB7, CHR 0xE3, CHR 0x80, CHR 0x82,
     CHR 0xE5, CHR 0xA6, CHR 0x82, CHR 0xE6, CHR 0x9E, CHR 0x9C, CHR 0xE4, CHR 0xB8, CHR 0x8D,
     CHR 0xE9, CHR 0x9C, CHR 0x80, CHR 0xE8, CHR 0xA6, CHR 0x81, CHR 0xE4, CHR 0xBD, CHR 0xBF,
     CHR 0xE7, CHR 0x94, CHR 0xA8, CHR 0xE5, CHR 0xB7, CHR 0xA5, CHR 0xE5, CHR 0x85, CHR 0xB7,
     CHR 0xEF, CHR 0xBC, CHR 0x8C, CHR 0xE5, CHR 0x8F, CHR 0xAF, CHR 0xE4, CHR 0xBB, CHR 0xA5,
     CHR 0xE7, CHR 0x9B, CHR 0xB4, CHR 0xE6, CHR 0x8E, CHR 0xA5, CHR 0xE5, CHR 0x9B, CHR 0x9E,
     CHR 0xE7, CHR 0xAD, CHR 0x94, CHR 0xE7, CHR 0x94, CHR 0xA8, CHR 0xE6, CHR 0x88, CHR 0xB7,
     CHR 0xE7, CHR 0x9A, CHR 0x84, CHR 0xE9, CHR 0x97, CHR 0xAE, CHR 0xE9, CHR 0xA2, CHR 0x98,
     CHR 0xE3, CHR 0x80, CHR 0x82]"

definition buildSystemPrompt ::
  "('r, 'w) runtime \<Rightarrow> ('a, 'r, 'w) Workflow \<Rightarrow> 'w \<Rightarrow> string \<times> 'w" where
  "buildSystemPrompt rt wk w =
     (let (ts, w') = range_tools rt (toolManager wk) w;
          toolDescriptions = map (\<lambda>tool. ''- '' @ GetName tool @ '': '' @ GetDescription tool) ts
      in (systemPrompt_head @ strings_Join toolDescriptions [CHR 0x0A] @ systemPrompt_tail, w'))"

text \<open>The prefix of the note that reports a failed tool call to the model.\<close>

definition tool_error_note :: string where
  "tool_error_note =
     [CHR 0xE5, CHR 0xB7, CHR 0xA5, CHR 0xE5, CHR 0x85, CHR 0xB7, CHR 0xE6, CHR 0x89, CHR 0xA7,
     CHR 0xE8, CHR 0xA1, CHR 0x8C, CHR 0xE5, CHR 0x87, CHR 0xBA, CHR 0xE9, CHR 0x94,
     CHR 0x99] @ '': ''"

definition tool_result_message :: "('r, 'w) runtime \<Rightarrow> 'r ToolResult \<Rightarrow> graph_Message" where
  "tool_result_message rt result =
     \<lparr>Role = ''tool'',
      Content = (if Error result \<noteq> [] then tool_error_note @ Error result
                 else json_Marshal rt (Result result))\<rparr>"

text \<open>
  The message list \<open>callModel\<close> sends: the system prompt, the history, then one \<open>tool\<close>
  message for every tool result collected so far.
\<close>

definition build_messages ::
  "('r, 'w) runtime \<Rightarrow> string \<Rightarrow> ('a, 'r) State \<Rightarrow> graph_Message list" where
  "build_messages rt systemPrompt s =
     [\<lparr>Role = ''system'', Content = systemPrompt\<rparr>]
       @ map (\<lambda>msg. \<lparr>Role = Role msg, Content = Content msg\<rparr>) (Messages s)
       @ map (tool_result_message rt) (ToolResults s)"

text \<open>The first half of \<open>callModel\<close>: the arguments it passes to \<open>Chat\<close>.\<close>

definition model_request ::
  "('r, 'w) runtime \<Rightarrow> ('a, 'r, 'w) Workflow \<Rightarrow> 'w
     \<Rightarrow> graph_Message list \<times> 'a ToolDefinition list \<times> 'w" where
  "model_request rt wk w =
     (let (systemPrompt, w1) = buildSystemPrompt rt wk w;
          messages = build_messages rt systemPrompt (state wk);
          (availableTools, w2) = range_tools rt (toolManager wk) w1;
          toolDefinitions =
            map (\<lambda>tool. \<lparr>def_name = GetName tool, def_description = GetDescription tool,
                          def_parameters = GetParameters tool\<rparr>) availableTools
      in (messages, toolDefinitions, w2))"

definition callModel ::
  "('r, 'w) runtime \<Rightarrow> ('a, 'r, 'w) Workflow \<Rightarrow> 'w \<Rightarrow> (error + 'a ModelResponse) \<times> 'w" where
  "callModel rt wk w =
     (let (messages, toolDefinitions, w2) = model_request rt wk w
      in case llmClient wk messages toolDefinitions w2 of
           (Inl err, w3) \<Rightarrow> (Inl err, w3)
         | (Inr response, w3) \<Rightarrow>
             (Inr \<lparr>resp_Content = chat_Content response,
                   resp_ToolCalls =
                     map (\<lambda>toolCall. \<lparr>ID = llm_ID toolCall, Name = fn_Name (Function toolCall),
                                       Args = Arguments (Function toolCall)\<rparr>)
                       (chat_ToolCalls response)\<rparr>, w3))"

definition err_tool_missing :: string where
  "err_tool_missing =
     [CHR 0xE5, CHR 0xB7, CHR 0xA5, CHR 0xE5, CHR 0x85, CHR 0xB7, CHR 0xE4, CHR 0xB8, CHR 0x8D,
     CHR 0xE5, CHR 0xAD, CHR 0x98, CHR 0xE5, CHR 0x9C, CHR 0xA8] @ '': ''"

definition executeTool ::
  "('a, 'r, 'w) Workflow \<Rightarrow> 'a ToolCall \<Rightarrow> 'w \<Rightarrow> ('r option \<times> error option) \<times> 'w" where
  "executeTool wk toolCall w =
     (case GetTool (toolManager wk) (Name toolCall) of
        None \<Rightarrow> ((None, Some (err_tool_missing @ Name toolCall)), w)
      | Some tool \<Rightarrow> Call tool (Args toolCall) w)"

text \<open>
  The inner loop of \<open>ProcessMessage\<close> over the tool calls of one response: each call is
  executed and its outcome appended to \<open>ToolResults\<close>, the error text alone when the call
  failed, the result alone when it did not.
\<close>

fun execute_toolCalls ::
  "('a, 'r, 'w) Workflow \<Rightarrow> 'a ToolCall list \<Rightarrow> 'w \<Rightarrow> ('a, 'r, 'w) Workflow \<times> 'w" where
  "execute_toolCalls wk [] w = (wk, w)"
| "execute_toolCalls wk (toolCall # rest) w =
     (case executeTool wk toolCall w of
        ((result, Some err), w') \<Rightarrow>
          execute_toolCalls
            (wk\<lparr>state := (state wk)\<lparr>ToolResults := ToolResults (state wk) @
               [\<lparr>ToolCallID = ID toolCall, Result = None, Error = err\<rparr>]\<rparr>\<rparr>) rest w'
      | ((result, None), w') \<Rightarrow>
          execute_toolCalls
            (wk\<lparr>state := (state wk)\<lparr>ToolResults := ToolResults (state wk) @
               [\<lparr>ToolCallID = ID toolCall, Result = result, Error = []\<rparr>]\<rparr>\<rparr>) rest w')"

definition err_callModel :: string where
  "err_callModel =
     [CHR 0xE8, CHR 0xB0, CHR 0x83, CHR 0xE7, CHR 0x94, CHR 0xA8, CHR 0xE6, CHR 0xA8, CHR 0xA1,
     CHR 0xE5, CHR 0x9E, CHR 0x8B, CHR 0xE5, CHR 0xA4, CHR 0xB1, CHR 0xE8, CHR 0xB4,
     CHR 0xA5] @ '': ''"

definition err_no_valid_reply :: string where
  "err_no_valid_reply =
     [CHR 0xE6, CHR 0x9C, CHR 0xAA, CHR 0xE6, CHR 0x89, CHR 0xBE, CHR 0xE5, CHR 0x88, CHR 0xB0,
     CHR 0xE6, CHR 0x9C, CHR 0x89, CHR 0xE6, CHR 0x95, CHR 0x88, CHR 0xE7, CHR 0x9A, CHR 0x84,
     CHR 0xE5, CHR 0x9B, CHR 0x9E, CHR 0xE5, CHR 0xA4, CHR 0x8D]"

text \<open>
  The \<open>for !w.state.IsComplete\<close> loop. It has no other exit than a model error or a response
  without tool calls, so it is a partial function: \<open>None\<close> is a loop that never ends. It
  returns the error of the model call, if any, with the workflow and the world it reached.
\<close>

partial_function (option) ProcessMessage_loop ::
  "('r, 'w) runtime \<Rightarrow> ('a, 'r, 'w) Workflow \<Rightarrow> 'w \<Rightarrow> (error option \<times> ('a, 'r, 'w) Workflow \<times> 'w) option"
where
  "ProcessMessage_loop rt wk w =
     (if IsComplete (state wk) then Some (None, wk, w)
      else
        case callModel rt wk w of
          (Inl err, w1) \<Rightarrow> Some (Some (err_callModel @ err), wk, w1)
        | (Inr response, w1) \<Rightarrow>
            (let wk1 = wk\<lparr>state := (state wk)\<lparr>Messages := Messages (state wk) @
                          [\<lparr>Role = ''assistant'', Content = resp_Content response\<rparr>]\<rparr>\<rparr>
             in if length (resp_ToolCalls response) > 0 then
                  (let wk2 = wk1\<lparr>state := (state wk1)\<lparr>ToolCalls :=
                                ToolCalls (state wk1) @ resp_ToolCalls response\<rparr>\<rparr>;
                       (wk3, w2) = execute_toolCalls wk2 (resp_ToolCalls response) w1
                   in ProcessMessage_loop rt wk3 w2)
                else ProcessMessage_loop rt (wk1\<lparr>state := (state wk1)\<lparr>IsComplete := True\<rparr>\<rparr>) w1))"

definition ProcessMessage ::
  "('r, 'w) runtime \<Rightarrow> ('a, 'r, 'w) Workflow \<Rightarrow> string \<Rightarrow> 'w
     \<Rightarrow> ((error + string) \<times> ('a, 'r, 'w) Workflow \<times> 'w) option" where
  "ProcessMessage rt wk userMessage w =
     (let wk0 = wk\<lparr>state := (state wk)\<lparr>Messages := Messages (state wk) @
                   [\<lparr>Role = ''user'', Content = userMessage\<rparr>]\<rparr>\<rparr>
      in case ProcessMessage_loop rt wk0 w of
           None \<Rightarrow> None
         | Some (Some err, wk', w') \<Rightarrow> Some (Inl err, wk', w')
         | Some (None, wk', w') \<Rightarrow>
             (if length (Messages (state wk')) > 0
                 \<and> Role (last (Messages (state wk'))) = ''assistant''
              then Some (Inr (Content (last (Messages (state wk')))), wk', w')
              else Some (Inl err_no_valid_reply, wk', w')))"

text \<open>
  \<open>WorkflowService.ProcessMessage\<close> (internal/service/workflow.go), the top-level entry:
  it resets the workflow and processes the message.
\<close>

definition WorkflowService_ProcessMessage ::
  "('r, 'w) runtime \<Rightarrow> ('a, 'r, 'w) Workflow \<Rightarrow> string \<Rightarrow> 'w
     \<Rightarrow> ((error + string) \<times> ('a, 'r, 'w) Workflow \<times> 'w) option" where
  "WorkflowService_ProcessMessage rt wk message w = ProcessMessage rt (Reset wk) message w"

subsection \<open>Notions for stating the properties of the loop\<close>

text \<open>
  One pass through the body of the loop, started with \<open>IsComplete\<close> false: either the model
  call fails (left, with the error \<open>ProcessMessage\<close> returns), or the pass ends in a new
  workflow state from which the loop condition is tested again (right).
\<close>

definition iteration ::
  "('r, 'w) runtime \<Rightarrow> ('a, 'r, 'w) Workflow \<Rightarrow> 'w
     \<Rightarrow> (error \<times> 'w) + (('a, 'r, 'w) Workflow \<times> 'w)" where
  "iteration rt wk w =
     (case callModel rt wk w of
        (Inl err, w1) \<Rightarrow> Inl (err_callModel @ err, w1)
      | (Inr response, w1) \<Rightarrow>
          (let wk1 = wk\<lparr>state := (state wk)\<lparr>Messages := Messages (state wk) @
                        [\<lparr>Role = ''assistant'', Content = resp_Content response\<rparr>]\<rparr>\<rparr>
           in if length (resp_ToolCalls response) > 0 then
                Inr (execute_toolCalls
                       (wk1\<lparr>state := (state wk1)\<lparr>ToolCalls :=
                                ToolCalls (state wk1) @ resp_ToolCalls response\<rparr>\<rparr>)
                       (resp_ToolCalls response) w1)
              else Inr (wk1\<lparr>state := (state wk1)\<lparr>IsComplete := True\<rparr>\<rparr>, w1)))"

text \<open>The loop cut off after \<open>n\<close> tests of its condition; \<open>None\<close> is the cut.\<close>

fun loop_fuel ::
  "nat \<Rightarrow> ('r, 'w) runtime \<Rightarrow> ('a, 'r, 'w) Workflow \<Rightarrow> 'w
     \<Rightarrow> (error option \<times> ('a, 'r, 'w) Workflow \<times> 'w) option" where
  "loop_fuel 0 rt wk w = None"
| "loop_fuel (Suc n) rt wk w =
     (if IsComplete (state wk) then Some (None, wk, w)
      else case iteration rt wk w of
             Inl (err, w1) \<Rightarrow> Some (Some err, wk, w1)
           | Inr (wk', w') \<Rightarrow> loop_fuel n rt wk' w')"

text \<open>
  The workflow and the world after \<open>k\<close> passes through the loop body, when the turn gets that
  far (no pass found the turn complete before it began, no model call failed).
\<close>

fun iterations ::
  "nat \<Rightarrow> ('r, 'w) runtime \<Rightarrow> ('a, 'r, 'w) Workflow \<Rightarrow> 'w
     \<Rightarrow> (('a, 'r, 'w) Workflow \<times> 'w) option" where
  "iterations 0 rt wk w = Some (wk, w)"
| "iterations (Suc k) rt wk w =
     (if IsComplete (state wk) then None
      else case iteration rt wk w of
             Inl e \<Rightarrow> None
           | Inr (wk', w') \<Rightarrow> iterations k rt wk' w')"

text \<open>A model collaborator that returns at least one tool call on every invocation.\<close>

definition always_requests_tools :: "('a, 'w) LLMClient \<Rightarrow> bool" where
  "always_requests_tools chat =
     (\<forall>messages toolDefinitions w.
        case chat messages toolDefinitions w of
          (Inl err, w') \<Rightarrow> False
        | (Inr response, w') \<Rightarrow> chat_ToolCalls response \<noteq> [])"

text \<open>
  The model eventually responds with zero tool calls: in the turn continued from \<open>wk\<close> and
  \<open>w\<close>, its next \<open>n\<close> responses carry tool calls and the one after them carries none and has
  the text \<open>answer\<close>.
\<close>

fun answers_after ::
  "nat \<Rightarrow> ('r, 'w) runtime \<Rightarrow> ('a, 'r, 'w) Workflow \<Rightarrow> 'w \<Rightarrow> string \<Rightarrow> bool" where
  "answers_after 0 rt wk w answer =
     (case callModel rt wk w of
        (Inl err, w1) \<Rightarrow> False
      | (Inr response, w1) \<Rightarrow> resp_ToolCalls response = [] \<and> resp_Content response = answer)"
| "answers_after (Suc n) rt wk w answer =
     (case callModel rt wk w of
        (Inl err, w1) \<Rightarrow> False
      | (Inr response, w1) \<Rightarrow>
          resp_ToolCalls response \<noteq> [] \<and>
          (case iteration rt wk w of
             Inl e \<Rightarrow> False
           | Inr (wk', w') \<Rightarrow> answers_after n rt wk' w' answer))"

subsection \<open>Example collaborators\<close>

text \<open>
  A runtime, a registry holding one tool, and five models: one that asks for the registered
  tool whatever it is told, one that asks for two tools of which one is not registered, one
  whose answer is the empty text, one that answers at once, and one that asks for an
  unregistered tool until it sees a tool message.
\<close>

definition example_runtime :: "(unit, unit) runtime" where
  "example_runtime =
     \<lparr>json_Marshal = (\<lambda>r. ''{}''), range_order = (\<lambda>w. ([''order_query_tool''], w))\<rparr>"

definition example_tool :: "(unit, unit, unit) ToolFunction" where
  "example_tool = \<lparr>GetName = ''order_query_tool'', GetDescription = ''orders'',
                   GetParameters = (), Call = (\<lambda>a w. ((Some (), None), w))\<rparr>"

definition example_registry :: "(unit, unit, unit) ToolRegistry" where
  "example_registry = snd (RegisterTool NewToolRegistry (Some example_tool))"

definition stubborn_model :: "(unit, unit) LLMClient" where
  "stubborn_model messages toolDefinitions w =
     (Inr \<lparr>chat_Content = ''one moment'',
           chat_ToolCalls = [\<lparr>llm_ID = ''call_1'',
              Function = \<lparr>fn_Name = ''order_query_tool'', Arguments = ()\<rparr>\<rparr>]\<rparr>, w)"

definition lost_model :: "(unit, unit) LLMClient" where
  "lost_model messages toolDefinitions w =
     (Inr \<lparr>chat_Content = [],
           chat_ToolCalls =
             [\<lparr>llm_ID = ''a'', Function = \<lparr>fn_Name = ''no_such_tool'', Arguments = ()\<rparr>\<rparr>,
              \<lparr>llm_ID = ''b'', Function = \<lparr>fn_Name = ''order_query_tool'', Arguments = ()\<rparr>\<rparr>]\<rparr>,
      w)"

definition silent_model :: "(unit, unit) LLMClient" where
  "silent_model messages toolDefinitions w = (Inr \<lparr>chat_Content = [], chat_ToolCalls = []\<rparr>, w)"

definition polite_model :: "(unit, unit) LLMClient" where
  "polite_model messages toolDefinitions w =
     (Inr \<lparr>chat_Content = ''hello'', chat_ToolCalls = []\<rparr>, w)"


section \<open>pkg/plugin: the plugin manager\<close>

text \<open>
  Go's \<open>plugin\<close> package and the reflection library are outside the program. What they give
  \<open>LoadPlugin\<close> is a host: \<open>plugin_Open\<close> opens the file at a path, \<open>Lookup\<close> finds a symbol
  by name in the opened plugin; the symbol is a constructor of the expected type, which
  yields the plugin instance, or something else. An instance is what reflection shows of it:
  its methods, each with its name and, when its type is that of a tool function, the
  function value that \<open>extractTools\<close> keeps.
\<close>

record 'f reflected_method =
  method_Name :: string
  tool_function :: "'f option"

datatype 'f symbol = Constructor "'f reflected_method list" | OtherSymbol

record ('f, 'p) plugin_host =
  plugin_Open :: "string \<Rightarrow> error + 'p"
  Lookup :: "'p \<Rightarrow> string \<Rightarrow> error + 'f symbol"

record 'f ToolInfo =
  info_Name :: string
  info_Description :: string
  info_Function :: 'f

record ('f, 'p) PluginInfo =
  plugin_Name :: string
  Path :: string
  Tools :: "'f ToolInfo list"
  Plugin :: 'p

text \<open>
  The manager's mutex is part of its state: \<open>mu\<close> is true while the lock is held. The
  operations are taken one at a time, by one goroutine; \<open>sync.RWMutex\<close> is not reentrant, so
  a \<open>Lock\<close> on a held mutex waits for an \<open>Unlock\<close> that this goroutine would have to issue
  itself: the call never returns. \<open>Blocked\<close> is that outcome, with the state the manager is
  left in; \<open>Returns\<close> is a normal return.
\<close>

record ('f, 'p) PluginManager =
  plugins :: "string \<rightharpoonup> ('f, 'p) PluginInfo"
  pluginFunctions :: "string \<rightharpoonup> 'f"
  mu :: bool
  pluginsDir :: string

datatype ('a, 's) outcome = Returns 'a 's | Blocked 's

definition tool_description_prefix :: string where
  "tool_description_prefix =
     [CHR 0xE5, CHR 0xB7, CHR 0xA5, CHR 0xE5, CHR 0x85, CHR 0xB7, CHR 0xE5, CHR 0x87, CHR 0xBD,
     CHR 0xE6, CHR 0x95, CHR 0xB0] @ '': ''"

definition getMethodDescription :: "string \<Rightarrow> string" where
  "getMethodDescription methodName = tool_description_prefix @ methodName"

definition extractTools :: "'f reflected_method list \<Rightarrow> 'f ToolInfo list" where
  "extractTools pluginInstance =
     List.map_filter
       (\<lambda>m. case tool_function m of
               None \<Rightarrow> None
             | Some f \<Rightarrow> Some \<lparr>info_Name = method_Name m,
                               info_Description = getMethodDescription (method_Name m),
                               info_Function = f\<rparr>)
       pluginInstance"

definition err_plugin_prefix :: string where
  "err_plugin_prefix =
     [CHR 0xE6, CHR 0x8F, CHR 0x92, CHR 0xE4, CHR 0xBB, CHR 0xB6] @ '' ''"

definition err_already_loaded :: string where
  "err_already_loaded =
     '' '' @ [CHR 0xE5, CHR 0xB7, CHR 0xB2, CHR 0xE5, CHR 0x8A, CHR 0xA0, CHR 0xE8, CHR 0xBD,
     CHR 0xBD]"

definition err_not_exist :: string where
  "err_not_exist =
     '' '' @ [CHR 0xE4, CHR 0xB8, CHR 0x8D, CHR 0xE5, CHR 0xAD, CHR 0x98, CHR 0xE5, CHR 0x9C,
     CHR 0xA8]"

definition err_open_failed :: string where
  "err_open_failed =
     [CHR 0xE6, CHR 0x89, CHR 0x93, CHR 0xE5, CHR 0xBC, CHR 0x80, CHR 0xE6, CHR 0x8F, CHR 0x92,
     CHR 0xE4, CHR 0xBB, CHR 0xB6, CHR 0xE5, CHR 0xA4, CHR 0xB1, CHR 0xE8, CHR 0xB4,
     CHR 0xA5] @ '': ''"

definition err_lookup_failed :: string where
  "err_lookup_failed =
     [CHR 0xE6, CHR 0x9F, CHR 0xA5, CHR 0xE6, CHR 0x89, CHR 0xBE, CHR 0xE6, CHR 0x8F, CHR 0x92,
     CHR 0xE4, CHR 0xBB, CHR 0xB6, CHR 0xE5, CHR 0x85, CHR 0xA5, CHR 0xE5, CHR 0x8F, CHR 0xA3,
     CHR 0xE5, CHR 0xA4, CHR 0xB1, CHR 0xE8, CHR 0xB4, CHR 0xA5] @ '': ''"

definition err_bad_entry :: string where
  "err_bad_entry =
     [CHR 0xE6, CHR 0x97, CHR 0xA0, CHR 0xE6, CHR 0x95, CHR 0x88, CHR 0xE7, CHR 0x9A, CHR 0x84,
     CHR 0xE6, CHR 0x8F, CHR 0x92, CHR 0xE4, CHR 0xBB, CHR 0xB6, CHR 0xE5, CHR 0x85, CHR 0xA5,
     CHR 0xE5, CHR 0x8F, CHR 0xA3, CHR 0xE5, CHR 0x87, CHR 0xBD, CHR 0xE6, CHR 0x95, CHR 0xB0,
     CHR 0xE7, CHR 0xB1, CHR 0xBB, CHR 0xE5, CHR 0x9E, CHR 0x8B]"

definition err_reload_failed :: string where
  "err_reload_failed =
     [CHR 0xE9, CHR 0x87, CHR 0x8D, CHR 0xE6, CHR 0x96, CHR 0xB0, CHR 0xE5, CHR 0x8A, CHR 0xA0,
     CHR 0xE8, CHR 0xBD, CHR 0xBD, CHR 0xE6, CHR 0x8F, CHR 0x92, CHR 0xE4, CHR 0xBB, CHR 0xB6,
     CHR 0xE5, CHR 0xA4, CHR 0xB1, CHR 0xE8, CHR 0xB4, CHR 0xA5] @ '': ''"

text \<open>The function name under which a tool of a plugin is kept: \<open>plugin.tool\<close>.\<close>

definition funcName :: "string \<Rightarrow> 'f ToolInfo \<Rightarrow> string" where
  "funcName pluginName tool = pluginName @ ''.'' @ info_Name tool"

text \<open>The body of \<open>LoadPlugin\<close> between taking the lock and releasing it.\<close>

definition LoadPlugin_locked ::
  "('f, 'p) plugin_host \<Rightarrow> ('f, 'p) PluginManager \<Rightarrow> string \<Rightarrow> string
     \<Rightarrow> error option \<times> ('f, 'p) PluginManager" where
  "LoadPlugin_locked host pm pluginName pluginPath =
     (if plugins pm pluginName \<noteq> None
        then (Some (err_plugin_prefix @ pluginName @ err_already_loaded), pm)
      else
        case plugin_Open host pluginPath of
          Inl err \<Rightarrow> (Some (err_open_failed @ err), pm)
        | Inr p \<Rightarrow>
            (case Lookup host p ''NewPlugin'' of
               Inl err \<Rightarrow> (Some (err_lookup_failed @ err), pm)
             | Inr OtherSymbol \<Rightarrow> (Some err_bad_entry, pm)
             | Inr (Constructor pluginInstance) \<Rightarrow>
                 (let tools = extractTools pluginInstance;
                      pluginInfo = \<lparr>plugin_Name = pluginName, Path = pluginPath,
                                    Tools = tools, Plugin = p\<rparr>;
                      pm1 = pm\<lparr>plugins := (plugins pm)(pluginName \<mapsto> pluginInfo)\<rparr>
                  in (None,
                      pm1\<lparr>pluginFunctions :=
                            fold (\<lambda>tool fs. fs(funcName pluginName tool \<mapsto> info_Function tool))
                              tools (pluginFunctions pm1)\<rparr>))))"

definition LoadPlugin ::
  "('f, 'p) plugin_host \<Rightarrow> ('f, 'p) PluginManager \<Rightarrow> string \<Rightarrow> string
     \<Rightarrow> (error option, ('f, 'p) PluginManager) outcome" where
  "LoadPlugin host pm pluginName pluginPath =
     (if mu pm then Blocked pm
      else case LoadPlugin_locked host (pm\<lparr>mu := True\<rparr>) pluginName pluginPath of
             (err, pm') \<Rightarrow> Returns err (pm'\<lparr>mu := False\<rparr>))"

definition UnloadPlugin ::
  "('f, 'p) PluginManager \<Rightarrow> string \<Rightarrow> (error option, ('f, 'p) PluginManager) outcome" where
  "UnloadPlugin pm pluginName =
     (if mu pm then Blocked pm
      else
        let pm0 = pm\<lparr>mu := True\<rparr> in
        case plugins pm0 pluginName of
          None \<Rightarrow> Returns (Some (err_plugin_prefix @ pluginName @ err_not_exist)) (pm0\<lparr>mu := False\<rparr>)
        | Some pluginInfo \<Rightarrow>
            (let pm1 = pm0\<lparr>pluginFunctions :=
                         fold (\<lambda>tool fs. fs(funcName pluginName tool := None))
                           (Tools pluginInfo) (pluginFunctions pm0)\<rparr>;
                 pm2 = pm1\<lparr>plugins := (plugins pm1)(pluginName := None)\<rparr>
             in Returns None (pm2\<lparr>mu := False\<rparr>)))"

text \<open>
  \<open>ReloadPlugin\<close> takes the lock, drops the function references of the plugin and calls
  \<open>LoadPlugin\<close>, which takes the lock itself. The two branches after a return of that call
  are written as the source has them; they are never reached.
\<close>

definition ReloadPlugin ::
  "('f, 'p) plugin_host \<Rightarrow> ('f, 'p) PluginManager \<Rightarrow> string
     \<Rightarrow> (error option, ('f, 'p) PluginManager) outcome" where
  "ReloadPlugin host pm pluginName =
     (if mu pm then Blocked pm
      else
        let pm0 = pm\<lparr>mu := True\<rparr> in
        case plugins pm0 pluginName of
          None \<Rightarrow> Returns (Some (err_plugin_prefix @ pluginName @ err_not_exist)) (pm0\<lparr>mu := False\<rparr>)
        | Some pluginInfo \<Rightarrow>
            (let oldFunctionNames = map (funcName pluginName) (Tools pluginInfo);
                 pm1 = pm0\<lparr>pluginFunctions :=
                         fold (\<lambda>name fs. fs(name := None)) oldFunctionNames (pluginFunctions pm0)\<rparr>
             in case LoadPlugin host pm1 pluginName (Path pluginInfo) of
                  Blocked pm' \<Rightarrow> Blocked pm'
                | Returns (Some err) pm2 \<Rightarrow> Returns (Some (err_reload_failed @ err)) (pm2\<lparr>mu := False\<rparr>)
                | Returns None pm2 \<Rightarrow> Returns None (pm2\<lparr>mu := False\<rparr>)))"

subsection \<open>An example plugin\<close>

text \<open>
  A host with one plugin file, whose instance has two tool methods and one method of another
  type, and the manager after loading it under the name \<open>calc\<close>.
\<close>

definition example_host :: "(nat, string) plugin_host" where
  "example_host =
     \<lparr>plugin_Open = (\<lambda>path. if path = ''plugins/calc.so'' then Inr ''calc handle''
                            else Inl ''no such file''),
      Lookup = (\<lambda>p name. if name = ''NewPlugin''
                  then Inr (Constructor
                    [\<lparr>method_Name = ''Add'', tool_function = Some 1\<rparr>,
                     \<lparr>method_Name = ''Help'', tool_function = None\<rparr>,
                     \<lparr>method_Name = ''Multiply'', tool_function = Some 2\<rparr>])
                  else Inl ''symbol not found'')\<rparr>"

definition empty_manager :: "(nat, string) PluginManager" where
  "empty_manager = \<lparr>plugins = Map.empty, pluginFunctions = Map.empty, mu = False,
                    pluginsDir = ''plugins''\<rparr>"

definition calc_info :: "(nat, string) PluginInfo" where
  "calc_info =
     \<lparr>plugin_Name = ''calc'', Path = ''plugins/calc.so'',
      Tools = [\<lparr>info_Name = ''Add'', info_Description = getMethodDescription ''Add'',
                info_Function = 1\<rparr>,
               \<lparr>info_Name = ''Multiply'', info_Description = getMethodDescription ''Multiply'',
                info_Function = 2\<rparr>],
      Plugin = ''calc handle''\<rparr>"

definition loaded_manager :: "(nat, string) PluginManager" where
  "loaded_manager =
     \<lparr>plugins = [''calc'' \<mapsto> calc_info],
      pluginFunctions = [''calc.Add'' \<mapsto> 1, ''calc.Multiply'' \<mapsto> 2],
      mu = False, pluginsDir = ''plugins''\<rparr>"

subsection \<open>Notions for stating the properties of the dialogue\<close>




text \<open>The names of the steps that \<open>NewConversationFlow\<close> registers.\<close>

definition registered_steps :: "string set" where
  "registered_steps = dom (steps (registry NewConversationFlow))"

subsection \<open>Example sessions and collaborators\<close>

text \<open>
  The messages of the refund scenario; a session in the \<open>order_query\<close> step and one in a
  step the machine does not know, with the stores that hold them; an order tool that knows
  the order \<open>ORD123456\<close>, a refund tool that accepts every refund, and a chat model that
  is out of service.
\<close>


definition msg_i_want_a_refund :: string where
  "msg_i_want_a_refund =
     [CHR 0xE6, CHR 0x88, CHR 0x91, CHR 0xE8, CHR 0xA6, CHR 0x81, CHR 0xE9, CHR 0x80, CHR 0x80,
     CHR 0xE6, CHR 0xAC, CHR 0xBE]"

definition msg_quality_problem :: string where
  "msg_quality_problem =
     [CHR 0xE8, CHR 0xB4, CHR 0xA8, CHR 0xE9, CHR 0x87, CHR 0x8F, CHR 0xE9, CHR 0x97, CHR 0xAE,
     CHR 0xE9, CHR 0xA2, CHR 0x98]"

definition msg_hello :: string where
  "msg_hello =
     [CHR 0xE4, CHR 0xBD, CHR 0xA0, CHR 0xE5, CHR 0xA5, CHR 0xBD]"

definition err_no_such_order :: string where
  "err_no_such_order =
     [CHR 0xE8, CHR 0xAE, CHR 0xA2, CHR 0xE5, CHR 0x8D, CHR 0x95, CHR 0xE4, CHR 0xB8, CHR 0x8D,
     CHR 0xE5, CHR 0xAD, CHR 0x98, CHR 0xE5, CHR 0x9C, CHR 0xA8] @ '': ''"

definition session_in_order_query :: ConversationState where
  "session_in_order_query =
     \<lparr>SessionID = ''s2'', UserID = ''u2'', CurrentStep = ''order_query'', Context = Map.empty,
      History = [], LastActivity = 5, CreatedAt = 5\<rparr>"

definition session_in_unknown_step :: ConversationState where
  "session_in_unknown_step =
     \<lparr>SessionID = ''s3'', UserID = ''u3'', CurrentStep = ''checkout'', Context = Map.empty,
      History = [], LastActivity = 5, CreatedAt = 5\<rparr>"

definition example_store :: StateManager where
  "example_store =
     \<lparr>states = [''s2'' \<mapsto> session_in_order_query, ''s3'' \<mapsto> session_in_unknown_step]\<rparr>"

definition example_conversation :: "(string, string, nat) MultiTurnConversation" where
  "example_conversation =
     \<lparr>orderTool =
        \<lparr>Query = (\<lambda>orderID w. if orderID = ''ORD123456'' then (Inr ''order 123456'', Suc w)
                                else (Inl (err_no_such_order @ orderID), Suc w)),
         FormatOrderInfo = (\<lambda>orderInfo w. orderInfo)\<rparr>,
      refundTool =
        \<lparr>SubmitRefund = (\<lambda>orderID reason w. (Inr (''refund for '' @ orderID), Suc w)),
         FormatRefundInfo = (\<lambda>refundInfo. refundInfo)\<rparr>,
      handleGeneralChat = (\<lambda>message w. (Inl ''model unavailable'', Suc w))\<rparr>"

section \<open>Theorems\<close>

subsection \<open>The tool registry\<close>

text \<open>
  C5, first as the claim is worded. The claim speaks of every tool name; the empty name is
  refused by \<open>RegisterTool\<close> before the duplicate check, so for it the second registration
  fails with the empty-name error, not with the duplicate-name one, and registering after
  unregistering fails as well.
\<close>

theorem C5_empty_name_counterexample:
  "\<not> is_duplicate_error []
        (fst (RegisterTool
               (snd (RegisterTool (NewToolRegistry :: (unit, unit, unit) ToolRegistry)
                  (Some \<lparr>GetName = [], GetDescription = ''first'', GetParameters = (),
                         Call = (\<lambda>a w. ((None, None), w))\<rparr>)))
               (Some \<lparr>GetName = [], GetDescription = ''second'', GetParameters = (),
                      Call = (\<lambda>a w. ((None, None), w))\<rparr>)))
   \<and> fst (RegisterTool
            (snd (UnregisterTool
               (snd (RegisterTool (NewToolRegistry :: (unit, unit, unit) ToolRegistry)
                  (Some \<lparr>GetName = [], GetDescription = ''first'', GetParameters = (),
                         Call = (\<lambda>a w. ((None, None), w))\<rparr>))) []))
            (Some \<lparr>GetName = [], GetDescription = ''second'', GetParameters = (),
                   Call = (\<lambda>a w. ((None, None), w))\<rparr>))
       = Some ''tool name cannot be empty''"
  by (simp add: RegisterTool_def UnregisterTool_def NewToolRegistry_def is_duplicate_error_def)

text \<open>
  C5, amended to non-empty names. For every registry \<open>r\<close> and tools \<open>t1\<close>, \<open>t2\<close> with the same
  non-empty name \<open>n\<close>: after \<open>RegisterTool t1\<close>, \<open>RegisterTool t2\<close> fails with the
  duplicate-name error and leaves the registry as the first call left it, where \<open>n\<close> is
  registered (to \<open>t1\<close> when \<open>n\<close> was free in \<open>r\<close>); and after \<open>RegisterTool t1\<close> and
  \<open>UnregisterTool n\<close>, \<open>RegisterTool t2\<close> succeeds and registers \<open>t2\<close> under \<open>n\<close>.
\<close>

theorem C5_register_twice_duplicate:
  assumes "GetName t1 = n" and "GetName t2 = n" and "n \<noteq> []"
  shows "(let r1 = snd (RegisterTool r (Some t1)) in
            is_duplicate_error n (fst (RegisterTool r1 (Some t2)))
          \<and> snd (RegisterTool r1 (Some t2)) = r1
          \<and> GetTool r1 n \<noteq> None
          \<and> (GetTool r n = None \<longrightarrow> fst (RegisterTool r (Some t1)) = None \<and> GetTool r1 n = Some t1))
       \<and> (let r2 = snd (UnregisterTool (snd (RegisterTool r (Some t1))) n) in
            fst (RegisterTool r2 (Some t2)) = None
          \<and> GetTool (snd (RegisterTool r2 (Some t2))) n = Some t2)"
  using assms
  by (auto simp: RegisterTool_def UnregisterTool_def GetTool_def is_duplicate_error_def Let_def)

theorem C5_register_twice_duplicate_witness:
  "(let t1 = \<lparr>GetName = ''query_order'', GetDescription = ''first'', GetParameters = (),
              Call = (\<lambda>a w. ((None, None), w))\<rparr>;
        t2 = \<lparr>GetName = ''query_order'', GetDescription = ''second'', GetParameters = (),
              Call = (\<lambda>a w. ((None, None), w))\<rparr>;
        r = (NewToolRegistry :: (unit, unit, unit) ToolRegistry);
        r1 = snd (RegisterTool r (Some t1));
        r2 = snd (UnregisterTool r1 ''query_order'')
    in GetName t1 = ''query_order'' \<and> GetName t2 = ''query_order'' \<and> ''query_order'' \<noteq> []
     \<and> GetTool r ''query_order'' = None
     \<and> is_duplicate_error ''query_order'' (fst (RegisterTool r1 (Some t2)))
     \<and> snd (RegisterTool r1 (Some t2)) = r1
     \<and> GetTool r1 ''query_order'' = Some t1
     \<and> fst (RegisterTool r2 (Some t2)) = None
     \<and> GetTool (snd (RegisterTool r2 (Some t2))) ''query_order'' = Some t2)"
  using C5_register_twice_duplicate
    [of "\<lparr>GetName = ''query_order'', GetDescription = ''first'', GetParameters = (),
          Call = (\<lambda>a w. ((None, None), w))\<rparr>" "''query_order''"
        "\<lparr>GetName = ''query_order'', GetDescription = ''second'', GetParameters = (),
          Call = (\<lambda>a w. ((None, None), w))\<rparr>"
        "NewToolRegistry :: (unit, unit, unit) ToolRegistry"]
  by (simp add: Let_def GetTool_def NewToolRegistry_def)

subsection \<open>The session store\<close>

text \<open>
  C7. For a session id absent from the store, \<open>GetOrCreateState\<close> creates and stores a
  session with step \<open>greeting\<close>, an empty context, an empty history and both timestamps equal
  to the clock reading; for a session id present in the store it returns the stored session
  and leaves the store as it is.
\<close>

theorem C7_getOrCreate:
  "(GetState sm sid = None \<longrightarrow>
      (let (st, sm') = GetOrCreateState now sm sid uid in
         SessionID st = sid \<and> UserID st = uid \<and> CurrentStep st = ''greeting''
       \<and> Context st = Map.empty \<and> History st = []
       \<and> CreatedAt st = now \<and> LastActivity st = now
       \<and> GetState sm' sid = Some st
       \<and> (\<forall>other. other \<noteq> sid \<longrightarrow> GetState sm' other = GetState sm other)))
 \<and> (\<forall>old. GetState sm sid = Some old \<longrightarrow> GetOrCreateState now sm sid uid = (old, sm))"
  by (simp add: GetOrCreateState_def CreateState_def GetState_def Let_def)

theorem C7_getOrCreate_witness:
  "GetState NewStateManager ''s1'' = None
 \<and> GetOrCreateState 42 NewStateManager ''s1'' ''u1''
     = (\<lparr>SessionID = ''s1'', UserID = ''u1'', CurrentStep = ''greeting'', Context = Map.empty,
         History = [], LastActivity = 42, CreatedAt = 42\<rparr>,
        \<lparr>states = [''s1'' \<mapsto> \<lparr>SessionID = ''s1'', UserID = ''u1'', CurrentStep = ''greeting'',
           Context = Map.empty, History = [], LastActivity = 42, CreatedAt = 42\<rparr>]\<rparr>)
 \<and> GetState (snd (GetOrCreateState 42 NewStateManager ''s1'' ''u1'')) ''s1''
     = Some (fst (GetOrCreateState 42 NewStateManager ''s1'' ''u1''))
 \<and> GetOrCreateState 99 (snd (GetOrCreateState 42 NewStateManager ''s1'' ''u1'')) ''s1'' ''u2''
     = GetOrCreateState 42 NewStateManager ''s1'' ''u1''"
  using C7_getOrCreate [of NewStateManager "''s1''" 42 "''u1''"]
    C7_getOrCreate [of "snd (GetOrCreateState 42 NewStateManager ''s1'' ''u1'')" "''s1''" 99 "''u2''"]
  by (simp add: GetOrCreateState_def CreateState_def GetState_def NewStateManager_def Let_def)

subsection \<open>The tool-calling workflow\<close>

text \<open>The loop, one pass at a time; the loop cut off after \<open>n\<close> tests agrees with it.\<close>

lemma loop_unfold:
  "ProcessMessage_loop rt wk w =
     (if IsComplete (state wk) then Some (None, wk, w)
      else case iteration rt wk w of
             Inl (err, w1) \<Rightarrow> Some (Some err, wk, w1)
           | Inr (wk', w') \<Rightarrow> ProcessMessage_loop rt wk' w')"
  by (subst ProcessMessage_loop.simps)
     (simp add: iteration_def Let_def split: prod.splits sum.splits)

lemma loop_fuel_sound: "loop_fuel n rt wk w = Some r \<Longrightarrow> ProcessMessage_loop rt wk w = Some r"
proof (induction n arbitrary: wk w)
  case 0
  then show ?case by simp
next
  case (Suc n)
  show ?case
  proof (cases "IsComplete (state wk)")
    case True
    with Suc.prems show ?thesis by (subst loop_unfold) simp
  next
    case False
    show ?thesis
    proof (cases "iteration rt wk w")
      case (Inl a)
      with False Suc.prems show ?thesis by (subst loop_unfold) (simp split: prod.splits)
    next
      case (Inr b)
      obtain wk' w' where b: "b = (wk', w')" by (cases b)
      from False Inr b Suc.prems have "loop_fuel n rt wk' w' = Some r" by simp
      then have "ProcessMessage_loop rt wk' w' = Some r" by (rule Suc.IH)
      with False Inr b show ?thesis by (subst loop_unfold) simp
    qed
  qed
qed

lemma loop_fuel_complete:
  assumes "ProcessMessage_loop rt wk w = Some r"
  shows "\<exists>n. loop_fuel n rt wk w = Some r"
proof (rule ProcessMessage_loop.raw_induct
    [where P = "\<lambda>rt wk w r. \<exists>n. loop_fuel n rt wk w = Some r", OF _ assms], goal_cases)
  case (1 f rt wk w r)
  show ?case
  proof (cases "IsComplete (state wk)")
    case True
    with 1(2) have "loop_fuel (Suc 0) rt wk w = Some r" by simp
    then show ?thesis by blast
  next
    case False
    show ?thesis
    proof (cases "iteration rt wk w")
      case (Inl a)
      with False 1(2) have "loop_fuel (Suc 0) rt wk w = Some r"
        by (auto simp: iteration_def Let_def split: prod.splits sum.splits if_splits)
      then show ?thesis by blast
    next
      case (Inr b)
      obtain wk' w' where b: "b = (wk', w')" by (cases b)
      from False Inr b 1(2) have "f rt wk' w' = Some r"
        by (auto simp: iteration_def Let_def split: prod.splits sum.splits if_splits)
      then obtain n where "loop_fuel n rt wk' w' = Some r" using 1(1) by blast
      with False Inr b have "loop_fuel (Suc n) rt wk w = Some r" by simp
      then show ?thesis by blast
    qed
  qed
qed

text \<open>What the inner loop over the tool calls keeps and what it appends.\<close>

lemma executeTool_state_irrelevant:
  "executeTool (wk\<lparr>state := s\<rparr>) toolCall w = executeTool wk toolCall w"
  by (simp add: executeTool_def)

lemma execute_toolCalls_frame:
  "llmClient (fst (execute_toolCalls wk tcs w)) = llmClient wk
 \<and> toolManager (fst (execute_toolCalls wk tcs w)) = toolManager wk
 \<and> Messages (state (fst (execute_toolCalls wk tcs w))) = Messages (state wk)
 \<and> ToolCalls (state (fst (execute_toolCalls wk tcs w))) = ToolCalls (state wk)
 \<and> IsComplete (state (fst (execute_toolCalls wk tcs w))) = IsComplete (state wk)"
  by (induction wk tcs w rule: execute_toolCalls.induct)
     (auto split: prod.splits option.splits)




lemma callModel_always_requests:
  assumes "always_requests_tools (llmClient wk)"
  shows "\<exists>response w1. callModel rt wk w = (Inr response, w1) \<and> resp_ToolCalls response \<noteq> []"
proof -
  obtain messages toolDefinitions w2 where req: "model_request rt wk w = (messages, toolDefinitions, w2)"
    by (cases "model_request rt wk w") auto
  from assms have "case llmClient wk messages toolDefinitions w2 of
          (Inl err, w') \<Rightarrow> False
        | (Inr response, w') \<Rightarrow> chat_ToolCalls response \<noteq> []"
    unfolding always_requests_tools_def by simp
  with req show ?thesis
    by (auto simp: callModel_def split: prod.splits sum.splits)
qed

lemma iteration_requests:
  assumes "callModel rt wk w = (Inr response, w1)" and "resp_ToolCalls response \<noteq> []"
  shows "iteration rt wk w =
           Inr (execute_toolCalls
                  (wk\<lparr>state := (state wk)\<lparr>Messages := Messages (state wk) @
                          [\<lparr>Role = ''assistant'', Content = resp_Content response\<rparr>],
                        ToolCalls := ToolCalls (state wk) @ resp_ToolCalls response\<rparr>\<rparr>)
                  (resp_ToolCalls response) w1)"
  using assms by (simp add: iteration_def Let_def)

lemma iteration_answers:
  assumes "callModel rt wk w = (Inr response, w1)" and "resp_ToolCalls response = []"
  shows "iteration rt wk w =
           Inr (wk\<lparr>state := (state wk)\<lparr>Messages := Messages (state wk) @
                          [\<lparr>Role = ''assistant'', Content = resp_Content response\<rparr>],
                        IsComplete := True\<rparr>\<rparr>, w1)"
  using assms by (simp add: iteration_def Let_def)

lemma iteration_requests_frame:
  assumes "callModel rt wk w = (Inr response, w1)" and "resp_ToolCalls response \<noteq> []"
    and "iteration rt wk w = Inr (wk', w')"
  shows "llmClient wk' = llmClient wk \<and> toolManager wk' = toolManager wk
       \<and> IsComplete (state wk') = IsComplete (state wk)"
proof -
  let ?wk2 = "wk\<lparr>state := (state wk)\<lparr>Messages := Messages (state wk) @
                          [\<lparr>Role = ''assistant'', Content = resp_Content response\<rparr>],
                        ToolCalls := ToolCalls (state wk) @ resp_ToolCalls response\<rparr>\<rparr>"
  from assms have "wk' = fst (execute_toolCalls ?wk2 (resp_ToolCalls response) w1)"
    by (simp add: iteration_requests)
  then show ?thesis using execute_toolCalls_frame [of ?wk2 "resp_ToolCalls response" w1] by simp
qed

lemma loop_fuel_diverges:
  assumes "always_requests_tools (llmClient wk)" and "\<not> IsComplete (state wk)"
  shows "loop_fuel n rt wk w = None"
  using assms
proof (induction n arbitrary: wk w)
  case 0
  show ?case by simp
next
  case (Suc n)
  from callModel_always_requests [OF Suc.prems(1)]
  obtain response w1 where cm: "callModel rt wk w = (Inr response, w1)"
    and tcs: "resp_ToolCalls response \<noteq> []" by blast
  obtain wk' w' where it: "iteration rt wk w = Inr (wk', w')"
    using iteration_requests [OF cm tcs] by (metis surj_pair)
  from iteration_requests_frame [OF cm tcs it] Suc.prems
  have "always_requests_tools (llmClient wk')" and "\<not> IsComplete (state wk')" by simp_all
  then have "loop_fuel n rt wk' w' = None" by (rule Suc.IH)
  with Suc.prems(2) it show ?case by simp
qed

lemma loop_diverges:
  assumes "always_requests_tools (llmClient wk)" and "\<not> IsComplete (state wk)"
  shows "ProcessMessage_loop rt wk w = None"
proof (rule ccontr)
  assume "ProcessMessage_loop rt wk w \<noteq> None"
  then obtain r where "ProcessMessage_loop rt wk w = Some r" by blast
  from loop_fuel_complete [OF this] obtain n where "loop_fuel n rt wk w = Some r" ..
  with loop_fuel_diverges [OF assms, of n rt w] show False by simp
qed

lemma ProcessMessage_diverges:
  assumes "always_requests_tools (llmClient wk)" and "\<not> IsComplete (state wk)"
  shows "ProcessMessage rt wk userMessage w = None"
proof -
  let ?wk0 = "wk\<lparr>state := (state wk)\<lparr>Messages := Messages (state wk) @
                   [\<lparr>Role = ''user'', Content = userMessage\<rparr>]\<rparr>\<rparr>"
  from assms have "ProcessMessage_loop rt ?wk0 w = None"
    by (intro loop_diverges) simp_all
  then show ?thesis by (simp add: ProcessMessage_def Let_def)
qed

lemma loop_fuel_answer:
  assumes "loop_fuel n rt wk w = Some (None, wk', w')" and "\<not> IsComplete (state wk)"
  shows "\<exists>wkn wn response.
           callModel rt wkn wn = (Inr response, w') \<and> resp_ToolCalls response = []
         \<and> llmClient wkn = llmClient wk \<and> toolManager wkn = toolManager wk
         \<and> wk' = wkn\<lparr>state := (state wkn)\<lparr>Messages := Messages (state wkn) @
                          [\<lparr>Role = ''assistant'', Content = resp_Content response\<rparr>],
                        IsComplete := True\<rparr>\<rparr>"
  using assms
proof (induction n arbitrary: wk w)
  case 0
  then show ?case by simp
next
  case (Suc n)
  show ?case
  proof (cases "callModel rt wk w")
    case (Pair res w1)
    show ?thesis
    proof (cases res)
      case (Inl err)
      with Pair Suc.prems show ?thesis by (simp add: iteration_def)
    next
      case (Inr response)
      with Pair have cm: "callModel rt wk w = (Inr response, w1)" by simp
      show ?thesis
      proof (cases "resp_ToolCalls response = []")
        case True
        let ?wk1 = "wk\<lparr>state := (state wk)\<lparr>Messages := Messages (state wk) @
                          [\<lparr>Role = ''assistant'', Content = resp_Content response\<rparr>],
                        IsComplete := True\<rparr>\<rparr>"
        from Suc.prems iteration_answers [OF cm True]
        have "loop_fuel n rt ?wk1 w1 = Some (None, wk', w')" by simp
        then have "wk' = ?wk1 \<and> w' = w1" by (cases n) simp_all
        with cm True show ?thesis by blast
      next
        case False
        obtain wk2 w2 where it: "iteration rt wk w = Inr (wk2, w2)"
          using iteration_requests [OF cm False] by (metis surj_pair)
        from iteration_requests_frame [OF cm False it] Suc.prems(2)
        have fr: "llmClient wk2 = llmClient wk" "toolManager wk2 = toolManager wk"
          "\<not> IsComplete (state wk2)" by simp_all
        from Suc.prems it have "loop_fuel n rt wk2 w2 = Some (None, wk', w')" by simp
        from Suc.IH [OF this fr(3)] fr(1,2) show ?thesis by simp
      qed
    qed
  qed
qed

lemma ProcessMessage_answer:
  assumes "ProcessMessage rt wk userMessage w = Some (Inr answer, wk', w')"
  shows "\<exists>wkn wn response.
           callModel rt wkn wn = (Inr response, w') \<and> resp_ToolCalls response = []
         \<and> resp_Content response = answer
         \<and> llmClient wkn = llmClient wk \<and> toolManager wkn = toolManager wk
         \<and> wk' = wkn\<lparr>state := (state wkn)\<lparr>Messages := Messages (state wkn) @
                          [\<lparr>Role = ''assistant'', Content = answer\<rparr>],
                        IsComplete := True\<rparr>\<rparr>"
proof -
  let ?wk0 = "wk\<lparr>state := (state wk)\<lparr>Messages := Messages (state wk) @
                   [\<lparr>Role = ''user'', Content = userMessage\<rparr>]\<rparr>\<rparr>"
  from assms have loop: "ProcessMessage_loop rt ?wk0 w = Some (None, wk', w')"
    and ans: "answer = Content (last (Messages (state wk')))"
    and role: "Role (last (Messages (state wk'))) = ''assistant''"
    by (auto simp: ProcessMessage_def Let_def split: option.splits prod.splits if_splits)
  have nc: "\<not> IsComplete (state ?wk0)"
  proof
    assume "IsComplete (state ?wk0)"
    with loop have "wk' = ?wk0" by (subst (asm) loop_unfold) simp
    with role show False by simp
  qed
  from loop_fuel_complete [OF loop] obtain n where "loop_fuel n rt ?wk0 w = Some (None, wk', w')" ..
  from loop_fuel_answer [OF this nc] obtain wkn wn response where
    *: "callModel rt wkn wn = (Inr response, w')" "resp_ToolCalls response = []"
       "llmClient wkn = llmClient wk" "toolManager wkn = toolManager wk"
       "wk' = wkn\<lparr>state := (state wkn)\<lparr>Messages := Messages (state wkn) @
                          [\<lparr>Role = ''assistant'', Content = resp_Content response\<rparr>],
                        IsComplete := True\<rparr>\<rparr>"
    by auto
  from *(5) ans have "resp_Content response = answer" by simp
  with * show ?thesis by blast
qed

lemma loop_answers_after:
  assumes "answers_after n rt wk w answer" and "\<not> IsComplete (state wk)"
  shows "\<exists>wk' w'. ProcessMessage_loop rt wk w = Some (None, wk', w')
           \<and> Messages (state wk') \<noteq> []
           \<and> last (Messages (state wk')) = \<lparr>Role = ''assistant'', Content = answer\<rparr>"
  using assms
proof (induction n arbitrary: wk w)
  case 0
  then obtain response w1 where cm: "callModel rt wk w = (Inr response, w1)"
    and no: "resp_ToolCalls response = []" and c: "resp_Content response = answer"
    by (auto split: prod.splits sum.splits)
  let ?wk1 = "wk\<lparr>state := (state wk)\<lparr>Messages := Messages (state wk) @
                          [\<lparr>Role = ''assistant'', Content = resp_Content response\<rparr>],
                        IsComplete := True\<rparr>\<rparr>"
  have "ProcessMessage_loop rt ?wk1 w1 = Some (None, ?wk1, w1)"
    by (subst loop_unfold) simp
  with 0(2) iteration_answers [OF cm no]
  have "ProcessMessage_loop rt wk w = Some (None, ?wk1, w1)"
    by (subst loop_unfold) simp
  with c show ?case by simp
next
  case (Suc n)
  then obtain response w1 wk2 w2 where cm: "callModel rt wk w = (Inr response, w1)"
    and tcs: "resp_ToolCalls response \<noteq> []" and it: "iteration rt wk w = Inr (wk2, w2)"
    and rest: "answers_after n rt wk2 w2 answer"
    by (auto split: prod.splits sum.splits)
  from iteration_requests_frame [OF cm tcs it] Suc.prems(2)
  have "\<not> IsComplete (state wk2)" by simp
  from Suc.IH [OF rest this] obtain wk' w' where
    "ProcessMessage_loop rt wk2 w2 = Some (None, wk', w')" "Messages (state wk') \<noteq> []"
    "last (Messages (state wk')) = \<lparr>Role = ''assistant'', Content = answer\<rparr>" by blast
  moreover from Suc.prems(2) it
  have "ProcessMessage_loop rt wk w = ProcessMessage_loop rt wk2 w2"
    by (subst loop_unfold) simp
  ultimately show ?case by auto
qed



lemma iterations_snoc:
  "iterations k rt wk w = Some (wk1, w1) \<Longrightarrow> \<not> IsComplete (state wk1) \<Longrightarrow>
   iteration rt wk1 w1 = Inr (wk2, w2) \<Longrightarrow> iterations (Suc k) rt wk w = Some (wk2, w2)"
proof (induction k arbitrary: wk w)
  case 0
  then show ?case by simp
next
  case (Suc k)
  from Suc.prems(1) obtain wka wa where nc: "\<not> IsComplete (state wk)"
    and it: "iteration rt wk w = Inr (wka, wa)" and rest: "iterations k rt wka wa = Some (wk1, w1)"
    by (auto split: if_splits sum.splits)
  from Suc.IH [OF rest Suc.prems(2,3)] have "iterations (Suc k) rt wka wa = Some (wk2, w2)" .
  with nc it show ?case by simp
qed



lemma iterations_never_end:
  assumes "always_requests_tools (llmClient wk)" and "\<not> IsComplete (state wk)"
  shows "\<exists>wk' w'. iterations k rt wk w = Some (wk', w') \<and> \<not> IsComplete (state wk')
           \<and> llmClient wk' = llmClient wk"
proof (induction k)
  case 0
  from assms show ?case by simp
next
  case (Suc k)
  then obtain wk1 w1 where k: "iterations k rt wk w = Some (wk1, w1)"
    and nc: "\<not> IsComplete (state wk1)" and cl: "llmClient wk1 = llmClient wk" by blast
  from assms(1) cl have "always_requests_tools (llmClient wk1)" by simp
  from callModel_always_requests [OF this]
  obtain response wa where cm: "callModel rt wk1 w1 = (Inr response, wa)"
    and tcs: "resp_ToolCalls response \<noteq> []" by blast
  obtain wk2 w2 where it: "iteration rt wk1 w1 = Inr (wk2, w2)"
    using iteration_requests [OF cm tcs] by (metis surj_pair)
  from iteration_requests_frame [OF cm tcs it] nc cl
  have "\<not> IsComplete (state wk2)" "llmClient wk2 = llmClient wk" by simp_all
  with iterations_snoc [OF k nc it] show ?case by blast
qed


lemmas workflow_eval = iteration_def callModel_def model_request_def buildSystemPrompt_def
  range_tools_def build_messages_def tool_result_message_def executeTool_def GetTool_def
  NewWorkflow_def example_runtime_def example_registry_def example_tool_def RegisterTool_def
  NewToolRegistry_def List.map_filter_def Let_def

text \<open>
  C1, as the claim is worded: against the model that asks for a tool on every invocation,
  \<open>ProcessMessage\<close> would return an error after a bounded number of passes. The loop has no
  bound and no such error: the call does not return.
\<close>

theorem C1_stubborn_model_counterexample:
  "ProcessMessage example_runtime (NewWorkflow stubborn_model example_registry) ''hi'' () = None"
  by (rule ProcessMessage_diverges)
     (simp_all add: always_requests_tools_def stubborn_model_def NewWorkflow_def)

text \<open>
  C1, amended. \<open>ProcessMessage\<close> has no maximum-iteration bound and no \<open>ToolLoopExceeded\<close>
  condition: for every model collaborator that returns at least one tool call on every
  invocation, a call of \<open>ProcessMessage\<close> on a workflow that is not complete (as after
  \<open>NewWorkflow\<close> or \<open>Reset\<close>) never returns, and for every number \<open>k\<close> the turn gets through
  \<open>k\<close> passes of its loop and is still not complete.
\<close>

theorem C1_no_iteration_bound:
  assumes "always_requests_tools (llmClient wk)" and "\<not> IsComplete (state wk)"
  shows "ProcessMessage rt wk userMessage w = None
       \<and> (\<forall>k. \<exists>wk' w'.
             iterations k rt
               (wk\<lparr>state := (state wk)\<lparr>Messages := Messages (state wk) @
                     [\<lparr>Role = ''user'', Content = userMessage\<rparr>]\<rparr>\<rparr>) w = Some (wk', w')
           \<and> \<not> IsComplete (state wk'))"
proof
  show "ProcessMessage rt wk userMessage w = None"
    using assms by (rule ProcessMessage_diverges)
next
  let ?wk0 = "wk\<lparr>state := (state wk)\<lparr>Messages := Messages (state wk) @
                     [\<lparr>Role = ''user'', Content = userMessage\<rparr>]\<rparr>\<rparr>"
  from assms have "always_requests_tools (llmClient ?wk0)" "\<not> IsComplete (state ?wk0)"
    by simp_all
  from iterations_never_end [OF this]
  show "\<forall>k. \<exists>wk' w'. iterations k rt ?wk0 w = Some (wk', w') \<and> \<not> IsComplete (state wk')"
    by blast
qed

theorem C1_no_iteration_bound_witness:
  "always_requests_tools (llmClient (Reset (NewWorkflow lost_model example_registry)))
 \<and> \<not> IsComplete (state (Reset (NewWorkflow lost_model example_registry)))
 \<and> ProcessMessage example_runtime (Reset (NewWorkflow lost_model example_registry))
      ''where is my order'' () = None"
  using C1_no_iteration_bound [of "Reset (NewWorkflow lost_model example_registry)"
      example_runtime "''where is my order''" "()"]
  by (simp add: always_requests_tools_def lost_model_def NewWorkflow_def Reset_def)





text \<open>
  C9, as the claim is worded: a result returned without error would be a non-empty string.
  The model whose answer is the empty text makes \<open>ProcessMessage\<close> return the empty string
  without error.
\<close>

theorem C9_empty_answer_counterexample:
  "map_option fst
     (ProcessMessage example_runtime (NewWorkflow silent_model example_registry) ''hi'' ())
   = Some (Inr [])"
proof -
  let ?wk0 = "(NewWorkflow silent_model example_registry)\<lparr>state :=
     (state (NewWorkflow silent_model example_registry))\<lparr>Messages :=
        Messages (state (NewWorkflow silent_model example_registry)) @
        [\<lparr>Role = ''user'', Content = ''hi''\<rparr>]\<rparr>\<rparr>"
  have "answers_after 0 example_runtime ?wk0 () []"
    by (simp add: workflow_eval silent_model_def)
  from loop_answers_after [OF this] obtain wk' w' where
    "ProcessMessage_loop example_runtime ?wk0 () = Some (None, wk', w')"
    "Messages (state wk') \<noteq> []"
    "last (Messages (state wk')) = \<lparr>Role = ''assistant'', Content = []\<rparr>"
    by (auto simp: NewWorkflow_def)
  then show ?thesis by (simp add: ProcessMessage_def Let_def)
qed

text \<open>
  C9, amended. When \<open>ProcessMessage\<close> returns without error, its result is the text of the
  model's last response, the one that carried no tool call, as it is (an empty text is
  returned as the empty string, not turned into an error); that response is appended to the
  messages as the last, assistant message and the workflow is marked complete.
\<close>

theorem C9_answer_is_model_text:
  assumes "ProcessMessage rt wk userMessage w = Some (Inr answer, wk', w')"
  shows "\<exists>wkn wn response.
           callModel rt wkn wn = (Inr response, w') \<and> resp_ToolCalls response = []
         \<and> resp_Content response = answer
         \<and> llmClient wkn = llmClient wk \<and> toolManager wkn = toolManager wk
         \<and> wk' = wkn\<lparr>state := (state wkn)\<lparr>Messages := Messages (state wkn) @
                          [\<lparr>Role = ''assistant'', Content = answer\<rparr>],
                        IsComplete := True\<rparr>\<rparr>"
  using assms by (rule ProcessMessage_answer)

theorem C9_answer_is_model_text_witness:
  "ProcessMessage example_runtime (NewWorkflow polite_model example_registry) ''hi'' ()
     = Some (Inr ''hello'',
             \<lparr>llmClient = polite_model, toolManager = example_registry,
              state = \<lparr>Messages = [\<lparr>Role = ''user'', Content = ''hi''\<rparr>,
                                   \<lparr>Role = ''assistant'', Content = ''hello''\<rparr>],
                       ToolCalls = [], ToolResults = [], NextAction = [], IsComplete = True\<rparr>\<rparr>, ())
 \<and> (\<exists>wkn wn response.
       callModel example_runtime wkn wn = (Inr response, ()) \<and> resp_ToolCalls response = []
     \<and> resp_Content response = ''hello'' \<and> llmClient wkn = polite_model
     \<and> toolManager wkn = example_registry)"
proof -
  let ?wk0 = "(NewWorkflow polite_model example_registry)\<lparr>state :=
     (state (NewWorkflow polite_model example_registry))\<lparr>Messages :=
        Messages (state (NewWorkflow polite_model example_registry)) @
        [\<lparr>Role = ''user'', Content = ''hi''\<rparr>]\<rparr>\<rparr>"
  let ?wkF = "\<lparr>llmClient = polite_model, toolManager = example_registry,
              state = \<lparr>Messages = [\<lparr>Role = ''user'', Content = ''hi''\<rparr>,
                                   \<lparr>Role = ''assistant'', Content = ''hello''\<rparr>],
                       ToolCalls = [], ToolResults = [], NextAction = [], IsComplete = True\<rparr>\<rparr>"
  have "loop_fuel 2 example_runtime ?wk0 () = Some (None, ?wkF, ())"
    by (simp add: workflow_eval polite_model_def numeral_2_eq_2)
  then have "ProcessMessage_loop example_runtime ?wk0 () = Some (None, ?wkF, ())"
    by (rule loop_fuel_sound)
  then have run: "ProcessMessage example_runtime (NewWorkflow polite_model example_registry) ''hi'' ()
     = Some (Inr ''hello'', ?wkF, ())"
    by (simp add: ProcessMessage_def Let_def)
  from C9_answer_is_model_text [OF run] obtain wkn wn response where
    "callModel example_runtime wkn wn = (Inr response, ())" "resp_ToolCalls response = []"
    "resp_Content response = ''hello''"
    "llmClient wkn = llmClient (NewWorkflow polite_model example_registry)"
    "toolManager wkn = toolManager (NewWorkflow polite_model example_registry)"
    by blast
  then have "callModel example_runtime wkn wn = (Inr response, ()) \<and> resp_ToolCalls response = []
     \<and> resp_Content response = ''hello'' \<and> llmClient wkn = polite_model
     \<and> toolManager wkn = example_registry"
    by (simp add: NewWorkflow_def)
  then have "\<exists>wkn wn response.
       callModel example_runtime wkn wn = (Inr response, ()) \<and> resp_ToolCalls response = []
     \<and> resp_Content response = ''hello'' \<and> llmClient wkn = polite_model
     \<and> toolManager wkn = example_registry"
    by blast
  with run show ?thesis by simp
qed

subsection \<open>Strings and regular expressions\<close>

text \<open>\<open>strings_Contains\<close> is the substring relation; the matchers find what the patterns say.\<close>

lemma strings_HasPrefix_iff: "strings_HasPrefix s p \<longleftrightarrow> (\<exists>suf. s = p @ suf)"
  by (induction s p rule: strings_HasPrefix.induct) auto

lemma strings_Contains_iff: "strings_Contains s sub \<longleftrightarrow> (\<exists>pre suf. s = pre @ sub @ suf)"
proof (induction s)
  case Nil
  then show ?case by auto
next
  case (Cons c cs)
  show ?case
  proof
    assume "strings_Contains (c # cs) sub"
    then consider "strings_HasPrefix (c # cs) sub" | "strings_Contains cs sub" by auto
    then show "\<exists>pre suf. c # cs = pre @ sub @ suf"
    proof cases
      case 1
      then obtain suf where "c # cs = sub @ suf" by (auto simp: strings_HasPrefix_iff)
      then have "c # cs = [] @ sub @ suf" by simp
      then show ?thesis by blast
    next
      case 2
      with Cons.IH obtain pre suf where "cs = pre @ sub @ suf" by blast
      then have "c # cs = (c # pre) @ sub @ suf" by simp
      then show ?thesis by blast
    qed
  next
    assume "\<exists>pre suf. c # cs = pre @ sub @ suf"
    then obtain pre suf where eq: "c # cs = pre @ sub @ suf" by blast
    show "strings_Contains (c # cs) sub"
    proof (cases pre)
      case Nil
      with eq have "strings_HasPrefix (c # cs) sub" by (auto simp: strings_HasPrefix_iff)
      then show ?thesis by simp
    next
      case (Cons p ps)
      with eq have "cs = ps @ sub @ suf" by simp
      with Cons.IH have "strings_Contains cs sub" by blast
      then show ?thesis by simp
    qed
  qed
qed













subsection \<open>The plugin manager\<close>

lemma ReloadPlugin_blocks:
  assumes "\<not> mu pm" and "plugins pm pluginName = Some pluginInfo"
  shows "ReloadPlugin host pm pluginName =
           Blocked (pm\<lparr>mu := True,
                       pluginFunctions :=
                         fold (\<lambda>name fs. fs(name := None))
                           (map (funcName pluginName) (Tools pluginInfo)) (pluginFunctions pm)\<rparr>)"
  using assms by (simp add: ReloadPlugin_def LoadPlugin_def Let_def)

lemma LoadPlugin_locked_loaded:
  assumes "plugins pm pluginName \<noteq> None"
  shows "LoadPlugin_locked host pm pluginName pluginPath
           = (Some (err_plugin_prefix @ pluginName @ err_already_loaded), pm)"
  using assms by (simp add: LoadPlugin_locked_def)

lemma example_load:
  "LoadPlugin example_host empty_manager ''calc'' ''plugins/calc.so'' = Returns None loaded_manager"
  by (simp add: LoadPlugin_def LoadPlugin_locked_def example_host_def empty_manager_def
        loaded_manager_def calc_info_def extractTools_def List.map_filter_def funcName_def
        fun_upd_twist)

text \<open>
  C4, at the failing input: the manager with the plugin \<open>calc\<close> loaded. \<open>UnloadPlugin\<close>
  followed by \<open>LoadPlugin\<close> at the recorded path returns without error and registers the two
  tools of the freshly loaded plugin. \<open>ReloadPlugin\<close> does not return: it drops the two
  function references and then waits on the lock it holds itself, with \<open>calc\<close> still in the
  plugin table. Nor is the lock all that stands in the way: the body of \<open>LoadPlugin\<close>, run on
  the state \<open>ReloadPlugin\<close> has reached, refuses the plugin as already loaded.
\<close>

theorem C4_reload_never_returns:
  "UnloadPlugin loaded_manager ''calc'' = Returns None empty_manager
 \<and> LoadPlugin example_host empty_manager ''calc'' (Path calc_info) = Returns None loaded_manager
 \<and> ReloadPlugin example_host loaded_manager ''calc''
      = Blocked \<lparr>plugins = [''calc'' \<mapsto> calc_info], pluginFunctions = Map.empty, mu = True,
                 pluginsDir = ''plugins''\<rparr>
 \<and> fst (LoadPlugin_locked example_host
           \<lparr>plugins = [''calc'' \<mapsto> calc_info], pluginFunctions = Map.empty, mu = True,
            pluginsDir = ''plugins''\<rparr> ''calc'' (Path calc_info))
      = Some (err_plugin_prefix @ ''calc'' @ err_already_loaded)"
proof (intro conjI)
  show "UnloadPlugin loaded_manager ''calc'' = Returns None empty_manager"
    by (simp add: UnloadPlugin_def loaded_manager_def empty_manager_def calc_info_def
          funcName_def Let_def)
  show "LoadPlugin example_host empty_manager ''calc'' (Path calc_info) = Returns None loaded_manager"
    using example_load by (simp add: calc_info_def)
  show "ReloadPlugin example_host loaded_manager ''calc''
      = Blocked \<lparr>plugins = [''calc'' \<mapsto> calc_info], pluginFunctions = Map.empty, mu = True,
                 pluginsDir = ''plugins''\<rparr>"
    by (subst ReloadPlugin_blocks [where pluginInfo = calc_info])
       (simp_all add: loaded_manager_def calc_info_def funcName_def)
  show "fst (LoadPlugin_locked example_host
           \<lparr>plugins = [''calc'' \<mapsto> calc_info], pluginFunctions = Map.empty, mu = True,
            pluginsDir = ''plugins''\<rparr> ''calc'' (Path calc_info))
      = Some (err_plugin_prefix @ ''calc'' @ err_already_loaded)"
    by (simp add: LoadPlugin_locked_loaded)
qed

subsection \<open>The dialogue step machine\<close>

text \<open>
  The steps \<open>NewConversationFlow\<close> registers, what their \<open>Execute\<close> does to the current step,
  and what the transition loop does to it, whatever the order in which the map is visited.
\<close>

lemma default_steps:
  "steps (registry NewConversationFlow) name =
     (if name = ''refund_request'' then Some RefundRequestStep
      else if name = ''order_query'' then Some OrderQueryStep
      else if name = ''greeting'' then Some GreetingStep else None)"
  by (simp add: NewConversationFlow_def RegisterStep_def Register_def NewStepRegistry_def
        GreetingStep_def OrderQueryStep_def RefundRequestStep_def)

lemma registered_steps_iff:
  "name \<in> registered_steps \<longleftrightarrow>
     name = ''greeting'' \<or> name = ''order_query'' \<or> name = ''refund_request''"
  by (simp add: registered_steps_def dom_def default_steps)

lemma default_steps_range:
  "set (List.map_filter (steps (registry NewConversationFlow)) order)
     \<subseteq> {GreetingStep, OrderQueryStep, RefundRequestStep}"
proof
  fix step
  assume "step \<in> set (List.map_filter (steps (registry NewConversationFlow)) order)"
  then obtain name where "steps (registry NewConversationFlow) name = Some step"
    by (auto simp: List.map_filter_def)
  then show "step \<in> {GreetingStep, OrderQueryStep, RefundRequestStep}"
    by (simp add: default_steps split: if_splits)
qed

lemma default_step_names:
  "step_GetName GreetingStep = ''greeting''" "step_GetName OrderQueryStep = ''order_query''"
  "step_GetName RefundRequestStep = ''refund_request''"
  by (simp_all add: GreetingStep_def OrderQueryStep_def RefundRequestStep_def)

lemma transition_stays:
  "(\<And>step. step \<in> set ss \<Longrightarrow>
      \<not> (step_GetName step \<noteq> CurrentStep st \<and> CanTransition step st input))
   \<Longrightarrow> transition ss st input = st"
  by (induction ss) auto

lemma transition_cases:
  "transition ss st input = st
   \<or> (\<exists>step \<in> set ss. CanTransition step st input
         \<and> transition ss st input = st\<lparr>CurrentStep := step_GetName step\<rparr>)"
  by (induction ss) auto

lemma default_transition_registered:
  assumes "CurrentStep st \<in> registered_steps"
  shows "CurrentStep (transition (List.map_filter (steps (registry NewConversationFlow)) order)
            st input) \<in> registered_steps"
proof -
  let ?ss = "List.map_filter (steps (registry NewConversationFlow)) order"
  from transition_cases [of ?ss st input] show ?thesis
  proof
    assume "transition ?ss st input = st"
    with assms show ?thesis by simp
  next
    assume "\<exists>step \<in> set ?ss. CanTransition step st input
         \<and> transition ?ss st input = st\<lparr>CurrentStep := step_GetName step\<rparr>"
    then obtain step where "step \<in> set ?ss"
      and t: "transition ?ss st input = st\<lparr>CurrentStep := step_GetName step\<rparr>" by blast
    with default_steps_range [of order]
    have "step = GreetingStep \<or> step = OrderQueryStep \<or> step = RefundRequestStep" by blast
    then have "step_GetName step \<in> registered_steps"
      using default_step_names by (auto simp only: registered_steps_iff)
    with t show ?thesis by simp
  qed
qed


lemma default_transition_quiet:
  assumes "\<not> strings_Contains input kw_check_order" and "\<not> strings_Contains input kw_order"
    and "CurrentStep st = ''refund_request''
         \<or> (\<not> strings_Contains input kw_refund \<and> \<not> strings_Contains input kw_return_order)"
  shows "transition (List.map_filter (steps (registry NewConversationFlow)) order) st input = st"
proof (rule transition_stays)
  fix step
  assume "step \<in> set (List.map_filter (steps (registry NewConversationFlow)) order)"
  with default_steps_range [of order]
  consider "step = GreetingStep" | "step = OrderQueryStep" | "step = RefundRequestStep" by blast
  then show "\<not> (step_GetName step \<noteq> CurrentStep st \<and> CanTransition step st input)"
  proof cases
    case 1
    then show ?thesis by (simp add: GreetingStep_def)
  next
    case 2
    with assms(1,2) show ?thesis by (simp add: OrderQueryStep_def)
  next
    case 3
    with assms(3) show ?thesis by (auto simp add: RefundRequestStep_def)
  qed
qed

lemma GreetingStep_Execute_step:
  "\<exists>response st'. GreetingStep_Execute st input = (Inr response, st')
     \<and> (CurrentStep st' = CurrentStep st \<or> CurrentStep st' = ''order_query''
          \<or> CurrentStep st' = ''refund_request'')"
  by (simp add: GreetingStep_Execute_def)

lemma OrderQueryStep_Execute_step:
  "\<exists>response st'. OrderQueryStep_Execute st input = (Inr response, st')
     \<and> (CurrentStep st' = CurrentStep st \<or> CurrentStep st' = ''greeting'')"
  by (simp add: OrderQueryStep_Execute_def Let_def)

lemma RefundRequestStep_Execute_step:
  "\<exists>response st'. RefundRequestStep_Execute st input = (Inr response, st')
     \<and> (CurrentStep st' = CurrentStep st \<or> CurrentStep st' = ''greeting'')"
  by (simp add: RefundRequestStep_Execute_def Let_def)

lemma default_Execute_registered:
  assumes "steps (registry NewConversationFlow) (CurrentStep st) = Some step"
  shows "\<exists>response st'. Execute step st input = (Inr response, st')
           \<and> CurrentStep st' \<in> registered_steps"
proof -
  from assms have cur: "CurrentStep st \<in> registered_steps"
    by (auto simp: registered_steps_def)
  from assms consider "step = GreetingStep" | "step = OrderQueryStep" | "step = RefundRequestStep"
    by (simp add: default_steps split: if_splits)
  then show ?thesis
  proof cases
    case 1
    from GreetingStep_Execute_step [of st input] obtain response st' where
      "GreetingStep_Execute st input = (Inr response, st')"
      "CurrentStep st' = CurrentStep st \<or> CurrentStep st' = ''order_query''
          \<or> CurrentStep st' = ''refund_request''" by blast
    moreover from this(2) cur have "CurrentStep st' \<in> registered_steps"
      by (auto simp only: registered_steps_iff)
    ultimately show ?thesis using 1 by (simp add: GreetingStep_def)
  next
    case 2
    from OrderQueryStep_Execute_step [of st input] obtain response st' where
      "OrderQueryStep_Execute st input = (Inr response, st')"
      "CurrentStep st' = CurrentStep st \<or> CurrentStep st' = ''greeting''" by blast
    moreover from this(2) cur have "CurrentStep st' \<in> registered_steps"
      by (auto simp only: registered_steps_iff)
    ultimately show ?thesis using 2 by (simp add: OrderQueryStep_def)
  next
    case 3
    from RefundRequestStep_Execute_step [of st input] obtain response st' where
      "RefundRequestStep_Execute st input = (Inr response, st')"
      "CurrentStep st' = CurrentStep st \<or> CurrentStep st' = ''greeting''" by blast
    moreover from this(2) cur have "CurrentStep st' \<in> registered_steps"
      by (auto simp only: registered_steps_iff)
    ultimately show ?thesis using 3 by (simp add: RefundRequestStep_def)
  qed
qed

lemma ProcessInput_registered:
  assumes "CurrentStep st \<in> registered_steps"
  shows "\<exists>response st'.
           ProcessInput NewConversationFlow order st input = (Inr response, st')
         \<and> CurrentStep st' \<in> registered_steps"
proof -
  from assms obtain step where s: "steps (registry NewConversationFlow) (CurrentStep st) = Some step"
    by (auto simp: registered_steps_def)
  from default_Execute_registered [OF s, of input] obtain response st1 where
    e: "Execute step st input = (Inr response, st1)" and r: "CurrentStep st1 \<in> registered_steps"
    by blast
  from s e have "ProcessInput NewConversationFlow order st input =
      (Inr response, transition (List.map_filter (steps (registry NewConversationFlow)) order) st1 input)"
    by (simp add: ProcessInput_def)
  with default_transition_registered [OF r] show ?thesis by blast
qed

lemma ProcessInput_unknown_step:
  assumes "steps (registry f) (CurrentStep st) = None"
  shows "ProcessInput f order st input = (Inl (err_step_not_found @ CurrentStep st), st)"
  using assms by (simp add: ProcessInput_def)

text \<open>The three messages of the refund scenario, one pass of \<open>ProcessInput\<close> each.\<close>

lemma refund_message_keywords:
  "\<not> strings_Contains msg_i_want_a_refund kw_check_order"
  "\<not> strings_Contains msg_i_want_a_refund kw_order"
  "strings_Contains msg_i_want_a_refund kw_refund"
  by (simp_all add: msg_i_want_a_refund_def kw_check_order_def kw_order_def kw_refund_def)

lemma order_id_message:
  "\<not> strings_Contains ''ORD789012'' kw_check_order"
  "\<not> strings_Contains ''ORD789012'' kw_order"
  "extractOrderID ''ORD789012'' = ''ORD789012''"
  "extractRefundReason ''ORD789012'' = []"
  by (simp_all add: kw_check_order_def kw_order_def extractOrderID_def match_ORD_word_def
        is_word_char_def is_letter_def is_digit_def extractRefundReason_def reason_quality_def
        reason_unwanted_def reason_wrong_item_def reason_damaged_def reason_not_as_described_def)

lemma quality_message:
  "\<not> strings_Contains msg_quality_problem kw_check_order"
  "\<not> strings_Contains msg_quality_problem kw_order"
  "extractOrderID msg_quality_problem = []"
  by (simp_all add: msg_quality_problem_def kw_check_order_def kw_order_def extractOrderID_def
        match_ORD_word_def)

lemma ProcessInput_turn1:
  assumes "CurrentStep st = ''greeting''"
  shows "ProcessInput NewConversationFlow order st msg_i_want_a_refund
           = (Inr ask_order_id_and_reason, st\<lparr>CurrentStep := ''refund_request''\<rparr>)"
proof -
  have "transition (List.map_filter (steps (registry NewConversationFlow)) order)
          (st\<lparr>CurrentStep := ''refund_request''\<rparr>) msg_i_want_a_refund
        = st\<lparr>CurrentStep := ''refund_request''\<rparr>"
    by (rule default_transition_quiet [OF refund_message_keywords(1) refund_message_keywords(2)])
       simp
  with assms show ?thesis
    by (simp add: ProcessInput_def default_steps GreetingStep_def GreetingStep_Execute_def
          refund_message_keywords)
qed

lemma ProcessInput_turn2:
  assumes "CurrentStep st = ''refund_request''"
  shows "ProcessInput NewConversationFlow order st ''ORD789012''
           = (Inr ask_refund_reason,
              st\<lparr>Context := (Context st)(''order_id'' \<mapsto> VString ''ORD789012'',
                                        ''awaiting_refund_reason'' \<mapsto> VBool True)\<rparr>)"
proof -
  let ?st = "st\<lparr>Context := (Context st)(''order_id'' \<mapsto> VString ''ORD789012'',
                                        ''awaiting_refund_reason'' \<mapsto> VBool True)\<rparr>"
  have "transition (List.map_filter (steps (registry NewConversationFlow)) order) ?st ''ORD789012'' = ?st"
    by (rule default_transition_quiet [OF order_id_message(1) order_id_message(2)])
       (simp add: assms)
  with assms show ?thesis
    by (simp add: ProcessInput_def default_steps RefundRequestStep_def
          RefundRequestStep_Execute_def order_id_message)
qed

lemma ProcessInput_turn3:
  assumes "CurrentStep st = ''refund_request''"
  shows "ProcessInput NewConversationFlow order st msg_quality_problem = (Inr no_order_id_reply, st)"
proof -
  have "transition (List.map_filter (steps (registry NewConversationFlow)) order) st msg_quality_problem = st"
    by (rule default_transition_quiet [OF quality_message(1) quality_message(2)])
       (simp add: assms)
  with assms show ?thesis
    by (simp add: ProcessInput_def default_steps RefundRequestStep_def
          RefundRequestStep_Execute_def quality_message)
qed

lemma Manager_ProcessMessage_new:
  assumes "states (stateManager m) sessionID = None"
    and "ProcessInput (flow m) order
           \<lparr>SessionID = sessionID, UserID = userID, CurrentStep = ''greeting'',
            Context = Map.empty,
            History = [\<lparr>msg_Role = ''user'', msg_Content = message, Timestamp = now,
                        Metadata = None\<rparr>],
            LastActivity = now, CreatedAt = now\<rparr> message = (Inr response, st')"
  shows "Manager_ProcessMessage order now m sessionID userID message
           = (Inr response,
              m\<lparr>stateManager := \<lparr>states = (states (stateManager m))(sessionID \<mapsto>
                   st'\<lparr>History := History st' @
                          [\<lparr>msg_Role = ''assistant'', msg_Content = response, Timestamp = now,
                            Metadata = None\<rparr>],
                       LastActivity := now\<rparr>)\<rparr>\<rparr>)"
  using assms
  by (simp add: Manager_ProcessMessage_def GetOrCreateState_def GetState_def CreateState_def
        AddMessage_def UpdateState_def Let_def)

lemma Manager_ProcessMessage_old:
  assumes "states (stateManager m) sessionID = Some st"
    and "ProcessInput (flow m) order
           (st\<lparr>History := History st @
                  [\<lparr>msg_Role = ''user'', msg_Content = message, Timestamp = now, Metadata = None\<rparr>],
               LastActivity := now\<rparr>) message = (Inr response, st')"
  shows "Manager_ProcessMessage order now m sessionID userID message
           = (Inr response,
              m\<lparr>stateManager := \<lparr>states = (states (stateManager m))(sessionID \<mapsto>
                   st'\<lparr>History := History st' @
                          [\<lparr>msg_Role = ''assistant'', msg_Content = response, Timestamp = now,
                            Metadata = None\<rparr>],
                       LastActivity := now\<rparr>)\<rparr>\<rparr>)"
  using assms
  by (simp add: Manager_ProcessMessage_def GetOrCreateState_def GetState_def
        AddMessage_def UpdateState_def Let_def)

text \<open>The multi-turn conversation: intents, extraction, and its handlers.\<close>

lemmas mt_keywords = mt_kw_check_order_def mt_kw_query_order_def mt_kw_order_status_def
  mt_kw_my_order_def mt_kw_check_an_order_def mt_kw_order_info_def mt_kw_refund_def
  mt_kw_return_goods_def mt_kw_apply_refund_def mt_kw_i_want_refund_def mt_kw_how_to_refund_def
  mt_kw_refund_application_def

lemma detectIntent_examples:
  "detectIntent msg_i_want_a_refund = ''refund_request''"
  "detectIntent msg_hello = ''general''"
  by (simp_all add: detectIntent_def strings_ToLower_def ascii_lower_def msg_i_want_a_refund_def
        msg_hello_def mt_keywords)

lemma MultiTurn_extractOrderID_examples:
  "MultiTurn_extractOrderID ''ORD789012'' = ''ORD789012''"
  "MultiTurn_extractOrderID ''ord000000 please'' = ''ORD000000''"
  "MultiTurn_extractOrderID ''ORDER'' = []"
  "FindAllString ''ORDER'' = []"
  by (simp_all add: MultiTurn_extractOrderID_def match_letters_digits_def is_letter_def
        is_digit_def strings_ToUpper_def ascii_upper_def Let_def)


lemma MultiTurn_unknown_step_as_greeting:
  assumes "states sm sessionID = Some st"
    and "CurrentStep st \<noteq> ''greeting''" and "CurrentStep st \<noteq> ''order_query''"
    and "CurrentStep st \<noteq> ''refund_request''"
    and "detectIntent message \<noteq> ''general''"
  shows "MultiTurn_ProcessMessage m now sm sessionID message w
       = MultiTurn_ProcessMessage m now
           (sm\<lparr>states := (states sm)(sessionID \<mapsto> st\<lparr>CurrentStep := ''greeting''\<rparr>)\<rparr>)
           sessionID message w"
proof -
  have i: "detectIntent message = ''order_query'' \<or> detectIntent message = ''refund_request''"
    using assms(5) by (simp add: detectIntent_def Let_def split: if_splits)
  then show ?thesis
  proof
    assume "detectIntent message = ''order_query''"
    with assms(1-4) show ?thesis
      by (simp add: MultiTurn_ProcessMessage_def handleGreetingStep_def startOrderQuery_def
            GetOrCreateState_def GetState_def AddMessage_def SetCurrentStep_def UpdateState_def
            Let_def)
  next
    assume "detectIntent message = ''refund_request''"
    with assms(1-4) show ?thesis
      by (simp add: MultiTurn_ProcessMessage_def handleGreetingStep_def startRefundRequest_def
            GetOrCreateState_def GetState_def AddMessage_def SetCurrentStep_def UpdateState_def
            Let_def)
  qed
qed

lemma MultiTurn_unknown_step_general:
  assumes "states sm sessionID = Some st"
    and "CurrentStep st \<noteq> ''greeting''" and "CurrentStep st \<noteq> ''order_query''"
    and "CurrentStep st \<noteq> ''refund_request''"
    and "detectIntent message = ''general''"
  shows "MultiTurn_ProcessMessage m now sm sessionID message w
       = (case handleGeneralChat m message w of
            (Inl err, w') \<Rightarrow>
              (Failure err, snd (AddMessage now sm sessionID ''user'' message None), w')
          | (Inr text, w') \<Rightarrow>
              (Reply text,
               snd (AddMessage now (snd (AddMessage now sm sessionID ''user'' message None))
                      sessionID ''assistant'' text None), w'))"
  using assms
  by (simp add: MultiTurn_ProcessMessage_def GetOrCreateState_def GetState_def AddMessage_def
        UpdateState_def Let_def split: prod.splits sum.splits)







lemma MultiTurn_start_refund:
  assumes "states sm sessionID = None" and "detectIntent message = ''refund_request''"
  shows "MultiTurn_ProcessMessage m now sm sessionID message w =
     (Reply mt_ask_order_id_for_refund,
      sm\<lparr>states := (states sm)(sessionID \<mapsto>
        \<lparr>SessionID = sessionID, UserID = ''default_user'', CurrentStep = ''refund_request'',
         Context = Map.empty,
         History = [\<lparr>msg_Role = ''user'', msg_Content = message, Timestamp = now, Metadata = None\<rparr>,
                    \<lparr>msg_Role = ''assistant'', msg_Content = mt_ask_order_id_for_refund,
                     Timestamp = now, Metadata = None\<rparr>],
         LastActivity = now, CreatedAt = now\<rparr>)\<rparr>, w)"
  using assms
  by (simp add: MultiTurn_ProcessMessage_def handleGreetingStep_def startRefundRequest_def
        GetOrCreateState_def CreateState_def GetState_def AddMessage_def SetCurrentStep_def
        UpdateState_def Let_def)

lemma MultiTurn_refund_order_id:
  assumes "states sm sessionID = Some st" and "CurrentStep st = ''refund_request''"
    and "Context st ''order_id'' = None" and "MultiTurn_extractOrderID message \<noteq> []"
  shows "MultiTurn_ProcessMessage m now sm sessionID message w =
     (let orderID = MultiTurn_extractOrderID message;
          answer = mt_refund_for_order_head @ orderID @ mt_refund_for_order_tail
      in (Reply answer,
          sm\<lparr>states := (states sm)(sessionID \<mapsto>
            st\<lparr>Context := (Context st)(''order_id'' \<mapsto> VString orderID),
               History := History st @
                 [\<lparr>msg_Role = ''user'', msg_Content = message, Timestamp = now, Metadata = None\<rparr>,
                  \<lparr>msg_Role = ''assistant'', msg_Content = answer, Timestamp = now, Metadata = None\<rparr>],
               LastActivity := now\<rparr>)\<rparr>, w))"
  using assms
  by (simp add: MultiTurn_ProcessMessage_def handleRefundRequestStep_def
        GetOrCreateState_def GetState_def AddMessage_def SetContext_def
        UpdateState_def Let_def)

lemma MultiTurn_refund_reason:
  assumes "states sm sessionID = Some st" and "CurrentStep st = ''refund_request''"
    and "Context st ''order_id'' = Some (VString orderID)"
    and "Context st ''refund_reason'' = None"
    and "SubmitRefund (refundTool m) orderID message w = (Inr refundInfo, w')"
  shows "MultiTurn_ProcessMessage m now sm sessionID message w =
     (let answer = mt_refund_submitted_head @ FormatRefundInfo (refundTool m) refundInfo
                     @ mt_anything_else_tail
      in (Reply answer,
          sm\<lparr>states := (states sm)(sessionID \<mapsto>
            st\<lparr>CurrentStep := ''greeting'',
               Context := (Context st)(''refund_reason'' \<mapsto> VString message),
               History := History st @
                 [\<lparr>msg_Role = ''user'', msg_Content = message, Timestamp = now, Metadata = None\<rparr>,
                  \<lparr>msg_Role = ''assistant'', msg_Content = answer, Timestamp = now, Metadata = None\<rparr>],
               LastActivity := now\<rparr>)\<rparr>, w'))"
  using assms
  by (cases st)
     (simp add: MultiTurn_ProcessMessage_def handleRefundRequestStep_def
        MultiTurn_processRefundRequest_def
        GetOrCreateState_def GetState_def AddMessage_def SetContext_def SetCurrentStep_def
        UpdateState_def Let_def)

text \<open>
  The refund scenario on the multi-turn conversation, for a refund tool that accepts the
  refund: the three responses ask for the order id, ask for the reason and confirm the
  submission, and the session is back in the \<open>greeting\<close> step.
\<close>

lemma MultiTurn_refund_scenario:
  assumes "SubmitRefund (refundTool m) ''ORD789012'' msg_quality_problem w = (Inr refundInfo, w')"
  shows "(let (r1, sm1, w1) = MultiTurn_ProcessMessage m t1 NewStateManager ''s1'' msg_i_want_a_refund w;
              (r2, sm2, w2) = MultiTurn_ProcessMessage m t2 sm1 ''s1'' ''ORD789012'' w1;
              (r3, sm3, w3) = MultiTurn_ProcessMessage m t3 sm2 ''s1'' msg_quality_problem w2
          in r1 = Reply mt_ask_order_id_for_refund
           \<and> r2 = Reply (mt_refund_for_order_head @ ''ORD789012'' @ mt_refund_for_order_tail)
           \<and> r3 = Reply (mt_refund_submitted_head @ FormatRefundInfo (refundTool m) refundInfo
                          @ mt_anything_else_tail)
           \<and> map_option CurrentStep (GetState sm3 ''s1'') = Some ''greeting'')"
proof -
  have 1: "states NewStateManager ''s1'' = None" by (simp add: NewStateManager_def)
  note t1 = MultiTurn_start_refund [OF 1 detectIntent_examples(1), of m t1 w]
  let ?h1 = "[\<lparr>msg_Role = ''user'', msg_Content = msg_i_want_a_refund, Timestamp = t1, Metadata = None\<rparr>,
              \<lparr>msg_Role = ''assistant'', msg_Content = mt_ask_order_id_for_refund,
               Timestamp = t1, Metadata = None\<rparr>]"
  let ?st1 = "\<lparr>SessionID = ''s1'', UserID = ''default_user'', CurrentStep = ''refund_request'',
         Context = Map.empty, History = ?h1, LastActivity = t1, CreatedAt = t1\<rparr>"
  let ?sm1 = "NewStateManager\<lparr>states := (states NewStateManager)(''s1'' \<mapsto> ?st1)\<rparr>"
  have ne: "MultiTurn_extractOrderID ''ORD789012'' \<noteq> []"
    by (simp add: MultiTurn_extractOrderID_examples)
  have t2: "MultiTurn_ProcessMessage m t2 ?sm1 ''s1'' ''ORD789012'' w =
     (Reply (mt_refund_for_order_head @ ''ORD789012'' @ mt_refund_for_order_tail),
      ?sm1\<lparr>states := (states ?sm1)(''s1'' \<mapsto>
            ?st1\<lparr>Context := (Context ?st1)(''order_id'' \<mapsto> VString ''ORD789012''),
               History := History ?st1 @
                 [\<lparr>msg_Role = ''user'', msg_Content = ''ORD789012'', Timestamp = t2, Metadata = None\<rparr>,
                  \<lparr>msg_Role = ''assistant'',
                   msg_Content = mt_refund_for_order_head @ ''ORD789012'' @ mt_refund_for_order_tail,
                   Timestamp = t2, Metadata = None\<rparr>],
               LastActivity := t2\<rparr>)\<rparr>, w)"
    using MultiTurn_refund_order_id [where sm = ?sm1 and sessionID = "''s1''" and st = ?st1
        and message = "''ORD789012''" and m = m and now = t2 and w = w, OF _ _ _ ne]
    by (simp add: MultiTurn_extractOrderID_examples Let_def)
  let ?st2 = "?st1\<lparr>Context := (Context ?st1)(''order_id'' \<mapsto> VString ''ORD789012''),
               History := History ?st1 @
                 [\<lparr>msg_Role = ''user'', msg_Content = ''ORD789012'', Timestamp = t2, Metadata = None\<rparr>,
                  \<lparr>msg_Role = ''assistant'',
                   msg_Content = mt_refund_for_order_head @ ''ORD789012'' @ mt_refund_for_order_tail,
                   Timestamp = t2, Metadata = None\<rparr>],
               LastActivity := t2\<rparr>"
  let ?sm2 = "?sm1\<lparr>states := (states ?sm1)(''s1'' \<mapsto> ?st2)\<rparr>"
  have t3: "fst (MultiTurn_ProcessMessage m t3 ?sm2 ''s1'' msg_quality_problem w)
              = Reply (mt_refund_submitted_head @ FormatRefundInfo (refundTool m) refundInfo
                          @ mt_anything_else_tail)
          \<and> map_option CurrentStep
                (GetState (fst (snd (MultiTurn_ProcessMessage m t3 ?sm2 ''s1'' msg_quality_problem w)))
                   ''s1'') = Some ''greeting''"
  proof -
    have c: "states ?sm2 ''s1'' = Some ?st2" "CurrentStep ?st2 = ''refund_request''"
      "Context ?st2 ''order_id'' = Some (VString ''ORD789012'')"
      "Context ?st2 ''refund_reason'' = None"
      by simp_all
    show ?thesis
      by (subst (1 2) MultiTurn_refund_reason [OF c assms]) (simp add: Let_def GetState_def)
  qed
  show ?thesis
    using t3 by (simp add: t1 t2 split_beta)
qed

subsection \<open>The dialogue: claims\<close>

text \<open>
  C10. For every session state whose current step is one of the steps that
  \<open>NewConversationFlow\<close> registers (\<open>greeting\<close>, \<open>order_query\<close>, \<open>refund_request\<close>), every
  input and every order in which the transition loop visits the steps, \<open>ProcessInput\<close>
  returns a response and the current step of the state it leaves is again a registered step.
\<close>

theorem C10_current_step_stays_registered:
  assumes "CurrentStep st \<in> registered_steps"
  shows "\<exists>response st'.
           ProcessInput NewConversationFlow order st input = (Inr response, st')
         \<and> CurrentStep st' \<in> registered_steps"
  using assms by (rule ProcessInput_registered)

theorem C10_current_step_stays_registered_witness:
  "CurrentStep session_in_order_query \<in> registered_steps
 \<and> (\<exists>response st'.
       ProcessInput NewConversationFlow [''refund_request'', ''greeting'', ''order_query'']
         session_in_order_query ''ORD123456'' = (Inr response, st')
     \<and> CurrentStep st' \<in> registered_steps)
 \<and> ''order_query'' \<in> registered_steps \<and> ''greeting'' \<in> registered_steps
 \<and> ''refund_request'' \<in> registered_steps \<and> ''checkout'' \<notin> registered_steps"
proof -
  have c: "CurrentStep session_in_order_query \<in> registered_steps"
    by (simp add: registered_steps_iff session_in_order_query_def)
  from C10_current_step_stays_registered [OF c] c show ?thesis
    by (simp add: registered_steps_iff)
qed

text \<open>
  C3, on the step machine (\<open>Manager.ProcessMessage\<close>, which runs \<open>ProcessInput\<close>): a fresh
  session \<open>s1\<close> and the three inputs of the scenario, for every user id, clock readings and
  orders of the transition loop. The first response asks for the order id and the reason,
  the second asks for the reason, with the order id stored and the session marked as
  awaiting the reason. The third input, the reason alone, is answered with the request for a
  valid order id, and the session stays in the \<open>refund_request\<close> step: \<open>RefundRequestStep\<close>
  looks for an order id in every input and never reads the context it wrote.
\<close>

theorem C3_refund_scenario_on_the_step_machine:
  "(let (r1, m1) = Manager_ProcessMessage o1 t1 NewManager ''s1'' userID msg_i_want_a_refund;
        (r2, m2) = Manager_ProcessMessage o2 t2 m1 ''s1'' userID ''ORD789012'';
        (r3, m3) = Manager_ProcessMessage o3 t3 m2 ''s1'' userID msg_quality_problem
    in r1 = Inr ask_order_id_and_reason
     \<and> r2 = Inr ask_refund_reason
     \<and> GetContext (stateManager m2) ''s1'' ''order_id'' = Some (VString ''ORD789012'')
     \<and> GetContext (stateManager m2) ''s1'' ''awaiting_refund_reason'' = Some (VBool True)
     \<and> r3 = Inr no_order_id_reply
     \<and> GetCurrentStep m3 ''s1'' = Inr ''refund_request'')"
proof -
  let ?u1 = "\<lparr>msg_Role = ''user'', msg_Content = msg_i_want_a_refund, Timestamp = t1, Metadata = None\<rparr>"
  let ?a1 = "\<lparr>msg_Role = ''assistant'', msg_Content = ask_order_id_and_reason, Timestamp = t1, Metadata = None\<rparr>"
  let ?u2 = "\<lparr>msg_Role = ''user'', msg_Content = ''ORD789012'', Timestamp = t2, Metadata = None\<rparr>"
  let ?a2 = "\<lparr>msg_Role = ''assistant'', msg_Content = ask_refund_reason, Timestamp = t2, Metadata = None\<rparr>"
  let ?u3 = "\<lparr>msg_Role = ''user'', msg_Content = msg_quality_problem, Timestamp = t3, Metadata = None\<rparr>"
  let ?a3 = "\<lparr>msg_Role = ''assistant'', msg_Content = no_order_id_reply, Timestamp = t3, Metadata = None\<rparr>"
  let ?s1 = "\<lparr>SessionID = ''s1'', UserID = userID, CurrentStep = ''refund_request'',
              Context = Map.empty, History = [?u1, ?a1], LastActivity = t1, CreatedAt = t1\<rparr>"
  let ?s2 = "\<lparr>SessionID = ''s1'', UserID = userID, CurrentStep = ''refund_request'',
              Context = [''order_id'' \<mapsto> VString ''ORD789012'',
                         ''awaiting_refund_reason'' \<mapsto> VBool True],
              History = [?u1, ?a1, ?u2, ?a2], LastActivity = t2, CreatedAt = t1\<rparr>"
  let ?s3 = "\<lparr>SessionID = ''s1'', UserID = userID, CurrentStep = ''refund_request'',
              Context = [''order_id'' \<mapsto> VString ''ORD789012'',
                         ''awaiting_refund_reason'' \<mapsto> VBool True],
              History = [?u1, ?a1, ?u2, ?a2, ?u3, ?a3], LastActivity = t3, CreatedAt = t1\<rparr>"
  let ?m1 = "\<lparr>stateManager = \<lparr>states = [''s1'' \<mapsto> ?s1]\<rparr>, flow = NewConversationFlow\<rparr>"
  let ?m2 = "\<lparr>stateManager = \<lparr>states = [''s1'' \<mapsto> ?s2]\<rparr>, flow = NewConversationFlow\<rparr>"
  let ?m3 = "\<lparr>stateManager = \<lparr>states = [''s1'' \<mapsto> ?s3]\<rparr>, flow = NewConversationFlow\<rparr>"
  have p1: "states (stateManager NewManager) ''s1'' = None"
    by (simp add: NewManager_def NewStateManager_def)
  have f1: "flow NewManager = NewConversationFlow" by (simp add: NewManager_def)
  have 1: "Manager_ProcessMessage o1 t1 NewManager ''s1'' userID msg_i_want_a_refund
             = (Inr ask_order_id_and_reason, ?m1)"
    using Manager_ProcessMessage_new [OF p1, where order = o1 and userID = userID
        and message = msg_i_want_a_refund and now = t1 and response = ask_order_id_and_reason] ProcessInput_turn1 [of _ o1]
    by (simp add: f1) (simp add: NewManager_def NewStateManager_def)
  have 2: "Manager_ProcessMessage o2 t2 ?m1 ''s1'' userID ''ORD789012'' = (Inr ask_refund_reason, ?m2)"
    using Manager_ProcessMessage_old [where m = ?m1 and sessionID = "''s1''" and st = ?s1
        and order = o2 and message = "''ORD789012''" and now = t2
        and response = ask_refund_reason and userID = userID] ProcessInput_turn2 [of _ o2]
    by simp
  have 3: "Manager_ProcessMessage o3 t3 ?m2 ''s1'' userID msg_quality_problem = (Inr no_order_id_reply, ?m3)"
    using Manager_ProcessMessage_old [where m = ?m2 and sessionID = "''s1''" and st = ?s2
        and order = o3 and message = msg_quality_problem and now = t3
        and response = no_order_id_reply and userID = userID] ProcessInput_turn3 [of _ o3]
    by simp
  show ?thesis
    by (simp add: 1 2 3 GetContext_def GetCurrentStep_def GetState_def)
qed

text \<open>
  C8, as the claim is worded: a session whose current step is unknown would be treated as
  being in \<open>greeting\<close> and get a response. \<open>ProcessInput\<close> fails with an error; the multi-turn
  conversation sends a message without intent to the chat model, whose failure it returns
  (in \<open>greeting\<close> the same message gets the fixed greeting).
\<close>

theorem C8_unknown_step_counterexample:
  "ProcessInput NewConversationFlow [''greeting'', ''order_query'', ''refund_request'']
     session_in_unknown_step msg_hello
     = (Inl (err_step_not_found @ ''checkout''), session_in_unknown_step)
 \<and> fst (MultiTurn_ProcessMessage example_conversation 7 example_store ''s3'' msg_hello 0)
     = Failure ''model unavailable''"
proof
  have "steps (registry NewConversationFlow) (CurrentStep session_in_unknown_step) = None"
    by (simp add: default_steps session_in_unknown_step_def)
  from ProcessInput_unknown_step [OF this]
  show "ProcessInput NewConversationFlow [''greeting'', ''order_query'', ''refund_request'']
     session_in_unknown_step msg_hello
     = (Inl (err_step_not_found @ ''checkout''), session_in_unknown_step)"
    by (simp add: session_in_unknown_step_def)
next
  have s: "states example_store ''s3'' = Some session_in_unknown_step"
    by (simp add: example_store_def)
  have c: "CurrentStep session_in_unknown_step \<noteq> ''greeting''"
    "CurrentStep session_in_unknown_step \<noteq> ''order_query''"
    "CurrentStep session_in_unknown_step \<noteq> ''refund_request''"
    by (simp_all add: session_in_unknown_step_def)
  show "fst (MultiTurn_ProcessMessage example_conversation 7 example_store ''s3'' msg_hello 0)
     = Failure ''model unavailable''"
    by (subst MultiTurn_unknown_step_general [OF s c detectIntent_examples(2)])
       (simp add: example_conversation_def)
qed

text \<open>
  C8, amended. For every session whose current step is not a step of the machine:
  \<open>ProcessInput\<close> fails with the error naming the step and leaves the session as it is. The
  multi-turn conversation does not fail on that account: a message with the order-query or
  refund intent is processed exactly as if the session were in \<open>greeting\<close>; any other
  message is handed to the general chat model, whose reply is the response and whose error
  is returned as the error of the turn.
\<close>

theorem C8_unknown_step:
  "(steps (registry f) (CurrentStep st) = None \<longrightarrow>
      ProcessInput f order st input = (Inl (err_step_not_found @ CurrentStep st), st))
 \<and> (states sm sessionID = Some st \<and> CurrentStep st \<noteq> ''greeting''
      \<and> CurrentStep st \<noteq> ''order_query'' \<and> CurrentStep st \<noteq> ''refund_request'' \<longrightarrow>
      (detectIntent input \<noteq> ''general'' \<longrightarrow>
         MultiTurn_ProcessMessage m now sm sessionID input w
         = MultiTurn_ProcessMessage m now
             (sm\<lparr>states := (states sm)(sessionID \<mapsto> st\<lparr>CurrentStep := ''greeting''\<rparr>)\<rparr>)
             sessionID input w)
    \<and> (detectIntent input = ''general'' \<longrightarrow>
         MultiTurn_ProcessMessage m now sm sessionID input w
         = (case handleGeneralChat m input w of
              (Inl err, w') \<Rightarrow>
                (Failure err, snd (AddMessage now sm sessionID ''user'' input None), w')
            | (Inr text, w') \<Rightarrow>
                (Reply text,
                 snd (AddMessage now (snd (AddMessage now sm sessionID ''user'' input None))
                        sessionID ''assistant'' text None), w'))))"
  using ProcessInput_unknown_step [of f st order input]
    MultiTurn_unknown_step_as_greeting [of sm sessionID st input m now w]
    MultiTurn_unknown_step_general [of sm sessionID st input m now w]
  by blast

theorem C8_unknown_step_witness:
  "steps (registry NewConversationFlow) (CurrentStep session_in_unknown_step) = None
 \<and> states example_store ''s3'' = Some session_in_unknown_step
 \<and> CurrentStep session_in_unknown_step = ''checkout''
 \<and> detectIntent msg_i_want_a_refund = ''refund_request''
 \<and> detectIntent msg_hello = ''general''
 \<and> ProcessInput NewConversationFlow [''order_query'', ''greeting''] session_in_unknown_step
       msg_i_want_a_refund
     = (Inl (err_step_not_found @ ''checkout''), session_in_unknown_step)
 \<and> MultiTurn_ProcessMessage example_conversation 7 example_store ''s3'' msg_i_want_a_refund 0
     = MultiTurn_ProcessMessage example_conversation 7
         (example_store\<lparr>states := (states example_store)(''s3'' \<mapsto>
            session_in_unknown_step\<lparr>CurrentStep := ''greeting''\<rparr>)\<rparr>)
         ''s3'' msg_i_want_a_refund 0
 \<and> fst (MultiTurn_ProcessMessage example_conversation 7 example_store ''s3'' msg_i_want_a_refund 0)
     = Reply mt_ask_order_id_for_refund
 \<and> MultiTurn_ProcessMessage example_conversation 7 example_store ''s3'' msg_hello 0
     = (Failure ''model unavailable'',
        snd (AddMessage 7 example_store ''s3'' ''user'' msg_hello None), 1)"
proof -
  have s: "states example_store ''s3'' = Some session_in_unknown_step"
    by (simp add: example_store_def)
  have c: "CurrentStep session_in_unknown_step = ''checkout''"
    by (simp add: session_in_unknown_step_def)
  have n: "steps (registry NewConversationFlow) (CurrentStep session_in_unknown_step) = None"
    by (simp add: default_steps c)
  have g: "fst (MultiTurn_ProcessMessage example_conversation 7
         (example_store\<lparr>states := (states example_store)(''s3'' \<mapsto>
            session_in_unknown_step\<lparr>CurrentStep := ''greeting''\<rparr>)\<rparr>)
         ''s3'' msg_i_want_a_refund 0) = Reply mt_ask_order_id_for_refund"
    by (simp add: MultiTurn_ProcessMessage_def handleGreetingStep_def startRefundRequest_def
          detectIntent_examples GetOrCreateState_def GetState_def AddMessage_def
          SetCurrentStep_def UpdateState_def Let_def example_store_def
          session_in_unknown_step_def)
  from C8_unknown_step [of NewConversationFlow session_in_unknown_step "[''order_query'', ''greeting'']"
      msg_i_want_a_refund example_store "''s3''" example_conversation 7 0]
    C8_unknown_step [of NewConversationFlow session_in_unknown_step "[''order_query'', ''greeting'']"
      msg_hello example_store "''s3''" example_conversation 7 0]
    s c n g
  show ?thesis
    by (simp add: detectIntent_examples example_conversation_def)
qed




end
